theory Spec2Isabelle
  imports
    Complex_Main
    "HOL-Library.AList"
    "HOL-Library.Char_ord"
    "HOL-Library.List_Lexorder"
    "HOL-Library.Log_Nat"
    "HOL-Library.Sublist"
begin

section \<open>Python values\<close>

text \<open>
  The three scripts (\<^verbatim>\<open>scripts/phase1_parse_excel.py\<close>,
  \<^verbatim>\<open>scripts/phase2_enrich_inject.py\<close>, \<^verbatim>\<open>scripts/phase3_db_inject.py\<close>) pass
  around what \<^verbatim>\<open>json.loads\<close>, \<^verbatim>\<open>openpyxl\<close> and \<^verbatim>\<open>sqlite3\<close> hand them: \<^verbatim>\<open>None\<close>,
  booleans, unbounded integers, doubles, strings, lists, dictionaries and (from the
  spreadsheet only) datetimes.

  \<^item> A double is its numeric value, or one of the three special values.
  \<^item> A string is the list of its UTF-8 bytes; the scripts only test strings for equality
    and emptiness, delete the characters outside \<^verbatim>\<open>0-9\<close> and search for ASCII markers,
    all of which agree on bytes and on code points.
  \<^item> A dictionary is an association list in insertion order with distinct keys: lookup
    is \<^const>\<open>map_of\<close>, assignment is \<^const>\<open>AList.update\<close> (an existing key keeps its
    position, a new one goes to the end, as in Python).
  \<^item> A datetime is represented by its \<^verbatim>\<open>str()\<close> text (\<^verbatim>\<open>YYYY-MM-DD HH:MM:SS\<close>).
  \<^item> Values are compared structurally. Python's \<^verbatim>\<open>==\<close> moreover identifies \<^verbatim>\<open>True\<close>,
    \<^verbatim>\<open>1\<close> and \<^verbatim>\<open>1.0\<close> and separates NaN from itself; the two notions agree on strings
    and \<^verbatim>\<open>None\<close>, the only values the data model admits as identities and keys.
\<close>

datatype pyfloat = FVal real | FInf | FNegInf | FNaN

datatype pyval =
    PNone
  | PBool bool
  | PInt int
  | PFloat pyfloat
  | PStr string
  | PList "pyval list"
  | PDict "(string \<times> pyval) list"
  | PDatetime string

type_synonym pydict = "(string \<times> pyval) list"

text \<open>Every exception class that one of the modelled statements can raise.\<close>

datatype py_error =
    ValueError
  | TypeError
  | OverflowError
  | KeyError
  | AttributeError
  | IndexError
  | JSONDecodeError
  | FileNotFoundError
  | ReError
  | SystemExit

text \<open>Truth value of a Python value, as \<^verbatim>\<open>if x\<close>, \<^verbatim>\<open>x or y\<close> and \<^verbatim>\<open>not x\<close> use it.\<close>

fun truthy :: "pyval \<Rightarrow> bool" where
  "truthy PNone = False"
| "truthy (PBool b) = b"
| "truthy (PInt n) = (n \<noteq> 0)"
| "truthy (PFloat f) = (f \<noteq> FVal 0)"
| "truthy (PStr s) = (s \<noteq> [])"
| "truthy (PList xs) = (xs \<noteq> [])"
| "truthy (PDict kvs) = (kvs \<noteq> [])"
| "truthy (PDatetime s) = True"

text \<open>\<^verbatim>\<open>x or d\<close>\<close>

definition py_or :: "pyval \<Rightarrow> pyval \<Rightarrow> pyval" where
  "py_or x d = (if truthy x then x else d)"

text \<open>
  Library functions of the Python runtime that the scripts call and that are not code of
  this repository are parameters of the model; every theorem holds for all of them.
  \<^item> \<open>json_loads\<close>: \<^verbatim>\<open>json.loads\<close> / \<^verbatim>\<open>json.load\<close>; \<open>None\<close> is \<^verbatim>\<open>JSONDecodeError\<close>.
  \<^item> \<open>json_dumps\<close>: \<^verbatim>\<open>json.dumps(v, ensure_ascii=False, separators=(",", ":"))\<close>.
  \<^item> \<open>json_dumps_indent\<close>: the text \<^verbatim>\<open>json.dump(v, f, ensure_ascii=False, indent=2)\<close> writes.
  \<^item> \<open>float_of_str\<close>: \<^verbatim>\<open>float(s)\<close> on a string; \<open>None\<close> is \<^verbatim>\<open>ValueError\<close>.
  \<^item> \<open>str_of\<close>: \<^verbatim>\<open>str(v)\<close> on a value that is not a string.
  \<^item> \<open>strptime_ymd\<close>: \<^verbatim>\<open>datetime.strptime(s, "%Y-%m-%d")\<close> as (year, month, day);
    \<open>None\<close> is \<^verbatim>\<open>ValueError\<close>.
  \<^item> \<open>compile_template\<close>: how \<^verbatim>\<open>re.sub\<close> reads a replacement string that contains a
    backslash: \<open>None\<close> is \<^verbatim>\<open>re.error\<close> (a bad escape), otherwise the function from
    the matched text to the text put in its place.
\<close>

record runtime =
  json_loads :: "string \<Rightarrow> pyval option"
  json_dumps :: "pyval \<Rightarrow> string"
  json_dumps_indent :: "pyval \<Rightarrow> string"
  float_of_str :: "string \<Rightarrow> pyfloat option"
  str_of :: "pyval \<Rightarrow> string"
  strptime_ymd :: "string \<Rightarrow> (nat \<times> nat \<times> nat) option"
  compile_template :: "string \<Rightarrow> (string \<Rightarrow> string) option"

text \<open>\<^verbatim>\<open>str(v)\<close>\<close>

definition py_str :: "runtime \<Rightarrow> pyval \<Rightarrow> string" where
  "py_str rt v = (case v of PStr s \<Rightarrow> s | PDatetime s \<Rightarrow> s | _ \<Rightarrow> str_of rt v)"

section \<open>Conversion to a double\<close>

text \<open>
  \<^verbatim>\<open>float(n)\<close> on an integer rounds to the nearest double (53 significant bits, ties to
  even) and raises \<^verbatim>\<open>OverflowError\<close> when the rounded value exceeds the largest double,
  \<open>2^1024 - 2^971\<close>.
\<close>

definition dbl_max :: nat where
  "dbl_max = 2 ^ 1024 - 2 ^ 971"

definition round_to_double :: "nat \<Rightarrow> nat" where
  "round_to_double m =
     (if m < 2 ^ 53 then m
      else let e = floorlog 2 m - 53;
               q = m div 2 ^ e;
               r = m mod 2 ^ e;
               h = 2 ^ (e - 1)
           in (if r < h \<or> (r = h \<and> even q) then q else q + 1) * 2 ^ e)"

definition float_of_int :: "int \<Rightarrow> py_error + pyfloat" where
  "float_of_int n =
     (let r = round_to_double (nat \<bar>n\<bar>)
      in if dbl_max < r then Inl OverflowError
         else Inr (FVal (if n < 0 then - real r else real r)))"

text \<open>\<^verbatim>\<open>float(v)\<close>\<close>

fun py_float :: "runtime \<Rightarrow> pyval \<Rightarrow> py_error + pyfloat" where
  "py_float rt PNone = Inl TypeError"
| "py_float rt (PBool b) = Inr (FVal (if b then 1 else 0))"
| "py_float rt (PInt n) = float_of_int n"
| "py_float rt (PFloat f) = Inr f"
| "py_float rt (PStr s) =
     (case float_of_str rt s of None \<Rightarrow> Inl ValueError | Some f \<Rightarrow> Inr f)"
| "py_float rt (PList xs) = Inl TypeError"
| "py_float rt (PDict kvs) = Inl TypeError"
| "py_float rt (PDatetime s) = Inl TypeError"

text \<open>\<^verbatim>\<open>v < t\<close> for a double \<open>v\<close> and an integer literal \<open>t\<close>; false on NaN.\<close>

fun float_less :: "pyfloat \<Rightarrow> int \<Rightarrow> bool" where
  "float_less (FVal x) t = (x < real_of_int t)"
| "float_less FInf t = False"
| "float_less FNegInf t = True"
| "float_less FNaN t = False"

section \<open>Labels\<close>

text \<open>
  The labels are Korean string literals in the source; they are given here by their UTF-8
  bytes. In the order of the definitions: U+BBF8 U+B9E4 U+CE6D (what the specification calls
  "unmatched"), "1" U+CC9C U+B9CC " " U+BBF8 U+B9CC ("under 10M"),
  "1" U+CC9C U+B9CC "~5" U+CC9C U+B9CC ("10M-50M"), "5" U+CC9C U+B9CC "~1" U+C5B5
  ("50M-100M"), "1" U+C5B5 "~5" U+C5B5 ("100M-500M"), "5" U+C5B5 " " U+C774 U+C0C1
  ("500M and above"), U+BBF8 U+D655 U+C778 ("unidentified") and U+BBF8 U+BD84 U+B958
  ("unclassified").
\<close>

definition label_unmatched :: string where
  "label_unmatched =
     [CHR 0xEB, CHR 0xAF, CHR 0xB8, CHR 0xEB, CHR 0xA7, CHR 0xA4, CHR 0xEC, CHR 0xB9, CHR 0xAD]"

definition label_under_10M :: string where
  "label_under_10M =
     [CHR ''1'', CHR 0xEC, CHR 0xB2, CHR 0x9C, CHR 0xEB, CHR 0xA7, CHR 0x8C, CHR '' '',
      CHR 0xEB, CHR 0xAF, CHR 0xB8, CHR 0xEB, CHR 0xA7, CHR 0x8C]"

definition label_10M_50M :: string where
  "label_10M_50M =
     [CHR ''1'', CHR 0xEC, CHR 0xB2, CHR 0x9C, CHR 0xEB, CHR 0xA7, CHR 0x8C, CHR ''~'',
      CHR ''5'', CHR 0xEC, CHR 0xB2, CHR 0x9C, CHR 0xEB, CHR 0xA7, CHR 0x8C]"

definition label_50M_100M :: string where
  "label_50M_100M =
     [CHR ''5'', CHR 0xEC, CHR 0xB2, CHR 0x9C, CHR 0xEB, CHR 0xA7, CHR 0x8C, CHR ''~'',
      CHR ''1'', CHR 0xEC, CHR 0x96, CHR 0xB5]"

definition label_100M_500M :: string where
  "label_100M_500M =
     [CHR ''1'', CHR 0xEC, CHR 0x96, CHR 0xB5, CHR ''~'', CHR ''5'', CHR 0xEC, CHR 0x96, CHR 0xB5]"

definition label_500M_up :: string where
  "label_500M_up =
     [CHR ''5'', CHR 0xEC, CHR 0x96, CHR 0xB5, CHR '' '', CHR 0xEC, CHR 0x9D, CHR 0xB4,
      CHR 0xEC, CHR 0x83, CHR 0x81]"

definition label_unidentified :: string where
  "label_unidentified =
     [CHR 0xEB, CHR 0xAF, CHR 0xB8, CHR 0xED, CHR 0x99, CHR 0x95, CHR 0xEC, CHR 0x9D, CHR 0xB8]"

definition label_unclassified :: string where
  "label_unclassified =
     [CHR 0xEB, CHR 0xAF, CHR 0xB8, CHR 0xEB, CHR 0xB6, CHR 0x84, CHR 0xEB, CHR 0xA5, CHR 0x98]"

section \<open>Tier classifier\<close>

text \<open>
  \<^verbatim>\<open>to_limit_tier\<close>, the same text in phase 2 (lines 27-44) and phase 3 (lines 37-53).
  \<^verbatim>\<open>ValueError\<close> and \<^verbatim>\<open>TypeError\<close> of the conversion are caught; any other exception
  leaves the function.
\<close>

definition to_limit_tier :: "runtime \<Rightarrow> pyval \<Rightarrow> py_error + string" where
  "to_limit_tier rt grant_limit =
     (if grant_limit = PNone then Inr label_unmatched
      else case py_float rt grant_limit of
          Inl ValueError \<Rightarrow> Inr label_unmatched
        | Inl TypeError \<Rightarrow> Inr label_unmatched
        | Inl e \<Rightarrow> Inl e
        | Inr v \<Rightarrow>
            Inr (if float_less v 10000000 then label_under_10M
                 else if float_less v 50000000 then label_10M_50M
                 else if float_less v 100000000 then label_50M_100M
                 else if float_less v 500000000 then label_100M_500M
                 else label_500M_up))"

text \<open>
  The table of the specification (section 4.4) for a numeric magnitude, with the ranges
  of the claim written out; \<open>to_limit_tier\<close> is compared with it below.
\<close>

definition tier_of_magnitude :: "real \<Rightarrow> string" where
  "tier_of_magnitude x =
     (if x < 10000000 then label_under_10M
      else if 10000000 \<le> x \<and> x < 50000000 then label_10M_50M
      else if 50000000 \<le> x \<and> x < 100000000 then label_50M_100M
      else if 100000000 \<le> x \<and> x < 500000000 then label_100M_500M
      else label_500M_up)"

section \<open>Dictionaries, iteration, strings\<close>

text \<open>\<^verbatim>\<open>d.get(k, default)\<close> on a dictionary.\<close>

definition alist_get :: "('k \<times> 'v) list \<Rightarrow> 'k \<Rightarrow> 'v \<Rightarrow> 'v" where
  "alist_get d k dflt = (case map_of d k of None \<Rightarrow> dflt | Some v \<Rightarrow> v)"

text \<open>\<^verbatim>\<open>r.get(k, default)\<close> on any value: only a dictionary has the method.\<close>

fun py_get :: "pyval \<Rightarrow> string \<Rightarrow> pyval \<Rightarrow> py_error + pyval" where
  "py_get (PDict d) k dflt = Inr (alist_get d k dflt)"
| "py_get v k dflt = Inl AttributeError"

text \<open>\<^verbatim>\<open>r[k]\<close> with a string key \<open>k\<close>: \<^verbatim>\<open>KeyError\<close> on a dictionary without the key,
  \<^verbatim>\<open>TypeError\<close> on every other value.\<close>

fun py_getitem :: "pyval \<Rightarrow> string \<Rightarrow> py_error + pyval" where
  "py_getitem (PDict d) k = (case map_of d k of None \<Rightarrow> Inl KeyError | Some v \<Rightarrow> Inr v)"
| "py_getitem v k = Inl TypeError"

text \<open>\<^verbatim>\<open>for x in v\<close>: the elements of a list, the keys of a dictionary, the characters of a
  string; \<^verbatim>\<open>TypeError\<close> on a value that is not iterable.\<close>

fun py_iter :: "pyval \<Rightarrow> py_error + pyval list" where
  "py_iter (PList xs) = Inr xs"
| "py_iter (PDict d) = Inr (map (\<lambda>kv. PStr (fst kv)) d)"
| "py_iter (PStr s) = Inr (map (\<lambda>c. PStr [c]) s)"
| "py_iter v = Inl TypeError"

text \<open>Lists and dictionaries cannot be members of a set or keys of a dictionary.\<close>

fun hashable :: "pyval \<Rightarrow> bool" where
  "hashable (PList xs) = False"
| "hashable (PDict d) = False"
| "hashable v = True"

text \<open>\<^verbatim>\<open>re.sub(r"[^0-9]", "", s)\<close>\<close>

definition strip_non_digits :: "string \<Rightarrow> string" where
  "strip_non_digits s = filter (\<lambda>c. c \<in> set ''0123456789'') s"

text \<open>\<^verbatim>\<open>int(s)\<close> on a string of ASCII digits.\<close>

definition int_of_digits :: "string \<Rightarrow> int" where
  "int_of_digits s = foldl (\<lambda>n c. 10 * n + (int (of_char c) - 48)) 0 s"

section \<open>Segment resolver\<close>

text \<open>
  The loop that turns result rows into the profile mapping occurs four times in the source
  with the same text (\<^verbatim>\<open>load_segment_cache\<close> and \<^verbatim>\<open>fetch_segments_from_bq\<close>, in phase 2
  and in phase 3):
  \<^verbatim>\<open>
    for row in rows:
        cid = str(row.get("corp_id", ""))
        seg_map[cid] = {
            "detailCategory": row.get("detail_category") or <unmatched>,
            "stabilityStatus": row.get("stability_status") or <unmatched>,
            "growthStatus": row.get("growth_status") or <unmatched>,
            "limitTier": to_limit_tier(row.get("grant_limit")),
        }
  \<close>
\<close>

definition seg_entry :: "runtime \<Rightarrow> pyval \<Rightarrow> py_error + (string \<times> pydict)" where
  "seg_entry rt row =
     (case row of
        PDict d \<Rightarrow>
          (case to_limit_tier rt (alist_get d ''grant_limit'' PNone) of
             Inl e \<Rightarrow> Inl e
           | Inr tier \<Rightarrow>
               Inr (py_str rt (alist_get d ''corp_id'' (PStr [])),
                    [(''detailCategory'',
                        py_or (alist_get d ''detail_category'' PNone) (PStr label_unmatched)),
                     (''stabilityStatus'',
                        py_or (alist_get d ''stability_status'' PNone) (PStr label_unmatched)),
                     (''growthStatus'',
                        py_or (alist_get d ''growth_status'' PNone) (PStr label_unmatched)),
                     (''limitTier'', PStr tier)]))
      | _ \<Rightarrow> Inl AttributeError)"

fun build_seg_map ::
  "runtime \<Rightarrow> pyval list \<Rightarrow> (string \<times> pydict) list \<Rightarrow> py_error + (string \<times> pydict) list"
where
  "build_seg_map rt [] seg_map = Inr seg_map"
| "build_seg_map rt (row # rows) seg_map =
     (case seg_entry rt row of
        Inl e \<Rightarrow> Inl e
      | Inr (cid, seg) \<Rightarrow> build_seg_map rt rows (AList.update cid seg seg_map))"

text \<open>
  \<^verbatim>\<open>load_segment_cache\<close> (phase 2 lines 131-147, phase 3 lines 104-118, same text). The
  argument is the content of \<^verbatim>\<open>data/segment_cache.json\<close>, \<open>None\<close> when the file does
  not exist. A cache that is not JSON raises: nothing catches the decoder's error.
\<close>

definition load_segment_cache ::
  "runtime \<Rightarrow> string option \<Rightarrow> py_error + (string \<times> pydict) list"
where
  "load_segment_cache rt cache =
     (case cache of
        None \<Rightarrow> Inr []
      | Some text \<Rightarrow>
          (case json_loads rt text of
             None \<Rightarrow> Inl JSONDecodeError
           | Some rows \<Rightarrow>
               (case py_iter rows of
                  Inl e \<Rightarrow> Inl e
                | Inr rs \<Rightarrow> build_seg_map rt rs [])))"

text \<open>
  A cache file from which \<^verbatim>\<open>load_segment_cache\<close> builds a mapping: absent, or a JSON
  array of objects whose grant limits \<^verbatim>\<open>to_limit_tier\<close> classifies. The resolver writes
  the cache only from rows that have passed the same loop.
\<close>

definition row_ok :: "runtime \<Rightarrow> pyval \<Rightarrow> bool" where
  "row_ok rt row =
     (case row of
        PDict d \<Rightarrow>
          (case to_limit_tier rt (alist_get d ''grant_limit'' PNone) of
             Inl e \<Rightarrow> False
           | Inr tier \<Rightarrow> True)
      | _ \<Rightarrow> False)"

definition cache_ok :: "runtime \<Rightarrow> string option \<Rightarrow> bool" where
  "cache_ok rt cache =
     (case cache of
        None \<Rightarrow> True
      | Some text \<Rightarrow>
          (case json_loads rt text of
             Some (PList rows) \<Rightarrow> list_all (row_ok rt) rows
           | _ \<Rightarrow> False))"

text \<open>
  What \<^verbatim>\<open>subprocess.run(cmd, capture_output=True, text=True, timeout=30)\<close> does for the
  \<^verbatim>\<open>bq query\<close> command: \<^verbatim>\<open>FileNotFoundError\<close> when there is no \<^verbatim>\<open>bq\<close> executable,
  \<^verbatim>\<open>TimeoutExpired\<close> after 30 seconds, or a completed process with its return code and
  standard output. The remote side is a parameter: a function from the requested
  identifiers to one of these outcomes. Both callers build the identifier list from a set,
  so the identifiers are a set here.
\<close>

datatype bq_result = BqNotFound | BqTimeout | BqCompleted int string

text \<open>
  \<^verbatim>\<open>fetch_segments_from_bq\<close>. The result is paired with the content of the cache file
  after the call. The \<^verbatim>\<open>try\<close> block covers the query, the decoding, the loop and the
  cache write; \<^verbatim>\<open>except\<close> catches \<^verbatim>\<open>FileNotFoundError\<close>, \<^verbatim>\<open>TimeoutExpired\<close> and
  \<^verbatim>\<open>JSONDecodeError\<close>; a non-zero return code falls through to the same fallback. The
  \<^verbatim>\<open>data\<close> directory is taken to exist, so that writing the cache cannot fail.
  \<open>bq_success\<close> is the body of \<^verbatim>\<open>if result.returncode == 0\<close> after decoding,
  \<open>bq_attempt\<close> the \<^verbatim>\<open>try\<close> statement with the fallback that follows it.
\<close>

definition bq_success ::
  "runtime \<Rightarrow> string option \<Rightarrow> pyval \<Rightarrow> (py_error + (string \<times> pydict) list) \<times> string option"
where
  "bq_success rt cache rows =
     (case py_iter rows of
        Inl e \<Rightarrow> (Inl e, cache)
      | Inr rs \<Rightarrow>
          (case build_seg_map rt rs [] of
             Inl e \<Rightarrow> (Inl e, cache)
           | Inr seg_map \<Rightarrow> (Inr seg_map, Some (json_dumps_indent rt rows))))"

definition bq_attempt ::
  "runtime \<Rightarrow> bq_result \<Rightarrow> string option \<Rightarrow>
     (py_error + (string \<times> pydict) list) \<times> string option"
where
  "bq_attempt rt res cache =
     (case res of
        BqCompleted returncode stdout \<Rightarrow>
          (if returncode = 0 then
             (case json_loads rt stdout of
                None \<Rightarrow> (load_segment_cache rt cache, cache)
              | Some rows \<Rightarrow> bq_success rt cache rows)
           else (load_segment_cache rt cache, cache))
      | _ \<Rightarrow> (load_segment_cache rt cache, cache))"

text \<open>Phase 2, lines 150-197: an empty identifier list returns the empty dictionary.\<close>

definition p2_fetch_segments_from_bq ::
  "runtime \<Rightarrow> (int set \<Rightarrow> bq_result) \<Rightarrow> int set \<Rightarrow> string option \<Rightarrow>
     (py_error + (string \<times> pydict) list) \<times> string option"
where
  "p2_fetch_segments_from_bq rt bq corp_ids cache =
     (if corp_ids = {} then (Inr [], cache)
      else bq_attempt rt (bq corp_ids) cache)"

text \<open>Phase 3, lines 121-156: an empty identifier list returns the loaded cache.\<close>

definition p3_fetch_segments_from_bq ::
  "runtime \<Rightarrow> (int set \<Rightarrow> bq_result) \<Rightarrow> int set \<Rightarrow> string option \<Rightarrow>
     (py_error + (string \<times> pydict) list) \<times> string option"
where
  "p3_fetch_segments_from_bq rt bq corp_ids cache =
     (if corp_ids = {} then (load_segment_cache rt cache, cache)
      else bq_attempt rt (bq corp_ids) cache)"

text \<open>
  A remote query that failed in one of the four ways the resolver recovers from: no
  executable, timeout, non-zero return code, or output that is not JSON.
\<close>

definition bq_failed :: "runtime \<Rightarrow> bq_result \<Rightarrow> bool" where
  "bq_failed rt res =
     (case res of
        BqNotFound \<Rightarrow> True
      | BqTimeout \<Rightarrow> True
      | BqCompleted returncode stdout \<Rightarrow> returncode \<noteq> 0 \<or> json_loads rt stdout = None)"

section \<open>Spreadsheet rows\<close>

text \<open>
  A workbook is read through \<^verbatim>\<open>ws.cell(r, c).value\<close> for \<open>r\<close> from 2 to \<^verbatim>\<open>ws.max_row\<close>.
  A sheet is the list of these rows, each row the cells the scripts look at: columns 1, 2,
  3, 4, 9, 14, 67 and 79 of \<^verbatim>\<open>UserChat\<close>, columns 1, 5 and 6 of \<^verbatim>\<open>User data\<close>. A cell
  holds \<^verbatim>\<open>None\<close>, a boolean, a number, a string or a datetime.
\<close>

record chat_row =
  chat_id :: pyval
  managed_at :: pyval
  company :: pyval
  corp_direct :: pyval
  old_tag :: pyval
  user_id :: pyval
  first_answer_sec :: pyval
  close_sec :: pyval

record user_row =
  uid :: pyval
  u_company :: pyval
  u_corp_number :: pyval

type_synonym workbook = "chat_row list \<times> user_row list"

section \<open>Identifier mapper\<close>

text \<open>
  \<^verbatim>\<open>build_corp_number_map\<close> (phase 2, lines 68-128). The first loop (lines 96-106) fills
  \<^verbatim>\<open>chat_to_user\<close> and \<^verbatim>\<open>chat_to_corp_direct\<close>:
  \<^verbatim>\<open>
    chat_id = ws_chat.cell(r, 1).value
    if not chat_id: continue
    user_id = ws_chat.cell(r, 14).value
    if user_id: chat_to_user[chat_id] = user_id
    corp_direct = ws_chat.cell(r, 4).value
    if corp_direct and isinstance(corp_direct, str):
        chat_to_corp_direct[chat_id] = re.sub(r"[^0-9]", "", corp_direct)
  \<close>
\<close>

fun scan_userchat ::
  "chat_row list \<Rightarrow> (pyval \<times> pyval) list \<Rightarrow> (pyval \<times> string) list \<Rightarrow>
     (pyval \<times> pyval) list \<times> (pyval \<times> string) list"
where
  "scan_userchat [] chat_to_user chat_to_corp_direct = (chat_to_user, chat_to_corp_direct)"
| "scan_userchat (row # rows) chat_to_user chat_to_corp_direct =
     (if \<not> truthy (chat_id row) then scan_userchat rows chat_to_user chat_to_corp_direct
      else scan_userchat rows
        (if truthy (user_id row)
         then AList.update (chat_id row) (user_id row) chat_to_user
         else chat_to_user)
        (case corp_direct row of
           PStr s \<Rightarrow>
             (if s \<noteq> []
              then AList.update (chat_id row) (strip_non_digits s) chat_to_corp_direct
              else chat_to_corp_direct)
         | _ \<Rightarrow> chat_to_corp_direct))"

text \<open>
  The second loop (lines 111-115):
  \<^verbatim>\<open>
    uid = ws_user.cell(r, 1).value
    corp = ws_user.cell(r, 6).value
    if uid and corp: user_to_corp[uid] = re.sub(r"[^0-9]", "", str(corp))
  \<close>
\<close>

fun scan_user_data ::
  "runtime \<Rightarrow> user_row list \<Rightarrow> (pyval \<times> string) list \<Rightarrow> (pyval \<times> string) list"
where
  "scan_user_data rt [] user_to_corp = user_to_corp"
| "scan_user_data rt (row # rows) user_to_corp =
     scan_user_data rt rows
       (if truthy (uid row) \<and> truthy (u_corp_number row)
        then AList.update (uid row) (strip_non_digits (py_str rt (u_corp_number row))) user_to_corp
        else user_to_corp)"

text \<open>
  The third loop (lines 119-126) runs over the keys of \<^verbatim>\<open>chat_to_user\<close>:
  \<^verbatim>\<open>
    for chat_id in chat_to_user:
        if chat_id in chat_to_corp_direct:
            result[chat_id] = chat_to_corp_direct[chat_id]
        else:
            user_id = chat_to_user[chat_id]
            if user_id in user_to_corp:
                result[chat_id] = user_to_corp[user_id]
  \<close>
\<close>

fun join_corp ::
  "(pyval \<times> pyval) list \<Rightarrow> (pyval \<times> string) list \<Rightarrow> (pyval \<times> string) list \<Rightarrow>
     (pyval \<times> string) list \<Rightarrow> (pyval \<times> string) list"
where
  "join_corp [] chat_to_corp_direct user_to_corp result = result"
| "join_corp ((cid, usr) # rest) chat_to_corp_direct user_to_corp result =
     join_corp rest chat_to_corp_direct user_to_corp
       (case map_of chat_to_corp_direct cid of
          Some direct \<Rightarrow> AList.update cid direct result
        | None \<Rightarrow>
            (case map_of user_to_corp usr of
               Some corp \<Rightarrow> AList.update cid corp result
             | None \<Rightarrow> result))"

text \<open>
  The workbook argument is \<open>None\<close> when \<^verbatim>\<open>openpyxl\<close> is missing or the \<^verbatim>\<open>data\<close> folder
  holds no \<^verbatim>\<open>.xlsx\<close> file (lines 70-87: the empty dictionary is returned), and otherwise
  the two sheets of the workbook that was opened.
\<close>

definition build_corp_number_map :: "runtime \<Rightarrow> workbook option \<Rightarrow> (pyval \<times> string) list" where
  "build_corp_number_map rt wb =
     (case wb of
        None \<Rightarrow> []
      | Some (ws_chat, ws_user) \<Rightarrow>
          (case scan_userchat ws_chat [] [] of
             (chat_to_user, chat_to_corp_direct) \<Rightarrow>
               join_corp chat_to_user chat_to_corp_direct (scan_user_data rt ws_user []) []))"

section \<open>Ingestion from the spreadsheet (phase 1)\<close>

text \<open>\<^verbatim>\<open>build_user_map\<close> (phase 1, lines 55-67).\<close>

fun user_map_rows :: "user_row list \<Rightarrow> (pyval \<times> pydict) list \<Rightarrow> (pyval \<times> pydict) list" where
  "user_map_rows [] user_map = user_map"
| "user_map_rows (row # rows) user_map =
     user_map_rows rows
       (if \<not> truthy (uid row) then user_map
        else AList.update (uid row)
               [(''company'', u_company row), (''corp_number'', u_corp_number row)] user_map)"

definition build_user_map :: "workbook \<Rightarrow> (pyval \<times> pydict) list" where
  "build_user_map wb = user_map_rows (snd wb) []"

text \<open>
  Lines 88-95 of \<^verbatim>\<open>parse_userchat\<close>: a datetime is formatted with \<^verbatim>\<open>%Y-%m-%d\<close>, which is
  the first ten characters of its \<^verbatim>\<open>str()\<close> text; any other true value is cut to the
  first ten characters of its \<^verbatim>\<open>str()\<close> text (date texts are ASCII, so characters are
  bytes).
\<close>

definition date_str_of :: "runtime \<Rightarrow> pyval \<Rightarrow> pyval" where
  "date_str_of rt cell =
     (case cell of
        PDatetime s \<Rightarrow> PStr (take 10 s)
      | _ \<Rightarrow> if truthy cell then PStr (take 10 (py_str rt cell)) else PNone)"

text \<open>Lines 97-104: the company name, with the fallback through the user table.\<close>

definition company_of :: "(pyval \<times> pydict) list \<Rightarrow> chat_row \<Rightarrow> pyval" where
  "company_of user_map row =
     (let c = (case company row of
                 PStr s \<Rightarrow> PStr s
               | v \<Rightarrow> if truthy v then PNone else v)
      in if truthy c then c
         else (case map_of user_map (user_id row) of
                 Some u \<Rightarrow> if truthy (user_id row) then alist_get u ''company'' PNone else c
               | None \<Rightarrow> c))"

text \<open>
  Lines 113-124: \<^verbatim>\<open>float(x)\<close> under \<^verbatim>\<open>except (ValueError, TypeError)\<close>, for a cell that
  is not \<^verbatim>\<open>None\<close>.
\<close>

definition seconds_of :: "runtime \<Rightarrow> pyval \<Rightarrow> py_error + pyval" where
  "seconds_of rt x =
     (if x = PNone then Inr PNone
      else case py_float rt x of
          Inl ValueError \<Rightarrow> Inr PNone
        | Inl TypeError \<Rightarrow> Inr PNone
        | Inl e \<Rightarrow> Inl e
        | Inr f \<Rightarrow> Inr (PFloat f))"

text \<open>Lines 88-141: the record built for one row that passed the two filters.\<close>

definition userchat_record ::
  "runtime \<Rightarrow> (pyval \<times> pydict) list \<Rightarrow> chat_row \<Rightarrow> py_error + pyval"
where
  "userchat_record rt user_map row =
     (case seconds_of rt (first_answer_sec row) of
        Inl e \<Rightarrow> Inl e
      | Inr fa \<Rightarrow>
          (case seconds_of rt (close_sec row) of
             Inl e \<Rightarrow> Inl e
           | Inr cl \<Rightarrow>
               Inr (PDict
                 [(''chatId'', chat_id row),
                  (''date'', date_str_of rt (managed_at row)),
                  (''company'', company_of user_map row),
                  (''oldTag'', py_or (old_tag row) (PStr label_unclassified)),
                  (''primaryTag'', py_or (old_tag row) (PStr label_unclassified)),
                  (''secondaryTag'', PNone),
                  (''confidence'', PNone),
                  (''detailCategory'', PStr label_unmatched),
                  (''stabilityStatus'', PStr label_unmatched),
                  (''growthStatus'', PStr label_unmatched),
                  (''limitTier'', PStr label_unmatched),
                  (''firstAnswerSec'', fa),
                  (''closeSec'', cl)])))"

text \<open>
  \<^verbatim>\<open>parse_userchat\<close> (phase 1, lines 70-145). Lines 77-86 skip a row without a chat id and
  a row whose chat id is in \<^verbatim>\<open>existing_ids\<close>; that set is not changed by the loop. The
  two skip counters are only printed.
\<close>

fun parse_userchat ::
  "runtime \<Rightarrow> chat_row list \<Rightarrow> (pyval \<times> pydict) list \<Rightarrow> pyval set \<Rightarrow> py_error + pyval list"
where
  "parse_userchat rt [] user_map existing_ids = Inr []"
| "parse_userchat rt (row # rows) user_map existing_ids =
     (if \<not> truthy (chat_id row) then parse_userchat rt rows user_map existing_ids
      else if chat_id row \<in> existing_ids then parse_userchat rt rows user_map existing_ids
      else case userchat_record rt user_map row of
          Inl e \<Rightarrow> Inl e
        | Inr record \<Rightarrow>
            (case parse_userchat rt rows user_map existing_ids of
               Inl e \<Rightarrow> Inl e
             | Inr new_records \<Rightarrow> Inr (record # new_records)))"

text \<open>
  The two candidates of the identifier mapper, as the claim describes them: (a) the value
  on the row itself when it is a non-empty string, with everything but digits removed;
  (b) the business number of the row's actor in the user sheet, taken from the last row of
  that sheet that names the actor and has a true business number, as text with everything
  but digits removed.
\<close>

definition direct_candidate :: "chat_row \<Rightarrow> string option" where
  "direct_candidate row =
     (case corp_direct row of
        PStr s \<Rightarrow> if s \<noteq> [] then Some (strip_non_digits s) else None
      | _ \<Rightarrow> None)"

definition actor_candidate :: "runtime \<Rightarrow> user_row list \<Rightarrow> pyval \<Rightarrow> string option" where
  "actor_candidate rt ws_user actor =
     map_option (\<lambda>u. strip_non_digits (py_str rt (u_corp_number u)))
       (find (\<lambda>u. uid u = actor \<and> truthy (uid u) \<and> truthy (u_corp_number u)) (rev ws_user))"

text \<open>
  What the first loop leaves in its two dictionaries for a chat id: the actor and the
  direct candidate of the last row that carries the chat id and has one.
\<close>

definition last_user :: "chat_row list \<Rightarrow> pyval \<Rightarrow> pyval option" where
  "last_user rows c =
     map_option user_id
       (find (\<lambda>r. chat_id r = c \<and> truthy (chat_id r) \<and> truthy (user_id r)) (rev rows))"

definition last_direct :: "chat_row list \<Rightarrow> pyval \<Rightarrow> string option" where
  "last_direct rows c =
     (case find (\<lambda>r. chat_id r = c \<and> truthy (chat_id r) \<and> direct_candidate r \<noteq> None)
             (rev rows) of
        None \<Rightarrow> None
      | Some r \<Rightarrow> direct_candidate r)"

section \<open>Enrichment (phase 2)\<close>

text \<open>
  \<^verbatim>\<open>enrich_records\<close> (phase 2, lines 200-213) updates the records in place and returns the
  number of matches; the model returns the updated list with the count. \<open>enrich_record\<close>
  is the loop body, its boolean tells whether the record matched:
  \<^verbatim>\<open>
    chat_id = rec["chatId"]
    corp_id = corp_map.get(chat_id)
    if corp_id and corp_id in seg_map:
        seg = seg_map[corp_id]
        rec["detailCategory"] = seg["detailCategory"]
        rec["stabilityStatus"] = seg["stabilityStatus"]
        rec["growthStatus"] = seg["growthStatus"]
        rec["limitTier"] = seg["limitTier"]
        matched += 1
  \<close>
  The records are the separate objects that \<^verbatim>\<open>json.load\<close> built, so an update of one
  record does not show in another.
\<close>

definition stamp :: "pydict \<Rightarrow> pydict \<Rightarrow> py_error + pydict" where
  "stamp seg d =
     (case (map_of seg ''detailCategory'', map_of seg ''stabilityStatus'',
            map_of seg ''growthStatus'', map_of seg ''limitTier'') of
        (Some dc, Some st, Some gr, Some lt) \<Rightarrow>
          Inr (AList.update ''limitTier'' lt
                (AList.update ''growthStatus'' gr
                  (AList.update ''stabilityStatus'' st
                    (AList.update ''detailCategory'' dc d))))
      | _ \<Rightarrow> Inl KeyError)"

definition enrich_record ::
  "(pyval \<times> string) list \<Rightarrow> (string \<times> pydict) list \<Rightarrow> pyval \<Rightarrow> py_error + pyval \<times> bool"
where
  "enrich_record corp_map seg_map rec =
     (case py_getitem rec ''chatId'' of
        Inl e \<Rightarrow> Inl e
      | Inr cid \<Rightarrow>
          if \<not> hashable cid then Inl TypeError
          else (case rec of
                  PDict d \<Rightarrow>
                    (case map_of corp_map cid of
                       None \<Rightarrow> Inr (rec, False)
                     | Some corp_id \<Rightarrow>
                         (if corp_id \<noteq> [] then
                            (case map_of seg_map corp_id of
                               None \<Rightarrow> Inr (rec, False)
                             | Some seg \<Rightarrow>
                                 (case stamp seg d of
                                    Inl e \<Rightarrow> Inl e
                                  | Inr d' \<Rightarrow> Inr (PDict d', True)))
                          else Inr (rec, False)))
                | _ \<Rightarrow> Inl TypeError))"

fun enrich_records ::
  "pyval list \<Rightarrow> (pyval \<times> string) list \<Rightarrow> (string \<times> pydict) list \<Rightarrow>
     py_error + pyval list \<times> nat"
where
  "enrich_records [] corp_map seg_map = Inr ([], 0)"
| "enrich_records (rec # new_records) corp_map seg_map =
     (case enrich_record corp_map seg_map rec of
        Inl e \<Rightarrow> Inl e
      | Inr (rec', hit) \<Rightarrow>
          (case enrich_records new_records corp_map seg_map of
             Inl e \<Rightarrow> Inl e
           | Inr (recs', matched) \<Rightarrow> Inr (rec' # recs', (if hit then 1 else 0) + matched)))"

text \<open>The four fields that enrichment assigns.\<close>

definition enrichment_fields :: "string list" where
  "enrichment_fields = [''detailCategory'', ''stabilityStatus'', ''growthStatus'', ''limitTier'']"

text \<open>The condition of the \<^verbatim>\<open>if\<close> in the loop body, for a record that has a chat id.\<close>

definition matches :: "(pyval \<times> string) list \<Rightarrow> (string \<times> pydict) list \<Rightarrow> pyval \<Rightarrow> bool" where
  "matches corp_map seg_map rec =
     (case rec of
        PDict d \<Rightarrow>
          (case map_of d ''chatId'' of
             None \<Rightarrow> False
           | Some cid \<Rightarrow>
               (case map_of corp_map cid of
                  None \<Rightarrow> False
                | Some corp_id \<Rightarrow> corp_id \<noteq> [] \<and> map_of seg_map corp_id \<noteq> None))
      | _ \<Rightarrow> False)"

section \<open>Ingestion from the local store (phase 3)\<close>

text \<open>
  A row of the \<^verbatim>\<open>insights\<close> table as \<^verbatim>\<open>load_db_records\<close> returns it (lines 58-74): a
  dictionary with exactly the fifteen selected columns.
\<close>

record db_row =
  db_id :: pyval
  db_date :: pyval
  db_tags :: pyval
  db_tag_major :: pyval
  db_impact :: pyval
  db_journey :: pyval
  db_title :: pyval
  db_summary :: pyval
  db_customer_request :: pyval
  db_result :: pyval
  db_slack_ts :: pyval
  db_slack_link :: pyval
  db_corp_number :: pyval
  db_companyname :: pyval
  db_assignee :: pyval

text \<open>
  \<^verbatim>\<open>re.sub(r"[^0-9]", "", row.get("corp_number") or "")\<close>, as \<^verbatim>\<open>convert_record\<close> (line
  162) and \<^verbatim>\<open>main\<close> (line 255) compute it; \<^verbatim>\<open>re.sub\<close> raises \<^verbatim>\<open>TypeError\<close> on a true
  value that is not a string.
\<close>

definition corp_digits :: "db_row \<Rightarrow> py_error + string" where
  "corp_digits row =
     (case py_or (db_corp_number row) (PStr []) of
        PStr s \<Rightarrow> Inr (strip_non_digits s)
      | _ \<Rightarrow> Inl TypeError)"

text \<open>\<^verbatim>\<open>convert_record\<close> (phase 3, lines 161-190).\<close>

definition convert_record :: "db_row \<Rightarrow> (string \<times> pydict) list \<Rightarrow> py_error + pyval" where
  "convert_record row seg_map =
     (case corp_digits row of
        Inl e \<Rightarrow> Inl e
      | Inr corp_number \<Rightarrow>
          (let seg = alist_get seg_map corp_number []
           in Inr (PDict
             [(''chatId'', db_slack_ts row),
              (''date'', db_date row),
              (''company'', py_or (db_companyname row) (PStr label_unidentified)),
              (''oldTag'', py_or (db_tags row) (PStr label_unclassified)),
              (''primaryTag'', py_or (db_tag_major row) (PStr label_unclassified)),
              (''secondaryTag'', db_impact row),
              (''confidence'', PStr ''auto''),
              (''detailCategory'', alist_get seg ''detailCategory'' (PStr label_unmatched)),
              (''stabilityStatus'', alist_get seg ''stabilityStatus'' (PStr label_unmatched)),
              (''growthStatus'', alist_get seg ''growthStatus'' (PStr label_unmatched)),
              (''limitTier'', alist_get seg ''limitTier'' (PStr label_unmatched)),
              (''firstAnswerSec'', PNone),
              (''closeSec'', PNone),
              (''impact'', db_impact row),
              (''journey'', db_journey row),
              (''title'', db_title row),
              (''summary'', db_summary row),
              (''customerRequest'', db_customer_request row),
              (''result'', db_result row),
              (''assignee'', db_assignee row),
              (''slackLink'', db_slack_link row),
              (''source'', PStr ''db'')])))"

fun convert_records :: "db_row list \<Rightarrow> (string \<times> pydict) list \<Rightarrow> py_error + pyval list" where
  "convert_records [] seg_map = Inr []"
| "convert_records (r # rs) seg_map =
     (case convert_record r seg_map of
        Inl e \<Rightarrow> Inl e
      | Inr c \<Rightarrow>
          (case convert_records rs seg_map of
             Inl e \<Rightarrow> Inl e
           | Inr cs \<Rightarrow> Inr (c # cs)))"

section \<open>Identity index\<close>

text \<open>
  The identities of the records already in the destination. Phase 1 (line 50) reads
  \<^verbatim>\<open>r["chatId"]\<close>, phase 3 (lines 88 and 241) reads \<^verbatim>\<open>r.get("chatId", "")\<close>; a value that
  is a list or a dictionary cannot enter the set.
\<close>

fun p1_chat_ids :: "pyval list \<Rightarrow> py_error + pyval set" where
  "p1_chat_ids [] = Inr {}"
| "p1_chat_ids (r # records) =
     (case py_getitem r ''chatId'' of
        Inl e \<Rightarrow> Inl e
      | Inr cid \<Rightarrow>
          if \<not> hashable cid then Inl TypeError
          else (case p1_chat_ids records of
                  Inl e \<Rightarrow> Inl e
                | Inr ids \<Rightarrow> Inr (insert cid ids)))"

fun p3_chat_ids :: "pyval list \<Rightarrow> py_error + pyval set" where
  "p3_chat_ids [] = Inr {}"
| "p3_chat_ids (r # records) =
     (case py_get r ''chatId'' (PStr []) of
        Inl e \<Rightarrow> Inl e
      | Inr cid \<Rightarrow>
          if \<not> hashable cid then Inl TypeError
          else (case p3_chat_ids records of
                  Inl e \<Rightarrow> Inl e
                | Inr ids \<Rightarrow> Inr (insert cid ids)))"

text \<open>
  The text that \<^verbatim>\<open>re.search(r"const ALL_RECORDS = (\[.*?\]);", content, re.DOTALL)\<close>
  captures. \<open>split_at_first pat s\<close> cuts \<open>s\<close> at the leftmost occurrence of \<open>pat\<close>. The
  search succeeds at the leftmost \<^verbatim>\<open>const ALL_RECORDS = [\<close> that has a \<^verbatim>\<open>];\<close> somewhere
  after it, and the lazy \<^verbatim>\<open>.*?\<close> stops at the first such \<^verbatim>\<open>];\<close>; if the leftmost
  occurrence has none after it, no later occurrence has one either.
\<close>

fun split_at_first :: "'a list \<Rightarrow> 'a list \<Rightarrow> ('a list \<times> 'a list) option" where
  "split_at_first pat [] = (if pat = [] then Some ([], []) else None)"
| "split_at_first pat (c # cs) =
     (if prefix pat (c # cs) then Some ([], drop (length pat) (c # cs))
      else (case split_at_first pat cs of
              None \<Rightarrow> None
            | Some (before, after) \<Rightarrow> Some (c # before, after)))"

definition search_block :: "string \<Rightarrow> string \<Rightarrow> (string \<times> string \<times> string) option" where
  "search_block marker content =
     (case split_at_first marker content of
        None \<Rightarrow> None
      | Some (before, rest) \<Rightarrow>
          (case split_at_first ''];'' rest of
             None \<Rightarrow> None
           | Some (body, after) \<Rightarrow> Some (before, body, after)))"

definition search_all_records :: "string \<Rightarrow> string option" where
  "search_all_records content =
     (case search_block ''const ALL_RECORDS = ['' content of
        None \<Rightarrow> None
      | Some (before, body, after) \<Rightarrow> Some (''['' @ body @ '']''))"

text \<open>
  \<^verbatim>\<open>load_existing_chat_ids\<close> of phase 1 (lines 35-52) and of phase 3 (lines 79-88). The
  argument is the content of \<^verbatim>\<open>index.html\<close>, \<open>None\<close> when the file does not exist.
\<close>

definition p1_load_existing_chat_ids :: "runtime \<Rightarrow> string option \<Rightarrow> py_error + pyval set" where
  "p1_load_existing_chat_ids rt html =
     (case html of
        None \<Rightarrow> Inr {}
      | Some content \<Rightarrow>
          (case search_all_records content of
             None \<Rightarrow> Inr {}
           | Some block \<Rightarrow>
               (case json_loads rt block of
                  None \<Rightarrow> Inl JSONDecodeError
                | Some records \<Rightarrow>
                    (case py_iter records of
                       Inl e \<Rightarrow> Inl e
                     | Inr rs \<Rightarrow> p1_chat_ids rs))))"

definition p3_load_existing_chat_ids :: "runtime \<Rightarrow> string option \<Rightarrow> py_error + pyval set" where
  "p3_load_existing_chat_ids rt html =
     (case html of
        None \<Rightarrow> Inr {}
      | Some content \<Rightarrow>
          (case search_all_records content of
             None \<Rightarrow> Inr {}
           | Some block \<Rightarrow>
               (case json_loads rt block of
                  None \<Rightarrow> Inl JSONDecodeError
                | Some records \<Rightarrow>
                    (case py_iter records of
                       Inl e \<Rightarrow> Inl e
                     | Inr rs \<Rightarrow> p3_chat_ids rs))))"

text \<open>
  \<^verbatim>\<open>load_existing_records\<close> of phase 2 (lines 57-65; it opens the file without testing
  that it exists) and of phase 3 (lines 91-99). The result is the decoded array with the
  content of the document.
\<close>

definition p2_load_existing_records :: "runtime \<Rightarrow> string option \<Rightarrow> py_error + pyval \<times> string" where
  "p2_load_existing_records rt html =
     (case html of
        None \<Rightarrow> Inl FileNotFoundError
      | Some content \<Rightarrow>
          (case search_all_records content of
             None \<Rightarrow> Inr (PList [], content)
           | Some block \<Rightarrow>
               (case json_loads rt block of
                  None \<Rightarrow> Inl JSONDecodeError
                | Some records \<Rightarrow> Inr (records, content))))"

definition p3_load_existing_records :: "runtime \<Rightarrow> string option \<Rightarrow> py_error + pyval \<times> string" where
  "p3_load_existing_records rt html =
     (case html of
        None \<Rightarrow> Inr (PList [], [])
      | Some content \<Rightarrow>
          (case search_all_records content of
             None \<Rightarrow> Inr (PList [], content)
           | Some block \<Rightarrow>
               (case json_loads rt block of
                  None \<Rightarrow> Inl JSONDecodeError
                | Some records \<Rightarrow> Inr (records, content))))"

text \<open>
  What the claims say about a record after enrichment, as predicates the theorems use: a
  record that enrichment can process (a dictionary with a hashable chat id), a profile
  with the four fields, and a dictionary that differs from another in exactly the four
  enrichment fields, which hold the profile's values.
\<close>

definition has_chat_id :: "pyval \<Rightarrow> bool" where
  "has_chat_id r =
     (case r of
        PDict d \<Rightarrow> (case map_of d ''chatId'' of None \<Rightarrow> False | Some cid \<Rightarrow> hashable cid)
      | _ \<Rightarrow> False)"

definition segment_ok :: "pydict \<Rightarrow> bool" where
  "segment_ok seg = (\<forall>k \<in> set enrichment_fields. map_of seg k \<noteq> None)"

definition stamped_with :: "pydict \<Rightarrow> pyval \<Rightarrow> pyval \<Rightarrow> bool" where
  "stamped_with seg r r' =
     (case (r, r') of
        (PDict d, PDict d') \<Rightarrow>
          (\<forall>k. map_of d' k = (if k \<in> set enrichment_fields then map_of seg k else map_of d k))
      | _ \<Rightarrow> False)"

text \<open>The profile that the loop body looks up for a record that matches.\<close>

definition segment_of ::
  "(pyval \<times> string) list \<Rightarrow> (string \<times> pydict) list \<Rightarrow> pyval \<Rightarrow> pydict"
where
  "segment_of corp_map seg_map r =
     (case r of
        PDict d \<Rightarrow>
          alist_get seg_map (alist_get corp_map (alist_get d ''chatId'' PNone) []) []
      | _ \<Rightarrow> [])"

section \<open>Document writer\<close>

text \<open>
  \<^verbatim>\<open>re.sub\<close> reads its replacement string as a template before it searches: a string
  without a backslash stands for itself, any other is compiled (and may be rejected).
\<close>

definition re_template :: "runtime \<Rightarrow> string \<Rightarrow> (string \<Rightarrow> string) option" where
  "re_template rt repl =
     (if CHR 0x5C \<in> set repl then compile_template rt repl else Some (\<lambda>matched. repl))"

text \<open>
  \<^verbatim>\<open>re.sub(r"    const ALL_RECORDS = \[.*?\];", new_line, content, count=1, flags=re.DOTALL)\<close>:
  the leftmost match is replaced; without a match the content is returned as it is.
\<close>

definition block_marker :: string where
  "block_marker = ''    const ALL_RECORDS = [''"

definition sub_all_records :: "runtime \<Rightarrow> string \<Rightarrow> string \<Rightarrow> py_error + string" where
  "sub_all_records rt new_line content =
     (case re_template rt new_line of
        None \<Rightarrow> Inl ReError
      | Some expand \<Rightarrow>
          Inr (case search_block block_marker content of
                 None \<Rightarrow> content
               | Some (before, body, after) \<Rightarrow>
                   before @ expand (block_marker @ body @ ''];'') @ after))"

text \<open>\<^verbatim>\<open>f"    const ALL_RECORDS = {json_str};"\<close>\<close>

definition new_line_of :: "runtime \<Rightarrow> pyval list \<Rightarrow> string" where
  "new_line_of rt records = ''    const ALL_RECORDS = '' @ json_dumps rt (PList records) @ '';''"

text \<open>
  Lines 221-224 of phase 2: \<^verbatim>\<open>filtered.append({k: r.get(k) for k in fields_to_keep})\<close> for
  every record, the existing ones included.
\<close>

definition keep_fields :: "string list \<Rightarrow> pydict \<Rightarrow> pydict" where
  "keep_fields fields_to_keep d = map (\<lambda>k. (k, alist_get d k PNone)) fields_to_keep"

fun filter_fields :: "string list \<Rightarrow> pyval list \<Rightarrow> py_error + pyval list" where
  "filter_fields fields_to_keep [] = Inr []"
| "filter_fields fields_to_keep (r # rs) =
     (case r of
        PDict d \<Rightarrow>
          (case filter_fields fields_to_keep rs of
             Inl e \<Rightarrow> Inl e
           | Inr filtered \<Rightarrow> Inr (PDict (keep_fields fields_to_keep d) # filtered))
      | _ \<Rightarrow> Inl AttributeError)"

fun is_dict :: "pyval \<Rightarrow> bool" where
  "is_dict (PDict d) = True"
| "is_dict v = False"

definition INDEX_FIELDS :: "string list" where
  "INDEX_FIELDS =
     [''chatId'', ''date'', ''company'', ''oldTag'',
      ''primaryTag'', ''secondaryTag'', ''confidence'',
      ''detailCategory'', ''stabilityStatus'', ''growthStatus'', ''limitTier'',
      ''firstAnswerSec'', ''closeSec'']"

text \<open>
  \<^verbatim>\<open>inject_into_html\<close> of phase 2 (lines 216-240). The result is the content written to
  the document; an exception leaves the function before the file is opened for writing.
\<close>

definition p2_inject_into_html ::
  "runtime \<Rightarrow> string option \<Rightarrow> pyval list \<Rightarrow> string list \<Rightarrow> py_error + string"
where
  "p2_inject_into_html rt html all_records fields_to_keep =
     (case html of
        None \<Rightarrow> Inl FileNotFoundError
      | Some content \<Rightarrow>
          (case filter_fields fields_to_keep all_records of
             Inl e \<Rightarrow> Inl e
           | Inr filtered \<Rightarrow> sub_all_records rt (new_line_of rt filtered) content))"

text \<open>
  The display date. \<^verbatim>\<open>[r.get("date") for r in all_records if r.get("date")]\<close>, then
  \<^verbatim>\<open>max\<close>, \<^verbatim>\<open>strptime\<close> and \<^verbatim>\<open>f"{dt.year}. {dt.month}. {dt.day}."\<close>. Strings are ordered
  by code point, which is the order of their UTF-8 bytes. When some date is not a string,
  either \<^verbatim>\<open>max\<close> (a string met with another type) or \<^verbatim>\<open>strptime\<close> (its argument is not
  a string) raises \<^verbatim>\<open>TypeError\<close>.
\<close>

fun all_dates_of :: "pyval list \<Rightarrow> py_error + pyval list" where
  "all_dates_of [] = Inr []"
| "all_dates_of (r # rs) =
     (case py_get r ''date'' PNone of
        Inl e \<Rightarrow> Inl e
      | Inr d \<Rightarrow>
          (case all_dates_of rs of
             Inl e \<Rightarrow> Inl e
           | Inr ds \<Rightarrow> Inr (if truthy d then d # ds else ds)))"

fun str_values :: "pyval list \<Rightarrow> string list option" where
  "str_values [] = Some []"
| "str_values (PStr s # vs) = map_option ((#) s) (str_values vs)"
| "str_values (v # vs) = None"

definition max_date_of :: "pyval list \<Rightarrow> py_error + string" where
  "max_date_of all_dates =
     (case str_values all_dates of
        None \<Rightarrow> Inl TypeError
      | Some [] \<Rightarrow> Inl ValueError
      | Some (s # ss) \<Rightarrow> Inr (fold max ss s))"

function str_nat :: "nat \<Rightarrow> string" where
  "str_nat n =
     (if n < 10 then [''0123456789'' ! n]
      else str_nat (n div 10) @ [''0123456789'' ! (n mod 10)])"
  by pat_completeness auto
termination
  by (relation "measure id") auto

declare str_nat.simps [simp del]

definition date_display :: "nat \<times> nat \<times> nat \<Rightarrow> string" where
  "date_display dt =
     (case dt of (y, m, d) \<Rightarrow> str_nat y @ ''. '' @ str_nat m @ ''. '' @ str_nat d @ ''.'')"

text \<open>
  \<^verbatim>\<open>re.sub(r'id="lastUpdateDate">[^<]+<', f'id="lastUpdateDate">{date_display}<', content)\<close>:
  every match, from left to right, is replaced. A match is the marker, a non-empty run of
  characters other than \<^verbatim>\<open><\<close>, and the \<^verbatim>\<open><\<close> that ends the run. The replacement holds
  digits, dots and blanks only, so it stands for itself.
\<close>

definition date_marker :: string where
  \<open>date_marker = ''id="lastUpdateDate">''\<close>

function sub_date :: "string \<Rightarrow> string \<Rightarrow> string" where
  "sub_date disp [] = []"
| "sub_date disp (c # cs) =
     (let rest = drop (length date_marker) (c # cs);
          run = takeWhile (\<lambda>x. x \<noteq> CHR ''<'') rest;
          tail = dropWhile (\<lambda>x. x \<noteq> CHR ''<'') rest
      in if prefix date_marker (c # cs) \<and> run \<noteq> [] \<and> tail \<noteq> []
         then date_marker @ disp @ ''<'' @ sub_date disp (tl tail)
         else c # sub_date disp cs)"
  by pat_completeness auto
termination
proof (relation "measure (\<lambda>(disp, s). length s)")
  show "wf (measure (\<lambda>(disp, s). length s))" by simp
next
  fix disp :: string and c :: char and cs rest run tail :: string
  assume rest: "rest = drop (length date_marker) (c # cs)"
    and tail: "tail = dropWhile (\<lambda>x. x \<noteq> CHR ''<'') rest"
    and ok: "prefix date_marker (c # cs) \<and> run \<noteq> [] \<and> tail \<noteq> []"
  have "length tail \<le> length rest"
    unfolding tail by (rule length_dropWhile_le)
  moreover have "length rest \<le> length (c # cs)"
    unfolding rest by simp
  moreover have "length (tl tail) < length tail"
    using ok by (cases tail) simp_all
  ultimately show "((disp, tl tail), (disp, c # cs)) \<in> measure (\<lambda>(disp, s). length s)"
    by simp
next
  fix disp :: string and c :: char and cs :: string
  show "((disp, cs), (disp, c # cs)) \<in> measure (\<lambda>(disp, s). length s)"
    by simp
qed

declare sub_date.simps [simp del]

text \<open>Lines 209-219 of phase 3: the display-date step.\<close>

definition update_date :: "runtime \<Rightarrow> pyval list \<Rightarrow> string \<Rightarrow> py_error + string" where
  "update_date rt all_records content =
     (case all_dates_of all_records of
        Inl e \<Rightarrow> Inl e
      | Inr all_dates \<Rightarrow>
          if all_dates = [] then Inr content
          else (case max_date_of all_dates of
                  Inl e \<Rightarrow> Inl e
                | Inr max_date \<Rightarrow>
                    (case strptime_ymd rt max_date of
                       None \<Rightarrow> Inl ValueError
                     | Some dt \<Rightarrow> Inr (sub_date (date_display dt) content))))"

text \<open>
  \<^verbatim>\<open>inject_into_html\<close> of phase 3 (lines 195-222): the data block, then the display date,
  then the one write.
\<close>

definition p3_inject_into_html :: "runtime \<Rightarrow> string option \<Rightarrow> pyval list \<Rightarrow> py_error + string" where
  "p3_inject_into_html rt html all_records =
     (case html of
        None \<Rightarrow> Inl FileNotFoundError
      | Some content \<Rightarrow>
          (case sub_all_records rt (new_line_of rt all_records) content of
             Inl e \<Rightarrow> Inl e
           | Inr content' \<Rightarrow> update_date rt all_records content'))"

section \<open>Reconciler\<close>

text \<open>
  Phase 3, \<^verbatim>\<open>main\<close>, lines 235-270, from the rows of the store and the records of the
  destination to the list that is handed to \<^verbatim>\<open>inject_into_html\<close>. Line 236 reads
  \<^verbatim>\<open>db_records[0]\<close>, which raises on an empty store. Line 244 keeps the rows whose
  \<^verbatim>\<open>slack_ts\<close> is not in \<^verbatim>\<open>existing_ids\<close>; the membership test hashes the value. The result
  is \<open>None\<close> when there is no new row (line 249 returns before anything is written), and
  is paired with the content of the cache file after the run.
\<close>

fun p3_new_rows :: "db_row list \<Rightarrow> pyval set \<Rightarrow> py_error + db_row list" where
  "p3_new_rows [] existing_ids = Inr []"
| "p3_new_rows (r # rs) existing_ids =
     (if \<not> hashable (db_slack_ts r) then Inl TypeError
      else case p3_new_rows rs existing_ids of
          Inl e \<Rightarrow> Inl e
        | Inr new_rows \<Rightarrow> Inr (if db_slack_ts r \<notin> existing_ids then r # new_rows else new_rows))"

fun p3_corp_ids :: "db_row list \<Rightarrow> py_error + int set" where
  "p3_corp_ids [] = Inr {}"
| "p3_corp_ids (r # rs) =
     (case corp_digits r of
        Inl e \<Rightarrow> Inl e
      | Inr corp \<Rightarrow>
          (case p3_corp_ids rs of
             Inl e \<Rightarrow> Inl e
           | Inr corp_ids \<Rightarrow>
               Inr (if corp \<noteq> [] then insert (int_of_digits corp) corp_ids else corp_ids)))"

definition p3_reconcile ::
  "runtime \<Rightarrow> (int set \<Rightarrow> bq_result) \<Rightarrow> db_row list \<Rightarrow> pyval list \<Rightarrow> string option \<Rightarrow>
     (py_error + pyval list option) \<times> string option"
where
  "p3_reconcile rt bq db_records existing_records cache =
     (if db_records = [] then (Inl IndexError, cache)
      else case p3_chat_ids existing_records of
          Inl e \<Rightarrow> (Inl e, cache)
        | Inr existing_ids \<Rightarrow>
            (case p3_new_rows db_records existing_ids of
               Inl e \<Rightarrow> (Inl e, cache)
             | Inr new_rows \<Rightarrow>
                 if new_rows = [] then (Inr None, cache)
                 else (case p3_corp_ids new_rows of
                         Inl e \<Rightarrow> (Inl e, cache)
                       | Inr corp_ids \<Rightarrow>
                           (case p3_fetch_segments_from_bq rt bq corp_ids cache of
                              (Inl e, cache') \<Rightarrow> (Inl e, cache')
                            | (Inr seg_map, cache') \<Rightarrow>
                                (case convert_records new_rows seg_map of
                                   Inl e \<Rightarrow> (Inl e, cache')
                                 | Inr converted \<Rightarrow>
                                     (Inr (Some (existing_records @ converted)), cache'))))))"

text \<open>
  Phase 2, \<^verbatim>\<open>main\<close>, lines 248-288, from the hand-off records, the workbook and the
  records of the destination to the list handed to \<^verbatim>\<open>inject_into_html\<close>, with the number
  of matches. Lines 258 and 263 read \<^verbatim>\<open>r["chatId"]\<close> for every new record and look it up
  in \<^verbatim>\<open>corp_map\<close>; line 267 keeps the identifiers that are digit strings. The values of
  \<^verbatim>\<open>corp_map\<close> have passed \<^verbatim>\<open>re.sub(r"[^0-9]", "", ...)\<close>, so \<^verbatim>\<open>c.isdigit()\<close> holds for
  exactly the non-empty ones.
\<close>

definition isdigit :: "string \<Rightarrow> bool" where
  "isdigit c = (c \<noteq> [] \<and> (\<forall>x \<in> set c. x \<in> set ''0123456789''))"

fun p2_corp_ids :: "(pyval \<times> string) list \<Rightarrow> pyval list \<Rightarrow> py_error + int set" where
  "p2_corp_ids corp_map [] = Inr {}"
| "p2_corp_ids corp_map (r # rs) =
     (case py_getitem r ''chatId'' of
        Inl e \<Rightarrow> Inl e
      | Inr cid \<Rightarrow>
          if \<not> hashable cid then Inl TypeError
          else (case p2_corp_ids corp_map rs of
                  Inl e \<Rightarrow> Inl e
                | Inr corp_ids \<Rightarrow>
                    Inr (case map_of corp_map cid of
                           None \<Rightarrow> corp_ids
                         | Some c \<Rightarrow>
                             if isdigit c then insert (int_of_digits c) corp_ids else corp_ids)))"

definition p2_reconcile ::
  "runtime \<Rightarrow> (int set \<Rightarrow> bq_result) \<Rightarrow> workbook option \<Rightarrow> pyval list \<Rightarrow> pyval list \<Rightarrow>
     string option \<Rightarrow> (py_error + (pyval list \<times> nat) option) \<times> string option"
where
  "p2_reconcile rt bq wb new_records existing_index cache =
     (if new_records = [] then (Inr None, cache)
      else let corp_map = build_corp_number_map rt wb
           in case p2_corp_ids corp_map new_records of
                Inl e \<Rightarrow> (Inl e, cache)
              | Inr corp_ids \<Rightarrow>
                  (case p2_fetch_segments_from_bq rt bq corp_ids cache of
                     (Inl e, cache') \<Rightarrow> (Inl e, cache')
                   | (Inr seg_map, cache') \<Rightarrow>
                       (case enrich_records new_records corp_map seg_map of
                          Inl e \<Rightarrow> (Inl e, cache')
                        | Inr (enriched, matched) \<Rightarrow>
                            (Inr (Some (existing_index @ enriched, matched)), cache'))))"

text \<open>
  The Accepted Set in the destination after a run of phase 3: the list handed to the
  writer, or the records that were there when the run found nothing new.
\<close>

definition accepted_after :: "pyval list \<Rightarrow> pyval list option \<Rightarrow> pyval list" where
  "accepted_after existing_records result =
     (case result of None \<Rightarrow> existing_records | Some all_records \<Rightarrow> all_records)"

text \<open>The identity of a stored record as phase 1 and as phase 3 read it.\<close>

abbreviation p1_identity :: "pyval \<Rightarrow> py_error + pyval" where
  "p1_identity r \<equiv> py_getitem r ''chatId''"

abbreviation p3_identity :: "pyval \<Rightarrow> py_error + pyval" where
  "p3_identity r \<equiv> py_get r ''chatId'' (PStr [])"

section \<open>Runs of the spreadsheet pipeline\<close>

text \<open>
  The files that phase 1 and phase 2 read and write under the repository root:
  \<^verbatim>\<open>index.html\<close>, \<^verbatim>\<open>data/new_records.json\<close> (what phase 1 hands to phase 2) and
  \<^verbatim>\<open>data/segment_cache.json\<close>; \<open>None\<close> stands for a file that does not exist. A run takes
  the files as they are before it to the files as they are after it. A run that ends in an
  exception yields the exception; what it has written by then is not recorded.
\<close>

record files =
  index_html :: "string option"
  new_records_json :: "string option"
  segment_cache :: "string option"

text \<open>
  Lines 189-196 of phase 1 collect the dates of the new records as dictionary keys and
  pass the keys to \<^verbatim>\<open>min\<close>, \<^verbatim>\<open>max\<close> and \<^verbatim>\<open>sorted\<close>. The date of a record built by
  \<^verbatim>\<open>parse_userchat\<close> is a string or \<^verbatim>\<open>None\<close>; the comparison raises \<^verbatim>\<open>TypeError\<close> when
  both occur, and nothing is compared when \<^verbatim>\<open>None\<close> is the only key.
\<close>

fun is_str :: "pyval \<Rightarrow> bool" where
  "is_str (PStr s) = True"
| "is_str v = False"

fun date_keys :: "pyval list \<Rightarrow> py_error + pyval list" where
  "date_keys [] = Inr []"
| "date_keys (r # rs) =
     (case py_get r ''date'' (PStr ''unknown'') of
        Inl e \<Rightarrow> Inl e
      | Inr d \<Rightarrow>
          (case date_keys rs of
             Inl e \<Rightarrow> Inl e
           | Inr ds \<Rightarrow> Inr (d # ds)))"

definition keys_comparable :: "pyval list \<Rightarrow> bool" where
  "keys_comparable ds = (list_all is_str ds \<or> list_all (\<lambda>d. d = PNone) ds)"

text \<open>
  \<^verbatim>\<open>json.dump\<close> raises \<^verbatim>\<open>TypeError\<close> on a value that has no JSON form. Of the values
  that a cell can hold, the datetime is the one without a JSON form.
\<close>

fun json_serializable :: "pyval \<Rightarrow> bool" where
  "json_serializable (PDatetime s) = False"
| "json_serializable (PList xs) = (\<forall>x \<in> set xs. json_serializable x)"
| "json_serializable (PDict d) = (\<forall>x \<in> snd ` set d. json_serializable x)"
| "json_serializable v = True"

text \<open>
  Phase 1, \<^verbatim>\<open>main\<close>, lines 165-205, for a workbook that opens and has the two sheets.
  Lines 185-187 return when \<^verbatim>\<open>parse_userchat\<close> found no new record: the run ends before
  lines 203-205, which write the hand-off file, so the file keeps the content it had.
\<close>

definition p1_main :: "runtime \<Rightarrow> workbook \<Rightarrow> files \<Rightarrow> py_error + files" where
  "p1_main rt wb fs =
     (case p1_load_existing_chat_ids rt (index_html fs) of
        Inl e \<Rightarrow> Inl e
      | Inr existing_ids \<Rightarrow>
          (case parse_userchat rt (fst wb) (build_user_map wb) existing_ids of
             Inl e \<Rightarrow> Inl e
           | Inr new_records \<Rightarrow>
               if new_records = [] then Inr fs
               else (case date_keys new_records of
                       Inl e \<Rightarrow> Inl e
                     | Inr ds \<Rightarrow>
                         if \<not> keys_comparable ds then Inl TypeError
                         else if \<not> json_serializable (PList new_records) then Inl TypeError
                         else Inr (fs\<lparr>new_records_json :=
                                        Some (json_dumps_indent rt (PList new_records))\<rparr>))))"

text \<open>
  Phase 2, \<^verbatim>\<open>main\<close>, lines 246-309. \<^verbatim>\<open>load_new_records\<close> (lines 47-54) leaves the
  program when the hand-off file is missing and decodes it otherwise; nothing compares
  its records with the destination. Line 249 takes \<^verbatim>\<open>len\<close> of the decoded value, which
  raises on exactly the values that cannot be iterated. Line 285 loads the records of the
  destination after enrichment, line 287 appends the hand-off records to them, line 288
  writes the data block and lines 292-309 the display date.
\<close>

definition p2_main ::
  "runtime \<Rightarrow> (int set \<Rightarrow> bq_result) \<Rightarrow> workbook option \<Rightarrow> files \<Rightarrow> py_error + files"
where
  "p2_main rt bq wb fs =
     (case new_records_json fs of
        None \<Rightarrow> Inl SystemExit
      | Some text \<Rightarrow>
          (case json_loads rt text of
             None \<Rightarrow> Inl JSONDecodeError
           | Some loaded \<Rightarrow>
               (case py_iter loaded of
                  Inl e \<Rightarrow> Inl e
                | Inr new_records \<Rightarrow>
                    if new_records = [] then Inr fs
                    else let corp_map = build_corp_number_map rt wb
                      in (case p2_corp_ids corp_map new_records of
                            Inl e \<Rightarrow> Inl e
                          | Inr corp_ids \<Rightarrow>
                              (case p2_fetch_segments_from_bq rt bq corp_ids (segment_cache fs) of
                                 (Inl e, cache') \<Rightarrow> Inl e
                               | (Inr seg_map, cache') \<Rightarrow>
                                   (case enrich_records new_records corp_map seg_map of
                                      Inl e \<Rightarrow> Inl e
                                    | Inr (enriched, matched) \<Rightarrow>
                                        (case p2_load_existing_records rt (index_html fs) of
                                           Inl e \<Rightarrow> Inl e
                                         | Inr (PList existing_index, content) \<Rightarrow>
                                             (case p2_inject_into_html rt (index_html fs)
                                                     (existing_index @ enriched) INDEX_FIELDS of
                                                Inl e \<Rightarrow> Inl e
                                              | Inr content1 \<Rightarrow>
                                                  (case update_date rt (existing_index @ enriched)
                                                          content1 of
                                                     Inl e \<Rightarrow> Inl e
                                                   | Inr content2 \<Rightarrow>
                                                       Inr (fs\<lparr>index_html := Some content2,
                                                               segment_cache := cache'\<rparr>)))
                                         | Inr (other, content) \<Rightarrow> Inl TypeError)))))))"

section \<open>Sample inputs\<close>

text \<open>
  A concrete runtime for the examples. Each function is a finite table that agrees with
  the Python function on the arguments the examples use and rejects everything else.
\<close>

definition sample_float :: "string \<Rightarrow> pyfloat option" where
  "sample_float s = (if s = ''75000000'' then Some (FVal 75000000) else None)"

definition sample_cache :: string where
  \<open>sample_cache = ''[{"corp_id":"123","detail_category":"SaaS","stability_status":null,"growth_status":"high","grant_limit":"75000000"}]''\<close>

definition sample_rows :: pyval where
  "sample_rows =
     PList [PDict [(''corp_id'', PStr ''123''), (''detail_category'', PStr ''SaaS''),
                   (''stability_status'', PNone), (''growth_status'', PStr ''high''),
                   (''grant_limit'', PStr ''75000000'')]]"

definition sample_segment :: pydict where
  "sample_segment =
     [(''detailCategory'', PStr ''SaaS''), (''stabilityStatus'', PStr label_unmatched),
      (''growthStatus'', PStr ''high''), (''limitTier'', PStr label_50M_100M)]"

definition sample_loads :: "string \<Rightarrow> pyval option" where
  \<open>sample_loads s =
     (if s = ''[]'' then Some (PList [])
      else if s = sample_cache then Some sample_rows
      else if s = ''[{"chatId":"A1"}]'' then Some (PList [PDict [(''chatId'', PStr ''A1'')]])
      else None)\<close>

definition sample_dated_record :: pyval where
  "sample_dated_record = PDict [(''chatId'', PStr ''B2''), (''date'', PStr ''2026-02-20'')]"

definition sample_dumps :: "pyval \<Rightarrow> string" where
  \<open>sample_dumps v =
     (if v = PList [sample_dated_record] then ''[{"chatId":"B2","date":"2026-02-20"}]''
      else ''[]'')\<close>

definition sample_strptime :: "string \<Rightarrow> (nat \<times> nat \<times> nat) option" where
  "sample_strptime s = (if s = ''2026-02-20'' then Some (2026, 2, 20) else None)"

definition rt0 :: runtime where
  "rt0 = \<lparr> json_loads = sample_loads,
           json_dumps = sample_dumps,
           json_dumps_indent = (\<lambda>v. ''[]''),
           float_of_str = sample_float,
           str_of = (\<lambda>v. ''None''),
           strptime_ymd = sample_strptime,
           compile_template = (\<lambda>s. None) \<rparr>"

text \<open>
  The scenario of the specification (section 8): the destination holds the record
  \<^verbatim>\<open>A1\<close>; the batch holds \<^verbatim>\<open>A1\<close> and \<^verbatim>\<open>B2\<close>; \<^verbatim>\<open>B2\<close> resolves to the business identifier
  \<^verbatim>\<open>123\<close>, whose cached profile has a grant limit of 75,000,000.
\<close>

definition sample_corp_map :: "(pyval \<times> string) list" where
  "sample_corp_map = [(PStr ''B2'', ''123'')]"

definition sample_seg_map :: "(string \<times> pydict) list" where
  "sample_seg_map = [(''123'', sample_segment)]"

definition sample_new_records :: "pyval list" where
  "sample_new_records =
     [PDict [(''chatId'', PStr ''C3''), (''date'', PStr ''2026-02-19''),
             (''limitTier'', PStr label_unmatched)],
      PDict [(''chatId'', PStr ''B2''), (''date'', PStr ''2026-02-20''),
             (''limitTier'', PStr label_unmatched)]]"

definition sample_enriched :: "pyval list" where
  "sample_enriched =
     [PDict [(''chatId'', PStr ''C3''), (''date'', PStr ''2026-02-19''),
             (''limitTier'', PStr label_unmatched)],
      PDict [(''chatId'', PStr ''B2''), (''date'', PStr ''2026-02-20''),
             (''limitTier'', PStr label_50M_100M), (''detailCategory'', PStr ''SaaS''),
             (''stabilityStatus'', PStr label_unmatched), (''growthStatus'', PStr ''high'')]]"

text \<open>
  A workbook with two conversations and one actor: \<^verbatim>\<open>c1\<close> carries the direct value
  \<^verbatim>\<open>N/A\<close> and the actor \<^verbatim>\<open>u1\<close>, whose business number is \<^verbatim>\<open>999\<close>; \<^verbatim>\<open>c2\<close> carries the direct
  value \<^verbatim>\<open>123-45\<close> and no actor.
\<close>

definition sample_chat_row :: "string \<Rightarrow> pyval \<Rightarrow> pyval \<Rightarrow> chat_row" where
  "sample_chat_row c direct actor =
     \<lparr> chat_id = PStr c, managed_at = PDatetime ''2026-02-20 09:30:00'', company = PNone,
       corp_direct = direct, old_tag = PNone, user_id = actor,
       first_answer_sec = PInt 42, close_sec = PNone \<rparr>"

definition sample_workbook :: workbook where
  "sample_workbook =
     ([sample_chat_row ''c1'' (PStr ''N/A'') (PStr ''u1''),
       sample_chat_row ''c2'' (PStr ''123-45'') PNone],
      [\<lparr> uid = PStr ''u1'', u_company = PStr ''Acme'', u_corp_number = PStr ''999'' \<rparr>])"

definition sample_workbook2 :: workbook where
  "sample_workbook2 =
     ([sample_chat_row ''c1'' (PInt 5) (PStr ''u1''),
       sample_chat_row ''c2'' (PStr ''123-45'') (PStr ''u2'')],
      [\<lparr> uid = PStr ''u1'', u_company = PStr ''Acme'', u_corp_number = PStr ''999-0'' \<rparr>])"

text \<open>
  Three documents: one with a data block that is not JSON (a comma before the closing
  bracket), one without the data block, and one with a well-formed data block. The last
  two show a display date.
\<close>

definition sample_doc_bad :: string where
  \<open>sample_doc_bad = ''<script>    const ALL_RECORDS = [{"chatId":"A1"},];</script>''\<close>

definition sample_doc_no_block :: string where
  \<open>sample_doc_no_block =
     ''<b id="lastUpdateDate">2026. 1. 1.</b><script>const RECORDS = [];</script>''\<close>

definition sample_doc :: string where
  \<open>sample_doc =
     ''<b id="lastUpdateDate">2026. 1. 1.</b><script>    const ALL_RECORDS = [{"chatId":"A1"}];</script>''\<close>

text \<open>
  A row of the local store with the identity \<^verbatim>\<open>B2\<close> and no business number, the record
  that \<^verbatim>\<open>convert_record\<close> makes of it, a record that phase 3 wrote earlier (it carries
  fields of the store), and what the field filter of phase 2 leaves of that record.
\<close>

definition sample_db_row :: db_row where
  "sample_db_row =
     \<lparr> db_id = PInt 1, db_date = PStr ''2026-02-20'', db_tags = PNone, db_tag_major = PNone,
       db_impact = PStr ''L1'', db_journey = PNone, db_title = PStr ''card limit'',
       db_summary = PNone, db_customer_request = PNone, db_result = PNone,
       db_slack_ts = PStr ''B2'', db_slack_link = PNone, db_corp_number = PNone,
       db_companyname = PStr ''Acme'', db_assignee = PNone \<rparr>"

definition sample_converted :: pyval where
  "sample_converted =
     PDict [(''chatId'', PStr ''B2''), (''date'', PStr ''2026-02-20''),
            (''company'', PStr ''Acme''), (''oldTag'', PStr label_unclassified),
            (''primaryTag'', PStr label_unclassified), (''secondaryTag'', PStr ''L1''),
            (''confidence'', PStr ''auto''), (''detailCategory'', PStr label_unmatched),
            (''stabilityStatus'', PStr label_unmatched), (''growthStatus'', PStr label_unmatched),
            (''limitTier'', PStr label_unmatched), (''firstAnswerSec'', PNone),
            (''closeSec'', PNone), (''impact'', PStr ''L1''), (''journey'', PNone),
            (''title'', PStr ''card limit''), (''summary'', PNone),
            (''customerRequest'', PNone), (''result'', PNone), (''assignee'', PNone),
            (''slackLink'', PNone), (''source'', PStr ''db'')]"

definition sample_existing :: "pyval list" where
  "sample_existing = [PDict [(''chatId'', PStr ''A1''), (''date'', PStr ''2026-02-18'')]]"

definition sample_db_record :: pyval where
  "sample_db_record =
     PDict [(''chatId'', PStr ''A1''), (''date'', PStr ''2026-02-18''),
            (''title'', PStr ''card limit''), (''source'', PStr ''db'')]"

definition sample_db_record_kept :: pyval where
  "sample_db_record_kept =
     PDict [(''chatId'', PStr ''A1''), (''date'', PStr ''2026-02-18''), (''company'', PNone),
            (''oldTag'', PNone), (''primaryTag'', PNone), (''secondaryTag'', PNone),
            (''confidence'', PNone), (''detailCategory'', PNone), (''stabilityStatus'', PNone),
            (''growthStatus'', PNone), (''limitTier'', PNone), (''firstAnswerSec'', PNone),
            (''closeSec'', PNone)]"

definition sample_dated_record_kept :: pyval where
  "sample_dated_record_kept =
     PDict [(''chatId'', PStr ''B2''), (''date'', PStr ''2026-02-20''), (''company'', PNone),
            (''oldTag'', PNone), (''primaryTag'', PNone), (''secondaryTag'', PNone),
            (''confidence'', PNone), (''detailCategory'', PNone), (''stabilityStatus'', PNone),
            (''growthStatus'', PNone), (''limitTier'', PNone), (''firstAnswerSec'', PNone),
            (''closeSec'', PNone)]"

definition sample_bq :: "int set \<Rightarrow> bq_result" where
  "sample_bq corp_ids = BqTimeout"

text \<open>
  A conversation sheet with the single conversation \<^verbatim>\<open>c1\<close> and the record that
  \<^verbatim>\<open>parse_userchat\<close> makes of its row.
\<close>

definition sample_sheet :: "chat_row list" where
  "sample_sheet = [sample_chat_row ''c1'' PNone PNone]"

definition sample_parsed :: pyval where
  "sample_parsed =
     PDict [(''chatId'', PStr ''c1''), (''date'', PStr ''2026-02-20''), (''company'', PNone),
            (''oldTag'', PStr label_unclassified), (''primaryTag'', PStr label_unclassified),
            (''secondaryTag'', PNone), (''confidence'', PNone),
            (''detailCategory'', PStr label_unmatched), (''stabilityStatus'', PStr label_unmatched),
            (''growthStatus'', PStr label_unmatched), (''limitTier'', PStr label_unmatched),
            (''firstAnswerSec'', PFloat (FVal 42)), (''closeSec'', PNone)]"

text \<open>
  A pipeline run that is repeated. The destination starts with an empty data block, the
  workbook holds the conversation \<^verbatim>\<open>c1\<close> and no actor, there is no cache file and no
  hand-off file. \<open>sample_parsed_json\<close> is the text of the record of \<^verbatim>\<open>c1\<close> as
  \<^verbatim>\<open>json.dumps(..., ensure_ascii=False, separators=(",", ":"))\<close> writes it,
  \<open>sample_handoff\<close> the text that \<^verbatim>\<open>json.dump(..., ensure_ascii=False, indent=2)\<close> writes
  for the list that holds this record. The runtime of the scenario is again a finite
  table.
\<close>

definition sample_parsed_json :: string where
  \<open>sample_parsed_json =
     ''{"chatId":"c1","date":"2026-02-20","company":null,"oldTag":"'' @ label_unclassified
     @ ''","primaryTag":"'' @ label_unclassified
     @ ''","secondaryTag":null,"confidence":null,"detailCategory":"'' @ label_unmatched
     @ ''","stabilityStatus":"'' @ label_unmatched
     @ ''","growthStatus":"'' @ label_unmatched
     @ ''","limitTier":"'' @ label_unmatched
     @ ''","firstAnswerSec":42.0,"closeSec":null}''\<close>

definition sample_handoff :: string where
  \<open>sample_handoff =
     ''[\<newline>  {\<newline>    "chatId": "c1",\<newline>    "date": "2026-02-20",\<newline>    "company": null,\<newline>    "oldTag": "''
     @ label_unclassified @ ''",\<newline>    "primaryTag": "''
     @ label_unclassified
     @ ''",\<newline>    "secondaryTag": null,\<newline>    "confidence": null,\<newline>    "detailCategory": "''
     @ label_unmatched @ ''",\<newline>    "stabilityStatus": "''
     @ label_unmatched @ ''",\<newline>    "growthStatus": "''
     @ label_unmatched @ ''",\<newline>    "limitTier": "''
     @ label_unmatched
     @ ''",\<newline>    "firstAnswerSec": 42.0,\<newline>    "closeSec": null\<newline>  }\<newline>]''\<close>

definition sample_block1 :: string where
  "sample_block1 = ''['' @ sample_parsed_json @ '']''"

definition sample_block2 :: string where
  "sample_block2 = ''['' @ sample_parsed_json @ '','' @ sample_parsed_json @ '']''"

definition pipeline_loads :: "string \<Rightarrow> pyval option" where
  "pipeline_loads s =
     (if s = ''[]'' then Some (PList [])
      else if s = sample_handoff then Some (PList [sample_parsed])
      else if s = sample_block1 then Some (PList [sample_parsed])
      else if s = sample_block2 then Some (PList [sample_parsed, sample_parsed])
      else None)"

definition pipeline_dumps :: "pyval \<Rightarrow> string" where
  "pipeline_dumps v =
     (if v = PList [sample_parsed] then sample_block1
      else if v = PList [sample_parsed, sample_parsed] then sample_block2
      else ''[]'')"

definition rt1 :: runtime where
  "rt1 = \<lparr> json_loads = pipeline_loads,
           json_dumps = pipeline_dumps,
           json_dumps_indent = (\<lambda>v. if v = PList [sample_parsed] then sample_handoff else ''[]''),
           float_of_str = (\<lambda>s. None),
           str_of = (\<lambda>v. ''None''),
           strptime_ymd = sample_strptime,
           compile_template = (\<lambda>s. None) \<rparr>"

definition pipeline_workbook :: workbook where
  "pipeline_workbook = (sample_sheet, [])"

definition pipeline_doc :: "string \<Rightarrow> string" where
  "pipeline_doc block = ''<script>    const ALL_RECORDS = '' @ block @ '';</script>''"

definition files0 :: files where
  "files0 = \<lparr> index_html = Some (pipeline_doc ''[]''), new_records_json = None,
              segment_cache = None \<rparr>"

definition files1 :: files where
  "files1 = \<lparr> index_html = Some (pipeline_doc ''[]''), new_records_json = Some sample_handoff,
              segment_cache = None \<rparr>"

definition files2 :: files where
  "files2 = \<lparr> index_html = Some (pipeline_doc sample_block1),
              new_records_json = Some sample_handoff, segment_cache = None \<rparr>"

definition files3 :: files where
  "files3 = \<lparr> index_html = Some (pipeline_doc sample_block2),
              new_records_json = Some sample_handoff, segment_cache = None \<rparr>"

section \<open>Properties of the conversion to a double\<close>

lemma round_to_double_small: "m < 2 ^ 53 \<Longrightarrow> round_to_double m = m"
  by (simp add: round_to_double_def)

lemma round_to_double_large:
  assumes "2 ^ 53 \<le> m"
  shows "2 ^ 53 \<le> round_to_double m"
proof -
  define L where "L = floorlog 2 m"
  define e where "e = L - 53"
  define q where "q = m div 2 ^ e"
  have m_pos: "0 < m" using assms by (simp add: order_less_le_trans [of 0 "2 ^ 53" m])
  have L54: "54 \<le> L"
    using floorlog_ge_SucI [of 2 53 m] assms by (simp add: L_def)
  then have e1: "1 \<le> e" and Le: "L - 1 = 52 + e" by (simp_all add: e_def)
  have "2 ^ (L - 1) \<le> m"
    using floorlog_bounds [of m 2] m_pos by (simp add: L_def)
  then have "2 ^ (52 + e) \<le> m" by (simp only: Le)
  then have "2 ^ 52 * 2 ^ e \<le> m" by (simp only: power_add)
  then have q52: "(2::nat) ^ 52 \<le> q"
    unfolding q_def by (metis div_le_mono div_mult_self_is_m zero_less_numeral zero_less_power)
  have "(2::nat) ^ 53 = 2 ^ 52 * 2 ^ 1" by simp
  also have "\<dots> \<le> q * 2 ^ e"
  proof (rule mult_le_mono [OF q52])
    show "(2::nat) ^ 1 \<le> 2 ^ e" using e1 by (intro power_increasing) simp_all
  qed
  finally have low: "2 ^ 53 \<le> q * 2 ^ e" .
  have "q * 2 ^ e \<le> round_to_double m"
    using assms by (simp add: round_to_double_def Let_def L_def e_def q_def)
  with low show ?thesis by simp
qed

text \<open>The rounded value exceeds the largest double exactly from \<open>2^1024 - 2^970\<close> on.\<close>

lemma round_overflow_iff:
  "dbl_max < round_to_double m \<longleftrightarrow> 2 ^ 1024 - 2 ^ 970 \<le> m"
proof -
  define P :: nat where "P = 2 ^ 971"
  define H :: nat where "H = 2 ^ 970"
  have PH: "P = 2 * H" by (simp add: P_def H_def)
  have Hpos: "0 < H" by (simp add: H_def)
  have p1024: "(2::nat) ^ 1024 = 2 ^ 53 * P"
    unfolding P_def by (simp only: power_add [symmetric]) simp
  have p1023: "(2::nat) ^ 1023 = 2 ^ 52 * P"
    unfolding P_def by (simp only: power_add [symmetric]) simp
  have dm: "dbl_max = (2 ^ 53 - 1) * P"
    unfolding dbl_max_def p1024 P_def [symmetric] by (simp add: algebra_simps)
  have thr: "2 ^ 1024 - 2 ^ 970 = (2 ^ 53 - 1) * P + H"
    unfolding p1024 H_def [symmetric] using PH by (simp add: algebra_simps)
  have small53: "(2::nat) ^ 53 \<le> (2 ^ 53 - 1) * P"
  proof -
    have "(2::nat) \<le> P" unfolding P_def using power_increasing [of 1 971 "2::nat"] by simp
    then have "(2 ^ 53 - 1) * 2 \<le> (2 ^ 53 - 1) * P" by (rule mult_le_mono2)
    then show ?thesis by simp
  qed
  show ?thesis
  proof (cases "m < 2 ^ 53")
    case True
    then have "round_to_double m = m" by (simp add: round_to_double_def)
    moreover have "m < (2 ^ 53 - 1) * P" using True small53 by linarith
    ultimately show ?thesis unfolding dm thr by simp
  next
    case False
    define L where "L = floorlog 2 m"
    define e where "e = L - 53"
    define q where "q = m div 2 ^ e"
    define r where "r = m mod 2 ^ e"
    have big: "2 ^ 53 \<le> m" using False by simp
    then have m_pos: "0 < m" by (simp add: order_less_le_trans [of 0 "2 ^ 53" m])
    have L54: "54 \<le> L"
      using floorlog_ge_SucI [of 2 53 m] big by (simp add: L_def)
    then have e1: "1 \<le> e" and Le: "L - 1 = 52 + e" and L53: "L = 53 + e"
      by (simp_all add: e_def)
    have bounds: "2 ^ (L - 1) \<le> m" "m < 2 ^ L"
      using floorlog_bounds [of m 2] m_pos by (simp_all add: L_def)
    have lo: "2 ^ 52 * 2 ^ e \<le> m" using bounds(1) by (simp only: Le power_add)
    have hi: "m < 2 ^ 53 * 2 ^ e" using bounds(2) by (simp only: L53 power_add)
    have q52: "(2::nat) ^ 52 \<le> q"
      using lo unfolding q_def
      by (metis div_le_mono div_mult_self_is_m zero_less_numeral zero_less_power)
    have q53: "q < 2 ^ 53"
      unfolding q_def using hi by (simp add: less_mult_imp_div_less)
    have m_eq: "m = q * 2 ^ e + r"
      unfolding q_def r_def by (rule div_mult_mod_eq [symmetric])
    have r_lt: "r < 2 ^ e" unfolding r_def by simp
    have rd: "round_to_double m =
        (if r < 2 ^ (e - 1) \<or> (r = 2 ^ (e - 1) \<and> even q) then q else q + 1) * 2 ^ e"
      using False by (simp add: round_to_double_def Let_def L_def e_def q_def r_def)
    have rd_lo: "q * 2 ^ e \<le> round_to_double m" unfolding rd by simp
    have rd_hi: "round_to_double m \<le> (q + 1) * 2 ^ e" unfolding rd by simp
    consider "L \<le> 1023" | "L = 1024" | "1025 \<le> L" by linarith
    then show ?thesis
    proof cases
      case 1
      then have "(2::nat) ^ L \<le> 2 ^ 1023" by (intro power_increasing) simp_all
      then have mlt: "m < 2 ^ 52 * P" using bounds(2) unfolding p1023 by linarith
      have "(q + 1) * 2 ^ e \<le> 2 ^ 53 * 2 ^ e" using q53 by (intro mult_le_mono1) simp
      also have "\<dots> = 2 ^ L" by (simp only: L53 power_add)
      also have "\<dots> \<le> 2 ^ 1023" by fact
      also have "\<dots> \<le> (2 ^ 53 - 1) * P" unfolding p1023 by (intro mult_le_mono1) simp
      finally have "round_to_double m \<le> dbl_max" using rd_hi unfolding dm by linarith
      moreover have "\<not> (2 ^ 53 - 1) * P + H \<le> m"
      proof -
        have "2 ^ 52 * P \<le> (2 ^ 53 - 1) * P" by (intro mult_le_mono1) simp
        then show ?thesis using mlt by linarith
      qed
      ultimately show ?thesis unfolding thr by simp
    next
      case 2
      then have e971: "e = 971" by (simp add: e_def)
      have eP: "(2::nat) ^ e = P" by (simp add: e971 P_def)
      have eH: "(2::nat) ^ (e - 1) = H" by (simp add: e971 H_def)
      have m_eq': "m = q * P + r" using m_eq eP by simp
      have r_lt': "r < 2 * H" using r_lt eP PH by simp
      have rd': "round_to_double m = (if r < H \<or> (r = H \<and> even q) then q else q + 1) * P"
        using rd eP eH by simp
      show ?thesis
      proof (cases "q = 2 ^ 53 - 1")
        case True
        then have oddq: "odd q" by simp
        have "(q + 1) * P = (2 ^ 53 - 1) * P + P" using True by (simp add: algebra_simps)
        then have up: "dbl_max < (q + 1) * P" unfolding dm using PH Hpos by linarith
        have "dbl_max < round_to_double m \<longleftrightarrow> H \<le> r"
          unfolding rd' using oddq up True dm by auto
        also have "\<dots> \<longleftrightarrow> (2 ^ 53 - 1) * P + H \<le> m"
          unfolding m_eq' True by simp
        finally show ?thesis unfolding thr .
      next
        case False
        then have "q + 1 \<le> 2 ^ 53 - 1" using q53 by simp
        then have "(q + 1) * P \<le> (2 ^ 53 - 1) * P" by (rule mult_le_mono1)
        moreover have "round_to_double m \<le> (q + 1) * P" using rd_hi unfolding eP .
        ultimately have a: "round_to_double m \<le> dbl_max"
          unfolding dm by (rule order_trans [rotated])
        have "m < (q + 1) * P" using m_eq' r_lt' PH by (simp add: algebra_simps)
        then have "\<not> (2 ^ 53 - 1) * P + H \<le> m"
          using \<open>(q + 1) * P \<le> (2 ^ 53 - 1) * P\<close> by linarith
        with a show ?thesis unfolding thr by simp
      qed
    next
      case 3
      then have "(2::nat) ^ 1024 \<le> 2 ^ (L - 1)" by (intro power_increasing) simp_all
      then have m1024: "2 ^ 53 * P \<le> m" using bounds(1) unfolding p1024 by linarith
      have "q * 2 ^ e \<ge> 2 ^ 52 * 2 ^ e" using q52 by (intro mult_le_mono1)
      also have "(2::nat) ^ 52 * 2 ^ e = 2 ^ (L - 1)" by (simp only: Le power_add)
      finally have "2 ^ 53 * P \<le> round_to_double m"
        using rd_lo \<open>(2::nat) ^ 1024 \<le> 2 ^ (L - 1)\<close> unfolding p1024 by linarith
      moreover have "(2 ^ 53 - 1) * P < 2 ^ 53 * P"
        using PH Hpos by (simp add: algebra_simps)
      moreover have "(2 ^ 53 - 1) * P + H \<le> 2 ^ 53 * P"
        using PH Hpos by (simp add: algebra_simps)
      ultimately show ?thesis unfolding thr dm using m1024 by linarith
    qed
  qed
qed

lemma float_of_int_overflow_iff:
  "float_of_int n = Inl OverflowError \<longleftrightarrow> 2 ^ 1024 - 2 ^ 970 \<le> \<bar>n\<bar>"
proof -
  have "float_of_int n = Inl OverflowError \<longleftrightarrow> dbl_max < round_to_double (nat \<bar>n\<bar>)"
    by (simp add: float_of_int_def Let_def)
  also have "\<dots> \<longleftrightarrow> (2 ^ 1024 - 2 ^ 970 :: nat) \<le> nat \<bar>n\<bar>"
    by (rule round_overflow_iff)
  also have "\<dots> \<longleftrightarrow> int (2 ^ 1024 - 2 ^ 970) \<le> \<bar>n\<bar>"
    by (simp add: le_nat_iff)
  also have "int (2 ^ 1024 - 2 ^ 970) = 2 ^ 1024 - 2 ^ 970"
    by (simp add: of_nat_diff)
  finally show ?thesis .
qed

lemma float_of_int_cases:
  "float_of_int n = Inl OverflowError \<or> (\<exists>x. float_of_int n = Inr (FVal x))"
  by (simp add: float_of_int_def Let_def)

lemma float_of_int_exact:
  assumes "\<bar>n\<bar> < 2 ^ 53"
  shows "float_of_int n = Inr (FVal (real_of_int n))"
proof -
  from assms have m: "nat \<bar>n\<bar> < 2 ^ 53" by (simp add: nat_less_iff)
  have "\<not> (2 ^ 1024 - 2 ^ 970 :: nat) \<le> nat \<bar>n\<bar>"
  proof -
    have "(2::nat) ^ 1024 = 2 ^ 1023 + 2 ^ 1023" by simp
    moreover have "(2::nat) ^ 970 \<le> 2 ^ 1023" by (rule power_increasing) simp_all
    moreover have "(2::nat) ^ 53 \<le> 2 ^ 1023" by (rule power_increasing) simp_all
    ultimately show ?thesis using m by linarith
  qed
  then have "\<not> dbl_max < round_to_double (nat \<bar>n\<bar>)" unfolding round_overflow_iff .
  then have "\<not> dbl_max < nat \<bar>n\<bar>" unfolding round_to_double_small [OF m] .
  then show ?thesis
    using assms by (auto simp: float_of_int_def round_to_double_small [OF m] Let_def)
qed

text \<open>
  Rounding cannot move an integer across a threshold below \<open>2^53\<close>: the comparison of the
  double with the threshold is the comparison of the integer with it.
\<close>

lemma float_of_int_less:
  assumes "float_of_int n = Inr v" and "\<bar>t\<bar> < 2 ^ 53"
  shows "float_less v t \<longleftrightarrow> n < t"
proof (cases "\<bar>n\<bar> < 2 ^ 53")
  case True
  with assms(1) have "v = FVal (real_of_int n)" by (simp add: float_of_int_exact)
  then show ?thesis by simp
next
  case False
  then have big: "2 ^ 53 \<le> nat \<bar>n\<bar>" by (simp add: le_nat_iff)
  define r where "r = round_to_double (nat \<bar>n\<bar>)"
  have r: "2 ^ 53 \<le> r" unfolding r_def by (rule round_to_double_large [OF big])
  then have rr: "(2::real) ^ 53 \<le> real r"
    by (metis of_nat_le_iff of_nat_numeral of_nat_power)
  have tt: "real_of_int t < 2 ^ 53" "- (2 ^ 53) < real_of_int t"
  proof -
    from assms(2) have "t < 2 ^ 53" and "- (2 ^ 53) < t" by (simp_all add: abs_less_iff)
    then have "real_of_int t < real_of_int (2 ^ 53)"
      and "real_of_int (- (2 ^ 53)) < real_of_int t"
      by (simp_all only: of_int_less_iff)
    then show "real_of_int t < 2 ^ 53" and "- (2 ^ 53) < real_of_int t" by simp_all
  qed
  from assms(1) have v: "v = FVal (if n < 0 then - real r else real r)"
    by (auto simp: float_of_int_def Let_def r_def split: if_splits)
  show ?thesis
  proof (cases "n < 0")
    case True
    then have "n < t" using False assms(2) by linarith
    moreover have "float_less v t" using v True rr tt by simp
    ultimately show ?thesis by simp
  next
    case False
    with \<open>\<not> \<bar>n\<bar> < 2 ^ 53\<close> have "\<not> n < t" using assms(2) by linarith
    moreover have "\<not> float_less v t" using v False rr tt by simp
    ultimately show ?thesis by simp
  qed
qed

section \<open>Tier classifier\<close>

lemma labels_distinct:
  "distinct [label_unmatched, label_under_10M, label_10M_50M, label_50M_100M,
             label_100M_500M, label_500M_up]"
  by (simp add: label_unmatched_def label_under_10M_def label_10M_50M_def label_50M_100M_def
      label_100M_500M_def label_500M_up_def)

lemma to_limit_tier_None: "to_limit_tier rt PNone = Inr label_unmatched"
  by (simp add: to_limit_tier_def)

lemma to_limit_tier_unconvertible:
  "py_float rt g = Inl ValueError \<or> py_float rt g = Inl TypeError \<Longrightarrow>
   to_limit_tier rt g = Inr label_unmatched"
  by (auto simp: to_limit_tier_def)

lemma to_limit_tier_value:
  assumes "py_float rt g = Inr v"
  shows "to_limit_tier rt g =
     Inr (if float_less v 10000000 then label_under_10M
          else if float_less v 50000000 then label_10M_50M
          else if float_less v 100000000 then label_50M_100M
          else if float_less v 500000000 then label_100M_500M
          else label_500M_up)"
proof -
  have "g \<noteq> PNone" using assms by auto
  then show ?thesis using assms by (simp add: to_limit_tier_def)
qed

lemma to_limit_tier_int:
  assumes "float_of_int n = Inr v"
  shows "to_limit_tier rt (PInt n) =
     Inr (if n < 10000000 then label_under_10M
          else if n < 50000000 then label_10M_50M
          else if n < 100000000 then label_50M_100M
          else if n < 500000000 then label_100M_500M
          else label_500M_up)"
proof -
  have "py_float rt (PInt n) = Inr v" using assms by simp
  note tier = to_limit_tier_value [OF this]
  have "float_less v 10000000 \<longleftrightarrow> n < 10000000"
    "float_less v 50000000 \<longleftrightarrow> n < 50000000"
    "float_less v 100000000 \<longleftrightarrow> n < 100000000"
    "float_less v 500000000 \<longleftrightarrow> n < 500000000"
    by (rule float_of_int_less [OF assms], simp)+
  then show ?thesis unfolding tier by simp
qed

text \<open>
  Claim C5 (tier classifier). \<^verbatim>\<open>None\<close> and a magnitude that \<^verbatim>\<open>float()\<close> rejects with
  \<^verbatim>\<open>ValueError\<close> or \<^verbatim>\<open>TypeError\<close> (a string that is not a number, a list, a dictionary)
  get the label "unmatched". A magnitude with the numeric value \<open>x\<close> gets the label the
  table gives \<open>x\<close>: under 10M below 10,000,000, then the half-open ranges up to
  500,000,000, and "500M and above" from there on; negative infinity falls in the lowest
  tier, positive infinity and NaN in the highest. For an integer the comparison is the one
  of the integer itself, whatever the rounding, for every integer that \<^verbatim>\<open>float()\<close>
  converts, which are those of absolute value below \<open>2^1024 - 2^970\<close>. A value at a
  boundary is in the higher tier: 9,999,999 is under 10M, 10,000,000 is 10M-50M and
  500,000,000 is 500M and above. The six labels are different strings.
\<close>

theorem to_limit_tier_correct:
  "(g = PNone \<or> py_float rt g = Inl ValueError \<or> py_float rt g = Inl TypeError
      \<longrightarrow> to_limit_tier rt g = Inr label_unmatched)
   \<and> (\<forall>x. py_float rt g = Inr (FVal x) \<longrightarrow> to_limit_tier rt g = Inr (tier_of_magnitude x))
   \<and> (py_float rt g = Inr FNegInf \<longrightarrow> to_limit_tier rt g = Inr label_under_10M)
   \<and> (py_float rt g = Inr FInf \<or> py_float rt g = Inr FNaN
        \<longrightarrow> to_limit_tier rt g = Inr label_500M_up)
   \<and> (\<forall>n. \<bar>n\<bar> < 2 ^ 1024 - 2 ^ 970
        \<longrightarrow> to_limit_tier rt (PInt n) = Inr (tier_of_magnitude (real_of_int n)))
   \<and> to_limit_tier rt (PInt 9999999) = Inr label_under_10M
   \<and> to_limit_tier rt (PInt 10000000) = Inr label_10M_50M
   \<and> to_limit_tier rt (PInt 500000000) = Inr label_500M_up
   \<and> distinct [label_unmatched, label_under_10M, label_10M_50M, label_50M_100M,
               label_100M_500M, label_500M_up]"
proof -
  have null: "g = PNone \<or> py_float rt g = Inl ValueError \<or> py_float rt g = Inl TypeError
      \<longrightarrow> to_limit_tier rt g = Inr label_unmatched"
    using to_limit_tier_None to_limit_tier_unconvertible by blast
  have num: "\<forall>x. py_float rt g = Inr (FVal x) \<longrightarrow> to_limit_tier rt g = Inr (tier_of_magnitude x)"
    by (auto simp: to_limit_tier_value tier_of_magnitude_def)
  have neg: "py_float rt g = Inr FNegInf \<longrightarrow> to_limit_tier rt g = Inr label_under_10M"
    by (simp add: to_limit_tier_value)
  have pos: "py_float rt g = Inr FInf \<or> py_float rt g = Inr FNaN
      \<longrightarrow> to_limit_tier rt g = Inr label_500M_up"
    by (auto simp: to_limit_tier_value)
  have ints: "to_limit_tier rt (PInt n) = Inr (tier_of_magnitude (real_of_int n))"
    if "\<bar>n\<bar> < 2 ^ 1024 - 2 ^ 970" for n
  proof -
    from that have "float_of_int n \<noteq> Inl OverflowError"
      by (simp add: float_of_int_overflow_iff)
    then obtain x where "float_of_int n = Inr (FVal x)"
      using float_of_int_cases [of n] by auto
    from to_limit_tier_int [OF this] show ?thesis
      by (simp add: tier_of_magnitude_def)
  qed
  have ex: "to_limit_tier rt (PInt 9999999) = Inr label_under_10M"
    "to_limit_tier rt (PInt 10000000) = Inr label_10M_50M"
    "to_limit_tier rt (PInt 500000000) = Inr label_500M_up"
    by (simp_all add: to_limit_tier_int [OF float_of_int_exact])
  from null num neg pos ints ex labels_distinct show ?thesis by blast
qed

theorem to_limit_tier_correct_witness:
  "py_float rt0 (PStr ''n/a'') = Inl ValueError
   \<and> to_limit_tier rt0 (PStr ''n/a'') = Inr label_unmatched
   \<and> py_float rt0 (PStr ''75000000'') = Inr (FVal 75000000)
   \<and> to_limit_tier rt0 (PStr ''75000000'') = Inr label_50M_100M
   \<and> py_float rt0 (PFloat FNegInf) = Inr FNegInf
   \<and> to_limit_tier rt0 (PFloat FNegInf) = Inr label_under_10M
   \<and> py_float rt0 (PFloat FNaN) = Inr FNaN
   \<and> to_limit_tier rt0 (PFloat FNaN) = Inr label_500M_up
   \<and> \<bar>75000000 :: int\<bar> < 2 ^ 1024 - 2 ^ 970
   \<and> to_limit_tier rt0 (PInt 75000000) = Inr label_50M_100M"
proof -
  have a: "py_float rt0 (PStr ''n/a'') = Inl ValueError"
    and b: "py_float rt0 (PStr ''75000000'') = Inr (FVal 75000000)"
    and c: "py_float rt0 (PFloat FNegInf) = Inr FNegInf"
    and d: "py_float rt0 (PFloat FNaN) = Inr FNaN"
    by (simp_all add: rt0_def sample_float_def)
  have e: "\<bar>75000000 :: int\<bar> < 2 ^ 1024 - 2 ^ 970" by simp
  show ?thesis
    using a b c d e
      to_limit_tier_correct [of "PStr ''n/a''" rt0]
      to_limit_tier_correct [of "PStr ''75000000''" rt0]
      to_limit_tier_correct [of "PFloat FNegInf" rt0]
      to_limit_tier_correct [of "PFloat FNaN" rt0]
    by (simp add: tier_of_magnitude_def)
qed

section \<open>Segment resolver\<close>

lemma build_seg_map_total:
  "list_all (row_ok rt) rows \<Longrightarrow> \<exists>m. build_seg_map rt rows seg_map = Inr m"
proof (induction rows arbitrary: seg_map)
  case Nil
  show ?case by simp
next
  case (Cons row rows)
  from Cons.prems have "row_ok rt row" and rest: "list_all (row_ok rt) rows" by simp_all
  then obtain cid seg where "seg_entry rt row = Inr (cid, seg)"
    by (auto simp: row_ok_def seg_entry_def split: pyval.splits sum.splits)
  with Cons.IH [OF rest] show ?case by simp
qed

lemma load_segment_cache_total:
  assumes "cache_ok rt cache"
  shows "\<exists>m. load_segment_cache rt cache = Inr m"
proof (cases cache)
  case None
  then show ?thesis by (simp add: load_segment_cache_def)
next
  case (Some contents)
  with assms obtain rows where "json_loads rt contents = Some (PList rows)"
    and "list_all (row_ok rt) rows"
    by (auto simp: cache_ok_def split: option.splits pyval.splits)
  with Some build_seg_map_total [of rt rows "[]"] show ?thesis
    by (simp add: load_segment_cache_def)
qed

lemma bq_attempt_failed:
  "bq_failed rt res \<Longrightarrow> bq_attempt rt res cache = (load_segment_cache rt cache, cache)"
  by (auto simp: bq_failed_def bq_attempt_def split: bq_result.splits)

text \<open>
  Claim C4 (fallback of the segment resolver). When the remote query is attempted and
  fails because the tool is missing, it times out, it returns a non-zero code or its
  output is not JSON, the resolver of phase 2 and the resolver of phase 3 return exactly
  what loading the cache alone returns, and the cache file is what it was. The failed
  query never fails the run by itself: with a cache that is absent or well formed the
  result is a mapping. Conversely the cache file is only ever changed by a query that was
  attempted and did not fail in one of these ways.
\<close>

theorem fetch_segments_fallback:
  "(corp_ids \<noteq> {} \<and> bq_failed rt (bq corp_ids) \<longrightarrow>
      p2_fetch_segments_from_bq rt bq corp_ids cache = (load_segment_cache rt cache, cache)
    \<and> p3_fetch_segments_from_bq rt bq corp_ids cache = (load_segment_cache rt cache, cache)
    \<and> (cache_ok rt cache \<longrightarrow> (\<exists>seg_map. load_segment_cache rt cache = Inr seg_map)))
   \<and> (snd (p2_fetch_segments_from_bq rt bq corp_ids cache) \<noteq> cache
        \<or> snd (p3_fetch_segments_from_bq rt bq corp_ids cache) \<noteq> cache
      \<longrightarrow> corp_ids \<noteq> {} \<and> \<not> bq_failed rt (bq corp_ids))"
proof -
  have fallback: "p2_fetch_segments_from_bq rt bq corp_ids cache = (load_segment_cache rt cache, cache)
      \<and> p3_fetch_segments_from_bq rt bq corp_ids cache = (load_segment_cache rt cache, cache)"
    if "corp_ids \<noteq> {}" "bq_failed rt (bq corp_ids)"
    using that
    by (simp add: p2_fetch_segments_from_bq_def p3_fetch_segments_from_bq_def bq_attempt_failed)
  have empty: "snd (p2_fetch_segments_from_bq rt bq {} cache) = cache"
    "snd (p3_fetch_segments_from_bq rt bq {} cache) = cache"
    by (simp_all add: p2_fetch_segments_from_bq_def p3_fetch_segments_from_bq_def)
  have only: "corp_ids \<noteq> {} \<and> \<not> bq_failed rt (bq corp_ids)"
    if "snd (p2_fetch_segments_from_bq rt bq corp_ids cache) \<noteq> cache
        \<or> snd (p3_fetch_segments_from_bq rt bq corp_ids cache) \<noteq> cache"
  proof -
    from that empty have ne: "corp_ids \<noteq> {}" by auto
    moreover have "\<not> bq_failed rt (bq corp_ids)"
    proof
      assume "bq_failed rt (bq corp_ids)"
      from fallback [OF ne this] that show False by simp
    qed
    ultimately show ?thesis by simp
  qed
  from fallback only load_segment_cache_total [of rt cache] show ?thesis by blast
qed

lemma sample_cache_loads: "load_segment_cache rt0 (Some sample_cache) = Inr [(''123'', sample_segment)]"
  by (simp add: load_segment_cache_def rt0_def sample_loads_def sample_cache_def sample_rows_def
      seg_entry_def to_limit_tier_def sample_float_def alist_get_def py_or_def py_str_def
      sample_segment_def)

theorem fetch_segments_fallback_witness:
  "({123} :: int set) \<noteq> {}
   \<and> bq_failed rt0 ((\<lambda>ids. BqCompleted 0 ''Error: not logged in'') {123})
   \<and> cache_ok rt0 (Some sample_cache)
   \<and> p2_fetch_segments_from_bq rt0 (\<lambda>ids. BqCompleted 0 ''Error: not logged in'') {123}
        (Some sample_cache) = (Inr [(''123'', sample_segment)], Some sample_cache)
   \<and> p3_fetch_segments_from_bq rt0 (\<lambda>ids. BqCompleted 0 ''Error: not logged in'') {123}
        (Some sample_cache) = (Inr [(''123'', sample_segment)], Some sample_cache)"
proof -
  have a: "({123} :: int set) \<noteq> {}" by simp
  have b: "bq_failed rt0 ((\<lambda>ids. BqCompleted 0 ''Error: not logged in'') {123})"
    by (simp add: bq_failed_def rt0_def sample_loads_def sample_cache_def)
  have c: "cache_ok rt0 (Some sample_cache)"
    by (simp add: cache_ok_def rt0_def sample_loads_def sample_cache_def sample_rows_def
        row_ok_def to_limit_tier_def sample_float_def alist_get_def)
  from fetch_segments_fallback [where corp_ids = "{123}" and rt = rt0
      and bq = "\<lambda>ids. BqCompleted 0 ''Error: not logged in''" and cache = "Some sample_cache"]
    a b c
  show ?thesis by (simp add: sample_cache_loads)
qed

text \<open>
  Claim C6 (empty identifier set). With no identifier to look up, the resolver of phase 3
  returns the loaded cache, as the claim says; the resolver of phase 2 returns the empty
  dictionary although the cache holds a profile. Neither runs a query, and neither touches
  the cache file.
\<close>

theorem fetch_segments_empty_ids:
  "p2_fetch_segments_from_bq rt0 bq {} (Some sample_cache) = (Inr [], Some sample_cache)
   \<and> load_segment_cache rt0 (Some sample_cache) = Inr [(''123'', sample_segment)]
   \<and> p3_fetch_segments_from_bq rt0 bq {} (Some sample_cache)
       = (Inr [(''123'', sample_segment)], Some sample_cache)"
  by (simp add: p2_fetch_segments_from_bq_def p3_fetch_segments_from_bq_def sample_cache_loads)

section \<open>Enrichment\<close>

lemma stamp_fields:
  assumes "stamp seg d = Inr d'"
  shows "map_of d' k = (if k \<in> set enrichment_fields then map_of seg k else map_of d k)"
proof -
  from assms obtain dc st gr lt where
    seg: "map_of seg ''detailCategory'' = Some dc" "map_of seg ''stabilityStatus'' = Some st"
      "map_of seg ''growthStatus'' = Some gr" "map_of seg ''limitTier'' = Some lt"
    and d': "d' = AList.update ''limitTier'' lt (AList.update ''growthStatus'' gr
        (AList.update ''stabilityStatus'' st (AList.update ''detailCategory'' dc d)))"
    by (auto simp: stamp_def split: option.splits)
  show ?thesis
    unfolding d' by (simp add: update_conv' enrichment_fields_def seg)
qed

lemma stamp_total: "segment_ok seg \<Longrightarrow> \<exists>d'. stamp seg d = Inr d'"
  by (auto simp: segment_ok_def stamp_def enrichment_fields_def split: option.splits)

lemma enrich_record_result:
  assumes "enrich_record corp_map seg_map r = Inr (r', hit)"
  shows "hit = matches corp_map seg_map r"
    and "\<not> matches corp_map seg_map r \<Longrightarrow> r' = r"
    and "matches corp_map seg_map r \<Longrightarrow> stamped_with (segment_of corp_map seg_map r) r r'"
  using assms
  by (auto simp: enrich_record_def matches_def stamped_with_def segment_of_def alist_get_def
      stamp_fields split: pyval.splits option.splits sum.splits if_splits)

lemma enrich_record_total:
  assumes "has_chat_id r" and "list_all (\<lambda>kv. segment_ok (snd kv)) seg_map"
  shows "\<exists>r' hit. enrich_record corp_map seg_map r = Inr (r', hit)"
proof -
  from assms(1) obtain d cid where r: "r = PDict d" "map_of d ''chatId'' = Some cid" "hashable cid"
    by (auto simp: has_chat_id_def split: pyval.splits option.splits)
  show ?thesis
  proof (cases "matches corp_map seg_map r")
    case False
    with r show ?thesis
      by (auto simp: enrich_record_def matches_def split: option.splits)
  next
    case True
    with r obtain corp_id seg where m: "map_of corp_map cid = Some corp_id" "corp_id \<noteq> []"
      "map_of seg_map corp_id = Some seg"
      by (auto simp: matches_def split: option.splits)
    then have "(corp_id, seg) \<in> set seg_map" by (auto dest: map_of_SomeD)
    then have "segment_ok seg" using assms(2) by (auto simp: list_all_iff)
    from stamp_total [OF this, of d] obtain d' where "stamp seg d = Inr d'" ..
    with r m have "enrich_record corp_map seg_map r = Inr (PDict d', True)"
      by (simp add: enrich_record_def)
    then show ?thesis by blast
  qed
qed

lemma enrich_records_result:
  assumes "enrich_records new_records corp_map seg_map = Inr (enriched, matched)"
  shows "list_all2 (\<lambda>r r'. if matches corp_map seg_map r
                            then stamped_with (segment_of corp_map seg_map r) r r'
                            else r' = r) new_records enriched
       \<and> matched = length (filter (matches corp_map seg_map) new_records)"
  using assms
proof (induction new_records arbitrary: enriched matched)
  case Nil
  then show ?case by simp
next
  case (Cons r rs)
  from Cons.prems obtain r' hit es m where
    one: "enrich_record corp_map seg_map r = Inr (r', hit)"
    and rest: "enrich_records rs corp_map seg_map = Inr (es, m)"
    and res: "enriched = r' # es" "matched = (if hit then 1 else 0) + m"
    by (auto split: sum.splits prod.splits)
  from Cons.IH [OF rest] enrich_record_result [OF one] res show ?case
    by auto
qed

lemma enrich_records_total:
  assumes "list_all has_chat_id new_records"
    and "list_all (\<lambda>kv. segment_ok (snd kv)) seg_map"
  shows "\<exists>enriched matched. enrich_records new_records corp_map seg_map = Inr (enriched, matched)"
  using assms(1)
proof (induction new_records)
  case Nil
  show ?case by simp
next
  case (Cons r rs)
  then have "has_chat_id r" and "list_all has_chat_id rs" by simp_all
  from enrich_record_total [OF this(1) assms(2), of corp_map] Cons.IH [OF this(2)]
  show ?case by auto
qed

text \<open>
  Claim C10 (enrichment frame). On records that are dictionaries with a chat id, and
  profiles that carry the four fields, enrichment returns. Whenever it returns, the
  result has the records of the batch in their order, one for one. A record whose chat
  id maps to a non-empty business identifier that the profile mapping holds differs from
  its input in at most the four fields \<^verbatim>\<open>detailCategory\<close>, \<^verbatim>\<open>stabilityStatus\<close>,
  \<^verbatim>\<open>growthStatus\<close> and \<^verbatim>\<open>limitTier\<close>, which hold the profile's values; every other record
  is returned as it came. The count returned is the number of the records that matched.
\<close>

theorem enrich_records_frame:
  "(list_all has_chat_id new_records \<and> list_all (\<lambda>kv. segment_ok (snd kv)) seg_map
      \<longrightarrow> (\<exists>enriched matched.
             enrich_records new_records corp_map seg_map = Inr (enriched, matched)))
   \<and> (\<forall>enriched matched.
        enrich_records new_records corp_map seg_map = Inr (enriched, matched) \<longrightarrow>
          length enriched = length new_records
        \<and> (\<forall>i < length new_records.
              if matches corp_map seg_map (new_records ! i)
              then stamped_with (segment_of corp_map seg_map (new_records ! i))
                     (new_records ! i) (enriched ! i)
              else enriched ! i = new_records ! i)
        \<and> matched = length (filter (matches corp_map seg_map) new_records))"
proof (intro conjI allI impI)
  assume "list_all has_chat_id new_records \<and> list_all (\<lambda>kv. segment_ok (snd kv)) seg_map"
  then show "\<exists>enriched matched.
      enrich_records new_records corp_map seg_map = Inr (enriched, matched)"
    using enrich_records_total by blast
next
  fix enriched matched
  assume r: "enrich_records new_records corp_map seg_map = Inr (enriched, matched)"
  note res = enrich_records_result [OF r]
  from res show "length enriched = length new_records"
    by (auto dest: list_all2_lengthD)
  from res show "matched = length (filter (matches corp_map seg_map) new_records)"
    by simp
  fix i
  assume "i < length new_records"
  with res show "if matches corp_map seg_map (new_records ! i)
      then stamped_with (segment_of corp_map seg_map (new_records ! i))
             (new_records ! i) (enriched ! i)
      else enriched ! i = new_records ! i"
    by (auto simp: list_all2_conv_all_nth)
qed

theorem enrich_records_frame_witness:
  "list_all has_chat_id sample_new_records
   \<and> list_all (\<lambda>kv. segment_ok (snd kv)) sample_seg_map
   \<and> enrich_records sample_new_records sample_corp_map sample_seg_map
       = Inr (sample_enriched, 1)
   \<and> length sample_enriched = length sample_new_records
   \<and> (0::nat) < length sample_new_records
   \<and> \<not> matches sample_corp_map sample_seg_map (sample_new_records ! 0)
   \<and> sample_enriched ! 0 = sample_new_records ! 0
   \<and> (1::nat) < length sample_new_records
   \<and> matches sample_corp_map sample_seg_map (sample_new_records ! 1)
   \<and> stamped_with (segment_of sample_corp_map sample_seg_map (sample_new_records ! 1))
         (sample_new_records ! 1) (sample_enriched ! 1)
   \<and> length (filter (matches sample_corp_map sample_seg_map) sample_new_records) = 1"
proof -
  have wf: "list_all has_chat_id sample_new_records
      \<and> list_all (\<lambda>kv. segment_ok (snd kv)) sample_seg_map"
    by (simp add: sample_new_records_def sample_seg_map_def has_chat_id_def segment_ok_def
        enrichment_fields_def sample_segment_def)
  have run: "enrich_records sample_new_records sample_corp_map sample_seg_map
      = Inr (sample_enriched, 1)"
    by (simp add: sample_new_records_def sample_corp_map_def sample_seg_map_def
        sample_enriched_def enrich_record_def stamp_def sample_segment_def)
  have m: "\<not> matches sample_corp_map sample_seg_map (sample_new_records ! 0)"
    "matches sample_corp_map sample_seg_map (sample_new_records ! 1)"
    by (simp_all add: matches_def sample_new_records_def sample_corp_map_def sample_seg_map_def)
  have len: "(0::nat) < length sample_new_records" "(1::nat) < length sample_new_records"
    by (simp_all add: sample_new_records_def)
  from enrich_records_frame [of sample_new_records sample_seg_map sample_corp_map]
  have frame: "length sample_enriched = length sample_new_records
      \<and> (\<forall>i < length sample_new_records.
            if matches sample_corp_map sample_seg_map (sample_new_records ! i)
            then stamped_with (segment_of sample_corp_map sample_seg_map (sample_new_records ! i))
                   (sample_new_records ! i) (sample_enriched ! i)
            else sample_enriched ! i = sample_new_records ! i)
      \<and> 1 = length (filter (matches sample_corp_map sample_seg_map) sample_new_records)"
    using run by blast
  from frame len m have "sample_enriched ! 0 = sample_new_records ! 0"
    and "stamped_with (segment_of sample_corp_map sample_seg_map (sample_new_records ! 1))
         (sample_new_records ! 1) (sample_enriched ! 1)"
    by (metis (full_types))+
  with wf run frame len m show ?thesis by simp
qed

section \<open>Identifier mapper\<close>

lemma find_snoc:
  "find P (xs @ [x]) =
     (case find P xs of Some y \<Rightarrow> Some y | None \<Rightarrow> if P x then Some x else None)"
  by (induction xs) auto

lemma find_SomeP: "find P xs = Some x \<Longrightarrow> P x \<and> x \<in> set xs"
  by (auto simp: find_Some_iff)

lemma find_unique:
  assumes "distinct (map f (filter Q xs))" and "x \<in> set xs" and "Q x"
  shows "find (\<lambda>y. f y = f x \<and> Q y \<and> R y) (rev xs) = (if R x then Some x else None)"
proof -
  have inj: "inj_on f (set (filter Q xs))"
    using assms(1) by (simp add: distinct_map)
  have uniq: "y = x" if "y \<in> set xs" "f y = f x" "Q y" for y
    using inj that assms(2,3) by (auto dest: inj_onD)
  show ?thesis
  proof (cases "find (\<lambda>y. f y = f x \<and> Q y \<and> R y) (rev xs)")
    case None
    then have "\<not> R x" using assms(2,3) by (auto simp: find_None_iff)
    with None show ?thesis by simp
  next
    case (Some y)
    from find_SomeP [OF Some] have "y \<in> set xs" "f y = f x" "Q y" "R y" by auto
    with uniq [of y] have "y = x" "R x" by auto
    with Some show ?thesis by simp
  qed
qed

lemma scan_user_data_lookup:
  "map_of (scan_user_data rt rows m) x =
     (case actor_candidate rt rows x of Some c \<Rightarrow> Some c | None \<Rightarrow> map_of m x)"
proof (induction rows arbitrary: m)
  case Nil
  show ?case by (simp add: actor_candidate_def)
next
  case (Cons r rs)
  show ?case
    by (auto simp: Cons.IH actor_candidate_def find_snoc update_conv' split: option.splits)
qed

lemma scan_userchat_step:
  "scan_userchat (r # rs) cu cd =
     (if \<not> truthy (chat_id r) then scan_userchat rs cu cd
      else scan_userchat rs
        (if truthy (user_id r) then AList.update (chat_id r) (user_id r) cu else cu)
        (case direct_candidate r of
           Some d \<Rightarrow> AList.update (chat_id r) d cd
         | None \<Rightarrow> cd))"
  by (simp add: direct_candidate_def split: pyval.splits)

lemma scan_userchat_users:
  "map_of (fst (scan_userchat rows cu cd)) c =
     (case last_user rows c of Some u \<Rightarrow> Some u | None \<Rightarrow> map_of cu c)"
proof (induction rows arbitrary: cu cd)
  case Nil
  show ?case by (simp add: last_user_def)
next
  case (Cons r rs)
  show ?case
    unfolding scan_userchat_step
    by (auto simp: Cons.IH last_user_def find_snoc update_conv' split: option.splits)
qed

lemma scan_userchat_directs:
  "map_of (snd (scan_userchat rows cu cd)) c =
     (case last_direct rows c of Some d \<Rightarrow> Some d | None \<Rightarrow> map_of cd c)"
proof (induction rows arbitrary: cu cd)
  case Nil
  show ?case by (simp add: last_direct_def)
next
  case (Cons r rs)
  show ?case
    unfolding scan_userchat_step
    by (auto simp: Cons.IH last_direct_def find_snoc update_conv' split: option.splits
        dest: find_SomeP)
qed

lemma scan_userchat_distinct:
  "distinct (map fst cu) \<Longrightarrow> distinct (map fst (fst (scan_userchat rows cu cd)))"
  by (induction rows arbitrary: cu cd) (simp_all add: distinct_update)

lemma join_corp_lookup:
  assumes "distinct (map fst cu)"
  shows "map_of (join_corp cu cd uc res) c =
     (case map_of cu c of
        None \<Rightarrow> map_of res c
      | Some u \<Rightarrow>
          (case map_of cd c of
             Some d \<Rightarrow> Some d
           | None \<Rightarrow> (case map_of uc u of Some x \<Rightarrow> Some x | None \<Rightarrow> map_of res c)))"
  using assms
proof (induction cu arbitrary: res)
  case Nil
  show ?case by simp
next
  case (Cons p cu)
  obtain k u where p: "p = (k, u)" by (cases p)
  from Cons.prems p have d: "distinct (map fst cu)" and k: "k \<notin> fst ` set cu" by auto
  from k have nk: "map_of cu k = None" by (simp add: map_of_eq_None_iff)
  show ?case
    unfolding p using nk
    by (auto simp: Cons.IH [OF d] update_conv' split: option.splits)
qed

text \<open>The mapping as a function of the two sheets, for any chat id.\<close>

lemma build_corp_number_map_lookup:
  "map_of (build_corp_number_map rt (Some (ws_chat, ws_user))) c =
     (case last_user ws_chat c of
        None \<Rightarrow> None
      | Some u \<Rightarrow>
          (case last_direct ws_chat c of
             Some d \<Rightarrow> Some d
           | None \<Rightarrow> actor_candidate rt ws_user u))"
proof -
  obtain cu cd where s: "scan_userchat ws_chat [] [] = (cu, cd)"
    by (cases "scan_userchat ws_chat [] []")
  have dist: "distinct (map fst cu)"
    using scan_userchat_distinct [of "[]" ws_chat "[]"] s by simp
  have cu: "map_of cu c = last_user ws_chat c"
    using scan_userchat_users [of ws_chat "[]" "[]" c] s by (simp split: option.splits)
  have cd: "map_of cd c = last_direct ws_chat c"
    using scan_userchat_directs [of ws_chat "[]" "[]" c] s by (simp split: option.splits)
  have uc: "map_of (scan_user_data rt ws_user []) u = actor_candidate rt ws_user u" for u
    by (simp add: scan_user_data_lookup split: option.splits)
  show ?thesis
    by (simp add: build_corp_number_map_def s join_corp_lookup [OF dist] cu cd uc
        split: option.splits)
qed

lemma strip_non_digits_digits: "set (strip_non_digits s) \<subseteq> set ''0123456789''"
  by (auto simp: strip_non_digits_def)

lemma direct_candidate_digits:
  "direct_candidate row = Some v \<Longrightarrow> set v \<subseteq> set ''0123456789''"
  using strip_non_digits_digits
  by (auto simp: direct_candidate_def split: pyval.splits if_splits)

lemma actor_candidate_digits:
  "actor_candidate rt ws_user u = Some v \<Longrightarrow> set v \<subseteq> set ''0123456789''"
  using strip_non_digits_digits by (auto simp: actor_candidate_def)

lemma build_corp_number_map_digits:
  assumes "map_of (build_corp_number_map rt wb) c = Some v"
  shows "set v \<subseteq> set ''0123456789''"
proof (cases wb)
  case None
  with assms show ?thesis by (simp add: build_corp_number_map_def)
next
  case (Some sheets)
  obtain ws_chat ws_user where "sheets = (ws_chat, ws_user)" by (cases sheets)
  with Some assms have
    "(case last_user ws_chat c of
        None \<Rightarrow> None
      | Some u \<Rightarrow>
          (case last_direct ws_chat c of
             Some d \<Rightarrow> Some d
           | None \<Rightarrow> actor_candidate rt ws_user u)) = Some v"
    by (simp add: build_corp_number_map_lookup)
  then consider r where "direct_candidate r = Some v" | u where "actor_candidate rt ws_user u = Some v"
    by (auto simp: last_direct_def split: option.splits)
  then show ?thesis
    using direct_candidate_digits actor_candidate_digits by cases blast+
qed

text \<open>
  Claim C7 as stated fails: in the sample workbook the conversation \<^verbatim>\<open>c1\<close> is mapped to the
  empty string (its direct value \<^verbatim>\<open>N/A\<close> has no digit; the empty result is kept and the
  actor's number \<^verbatim>\<open>999\<close> is not consulted), and the conversation \<^verbatim>\<open>c2\<close>, which has the
  direct value \<^verbatim>\<open>123-45\<close> and no actor, is not mapped at all.
\<close>

theorem build_corp_number_map_counterexample:
  "build_corp_number_map rt0 (Some sample_workbook) = [(PStr ''c1'', [])]"
  by (simp add: build_corp_number_map_def sample_workbook_def sample_chat_row_def
      strip_non_digits_def py_str_def)

text \<open>
  Claim C7 as amended. Let the rows of the conversation sheet that have a chat id carry
  pairwise different chat ids. For every row with a chat id and an actor reference the
  mapping holds (a) the digits of the direct value when that value is a non-empty string,
  and otherwise (b) the digits of the business number of the actor when the user sheet has
  the actor with a true business number; when neither candidate exists the record is not
  mapped. The chosen candidate is kept as it is after stripping, also when no digit is
  left. Every value of the mapping consists of digits only.
\<close>

theorem build_corp_number_map_priority:
  assumes "distinct (map chat_id (filter (\<lambda>r. truthy (chat_id r)) ws_chat))"
    and "row \<in> set ws_chat" and "truthy (chat_id row)" and "truthy (user_id row)"
  shows "map_of (build_corp_number_map rt (Some (ws_chat, ws_user))) (chat_id row) =
           (case direct_candidate row of
              Some direct \<Rightarrow> Some direct
            | None \<Rightarrow> actor_candidate rt ws_user (user_id row))
       \<and> (\<forall>c v. map_of (build_corp_number_map rt (Some (ws_chat, ws_user))) c = Some v
              \<longrightarrow> set v \<subseteq> set ''0123456789'')"
proof -
  have u: "last_user ws_chat (chat_id row) = Some (user_id row)"
    unfolding last_user_def
    using find_unique [OF assms(1,2,3), of "\<lambda>r. truthy (user_id r)"] assms(4)
    by (simp add: conj_commute)
  have d: "last_direct ws_chat (chat_id row) = direct_candidate row"
    unfolding last_direct_def
    using find_unique [OF assms(1,2,3), of "\<lambda>r. direct_candidate r \<noteq> None"]
    by (auto simp: conj_commute)
  show ?thesis
    using build_corp_number_map_digits [of rt "Some (ws_chat, ws_user)"]
    by (auto simp: build_corp_number_map_lookup u d split: option.splits)
qed

theorem build_corp_number_map_priority_witness:
  "distinct (map chat_id (filter (\<lambda>r. truthy (chat_id r)) (fst sample_workbook2)))
   \<and> sample_chat_row ''c1'' (PInt 5) (PStr ''u1'') \<in> set (fst sample_workbook2)
   \<and> truthy (chat_id (sample_chat_row ''c1'' (PInt 5) (PStr ''u1'')))
   \<and> truthy (user_id (sample_chat_row ''c1'' (PInt 5) (PStr ''u1'')))
   \<and> direct_candidate (sample_chat_row ''c1'' (PInt 5) (PStr ''u1'')) = None
   \<and> actor_candidate rt0 (snd sample_workbook2) (PStr ''u1'') = Some ''9990''
   \<and> map_of (build_corp_number_map rt0 (Some sample_workbook2)) (PStr ''c1'') = Some ''9990''
   \<and> sample_chat_row ''c2'' (PStr ''123-45'') (PStr ''u2'') \<in> set (fst sample_workbook2)
   \<and> direct_candidate (sample_chat_row ''c2'' (PStr ''123-45'') (PStr ''u2'')) = Some ''12345''
   \<and> map_of (build_corp_number_map rt0 (Some sample_workbook2)) (PStr ''c2'') = Some ''12345''"
proof -
  have dist: "distinct (map chat_id (filter (\<lambda>r. truthy (chat_id r)) (fst sample_workbook2)))"
    by (simp add: sample_workbook2_def sample_chat_row_def)
  have r1: "sample_chat_row ''c1'' (PInt 5) (PStr ''u1'') \<in> set (fst sample_workbook2)"
    and r2: "sample_chat_row ''c2'' (PStr ''123-45'') (PStr ''u2'') \<in> set (fst sample_workbook2)"
    by (simp_all add: sample_workbook2_def)
  have t1: "truthy (chat_id (sample_chat_row ''c1'' (PInt 5) (PStr ''u1'')))"
    "truthy (user_id (sample_chat_row ''c1'' (PInt 5) (PStr ''u1'')))"
    and t2: "truthy (chat_id (sample_chat_row ''c2'' (PStr ''123-45'') (PStr ''u2'')))"
    "truthy (user_id (sample_chat_row ''c2'' (PStr ''123-45'') (PStr ''u2'')))"
    by (simp_all add: sample_chat_row_def)
  have c: "direct_candidate (sample_chat_row ''c1'' (PInt 5) (PStr ''u1'')) = None"
    "actor_candidate rt0 (snd sample_workbook2) (PStr ''u1'') = Some ''9990''"
    "direct_candidate (sample_chat_row ''c2'' (PStr ''123-45'') (PStr ''u2'')) = Some ''12345''"
    by (simp_all add: direct_candidate_def actor_candidate_def sample_chat_row_def
        sample_workbook2_def strip_non_digits_def py_str_def)
  have wb: "Some sample_workbook2 = Some (fst sample_workbook2, snd sample_workbook2)" by simp
  from build_corp_number_map_priority [OF dist r1 t1, of rt0 "snd sample_workbook2"]
    build_corp_number_map_priority [OF dist r2 t2, of rt0 "snd sample_workbook2"]
    dist r1 r2 t1 c
  show ?thesis
    unfolding wb by (simp add: sample_chat_row_def)
qed

section \<open>Identity index\<close>

lemma parse_userchat_empty_index:
  "parse_userchat rt rows user_map {} = Inr new_records \<Longrightarrow>
   map (\<lambda>r. py_getitem r ''chatId'') new_records
     = map (\<lambda>row. Inr (chat_id row)) (filter (\<lambda>row. truthy (chat_id row)) rows)"
proof (induction rows arbitrary: new_records)
  case Nil
  then show ?case by simp
next
  case (Cons row rows)
  show ?case
  proof (cases "truthy (chat_id row)")
    case False
    with Cons show ?thesis by simp
  next
    case True
    with Cons.prems obtain r rs where
      r: "userchat_record rt user_map row = Inr r"
      and rs: "parse_userchat rt rows user_map {} = Inr rs"
      and n: "new_records = r # rs"
      by (auto split: sum.splits)
    from r have "py_getitem r ''chatId'' = Inr (chat_id row)"
      by (auto simp: userchat_record_def split: sum.splits)
    with Cons.IH [OF rs] True n show ?thesis by simp
  qed
qed

lemma p3_new_rows_empty_index:
  "list_all (\<lambda>r. hashable (db_slack_ts r)) db_records \<Longrightarrow> p3_new_rows db_records {} = Inr db_records"
  by (induction db_records) simp_all

text \<open>
  Claim C8 as stated fails: a data block that is found but is not JSON makes the index
  builders of phase 1 and of phase 3 raise the decoder's error, which nothing catches.
\<close>

theorem load_existing_chat_ids_counterexample:
  \<open>search_all_records sample_doc_bad = Some ''[{"chatId":"A1"},]''
   \<and> p1_load_existing_chat_ids rt0 (Some sample_doc_bad) = Inl JSONDecodeError
   \<and> p3_load_existing_chat_ids rt0 (Some sample_doc_bad) = Inl JSONDecodeError\<close>
proof -
  have s: \<open>search_all_records sample_doc_bad = Some ''[{"chatId":"A1"},]''\<close>
    by (simp add: search_all_records_def search_block_def sample_doc_bad_def)
  have l: \<open>json_loads rt0 ''[{"chatId":"A1"},]'' = None\<close>
    by (simp add: rt0_def sample_loads_def sample_cache_def)
  show ?thesis
    by (simp add: s l p1_load_existing_chat_ids_def p3_load_existing_chat_ids_def)
qed

text \<open>
  Claim C8 as amended. When the destination document is absent, or holds no data block
  that the search finds, the index builders of phase 1 and of phase 3 return the empty
  index without failing, and against the empty index every incoming row with an identity
  is new. When the block is found and is not JSON, both raise the decoder's error.
\<close>

theorem load_existing_chat_ids_degrades:
  "(html = None \<or> (\<exists>content. html = Some content \<and> search_all_records content = None)
      \<longrightarrow> p1_load_existing_chat_ids rt html = Inr {}
        \<and> p3_load_existing_chat_ids rt html = Inr {})
   \<and> (\<forall>new_records. parse_userchat rt rows user_map {} = Inr new_records \<longrightarrow>
         map (\<lambda>r. py_getitem r ''chatId'') new_records
           = map (\<lambda>row. Inr (chat_id row)) (filter (\<lambda>row. truthy (chat_id row)) rows))
   \<and> (list_all (\<lambda>r. hashable (db_slack_ts r)) db_records
         \<longrightarrow> p3_new_rows db_records {} = Inr db_records)
   \<and> (\<forall>content block.
         html = Some content \<and> search_all_records content = Some block
           \<and> json_loads rt block = None
         \<longrightarrow> p1_load_existing_chat_ids rt html = Inl JSONDecodeError
           \<and> p3_load_existing_chat_ids rt html = Inl JSONDecodeError)"
proof -
  have absent: "html = None \<or> (\<exists>content. html = Some content \<and> search_all_records content = None)
      \<longrightarrow> p1_load_existing_chat_ids rt html = Inr {}
        \<and> p3_load_existing_chat_ids rt html = Inr {}"
    by (auto simp: p1_load_existing_chat_ids_def p3_load_existing_chat_ids_def)
  have broken: "\<forall>content block.
         html = Some content \<and> search_all_records content = Some block
           \<and> json_loads rt block = None
         \<longrightarrow> p1_load_existing_chat_ids rt html = Inl JSONDecodeError
           \<and> p3_load_existing_chat_ids rt html = Inl JSONDecodeError"
    by (auto simp: p1_load_existing_chat_ids_def p3_load_existing_chat_ids_def)
  from absent broken parse_userchat_empty_index [of rt rows user_map]
    p3_new_rows_empty_index [of db_records]
  show ?thesis by blast
qed

theorem load_existing_chat_ids_degrades_witness:
  "search_all_records sample_doc_no_block = None
   \<and> p1_load_existing_chat_ids rt0 (Some sample_doc_no_block) = Inr {}
   \<and> p3_load_existing_chat_ids rt0 (Some sample_doc_no_block) = Inr {}
   \<and> p1_load_existing_chat_ids rt0 None = Inr {}
   \<and> p3_load_existing_chat_ids rt0 None = Inr {}
   \<and> search_all_records sample_doc_bad \<noteq> None
   \<and> json_loads rt0 (the (search_all_records sample_doc_bad)) = None
   \<and> p1_load_existing_chat_ids rt0 (Some sample_doc_bad) = Inl JSONDecodeError"
proof -
  have a: "search_all_records sample_doc_no_block = None"
    by (simp add: search_all_records_def search_block_def sample_doc_no_block_def)
  have b: \<open>search_all_records sample_doc_bad = Some ''[{"chatId":"A1"},]''\<close>
    by (simp add: search_all_records_def search_block_def sample_doc_bad_def)
  have c: \<open>json_loads rt0 ''[{"chatId":"A1"},]'' = None\<close>
    by (simp add: rt0_def sample_loads_def sample_cache_def)
  from load_existing_chat_ids_degrades [of "Some sample_doc_no_block" rt0]
    load_existing_chat_ids_degrades [of None rt0]
    load_existing_chat_ids_degrades [of "Some sample_doc_bad" rt0]
    a b c
  show ?thesis by simp
qed

section \<open>Document writer\<close>

lemma sub_date_no_marker: "\<not> sublist date_marker s \<Longrightarrow> sub_date disp s = s"
proof (induction disp s rule: sub_date.induct)
  case (1 disp)
  show ?case by (simp add: sub_date.simps)
next
  case (2 disp c cs)
  from "2.prems" have np: "\<not> prefix date_marker (c # cs)"
    by (auto dest: prefix_imp_sublist)
  from "2.prems" have "\<not> sublist date_marker cs"
    by (auto simp: sublist_Cons_right)
  with "2.IH"(2) np have "sub_date disp cs = cs" by simp
  with np show ?case by (simp add: sub_date.simps Let_def)
qed

lemma sub_all_records_no_match:
  assumes "search_block block_marker content = None"
  shows "sub_all_records rt new_line content =
           (if re_template rt new_line = None then Inl ReError else Inr content)"
  using assms by (auto simp: sub_all_records_def split: option.splits)

lemma filter_fields_total:
  "list_all is_dict rs \<Longrightarrow> \<exists>filtered. filter_fields fs rs = Inr filtered"
proof (induction rs)
  case Nil
  show ?case by simp
next
  case (Cons r rs)
  then obtain d where "r = PDict d" by (cases r) simp_all
  with Cons show ?case by auto
qed

lemma update_date_cases:
  "update_date rt all_records content = Inr written \<Longrightarrow>
   written = content \<or> (\<exists>dt. written = sub_date (date_display dt) content)"
  by (auto simp: update_date_def split: sum.splits if_splits option.splits)

lemma sample_no_block: "search_block block_marker sample_doc_no_block = None"
  by (simp add: search_block_def block_marker_def sample_doc_no_block_def)

text \<open>
  Claim C9 as stated fails: the sample document has no data block, and the writer of
  phase 3 still rewrites its display date from \<^verbatim>\<open>2026. 1. 1.\<close> to \<^verbatim>\<open>2026. 2. 20.\<close>, so the
  document is not left as it was.
\<close>

theorem inject_into_html_counterexample:
  \<open>search_block block_marker sample_doc_no_block = None
   \<and> p3_inject_into_html rt0 (Some sample_doc_no_block) [sample_dated_record]
       = Inr ''<b id="lastUpdateDate">2026. 2. 20.</b><script>const RECORDS = [];</script>''
   \<and> sample_doc_no_block
       \<noteq> ''<b id="lastUpdateDate">2026. 2. 20.</b><script>const RECORDS = [];</script>''\<close>
proof -
  have tpl: "re_template rt0 (new_line_of rt0 [sample_dated_record]) \<noteq> None"
    by (simp add: re_template_def new_line_of_def rt0_def sample_dumps_def)
  have step1: "sub_all_records rt0 (new_line_of rt0 [sample_dated_record]) sample_doc_no_block
      = Inr sample_doc_no_block"
    using tpl by (simp add: sub_all_records_no_match [OF sample_no_block])
  have disp: "date_display (2026, 2, 20) = ''2026. 2. 20.''"
    by (simp add: date_display_def str_nat.simps)
  have step2: \<open>update_date rt0 [sample_dated_record] sample_doc_no_block
      = Inr ''<b id="lastUpdateDate">2026. 2. 20.</b><script>const RECORDS = [];</script>''\<close>
    by (simp add: update_date_def sample_dated_record_def alist_get_def max_date_of_def
        rt0_def sample_strptime_def disp sample_doc_no_block_def sub_date.simps
        date_marker_def Let_def)
  show ?thesis
    by (simp add: sample_no_block p3_inject_into_html_def step1 step2)
      (simp add: sample_doc_no_block_def)
qed

text \<open>
  Claim C9 as amended. When the data block marker is not found, the substitution of the
  data block leaves the document text as it is. The writer of phase 2 then writes the
  document back unchanged, and it does so whenever every record is a dictionary and
  \<^verbatim>\<open>re.sub\<close> accepts the serialized array as a replacement template. The writer of phase 3
  goes on to its display-date step: what it writes is the document with, at most, the text
  after each \<^verbatim>\<open>id="lastUpdateDate">\<close> marker replaced by the latest record date; it is
  the unchanged document when no record carries a date or the document has no such
  marker. A writer that raises has written nothing.
\<close>

theorem inject_into_html_without_marker:
  assumes "search_block block_marker content = None"
  shows "(\<forall>written. p2_inject_into_html rt (Some content) all_records fields_to_keep = Inr written
            \<longrightarrow> written = content)
       \<and> (list_all is_dict all_records
            \<longrightarrow> (\<exists>filtered. filter_fields fields_to_keep all_records = Inr filtered))
       \<and> (\<forall>filtered. filter_fields fields_to_keep all_records = Inr filtered
              \<and> re_template rt (new_line_of rt filtered) \<noteq> None
            \<longrightarrow> p2_inject_into_html rt (Some content) all_records fields_to_keep = Inr content)
       \<and> p3_inject_into_html rt (Some content) all_records
           = (if re_template rt (new_line_of rt all_records) = None then Inl ReError
              else update_date rt all_records content)
       \<and> (\<forall>written. update_date rt all_records content = Inr written
            \<longrightarrow> written = content \<or> (\<exists>dt. written = sub_date (date_display dt) content))
       \<and> (all_dates_of all_records = Inr [] \<longrightarrow> update_date rt all_records content = Inr content)
       \<and> (\<not> sublist date_marker content \<longrightarrow> (\<forall>disp. sub_date disp content = content))"
proof -
  note sub = sub_all_records_no_match [OF assms]
  have p2: "\<forall>written. p2_inject_into_html rt (Some content) all_records fields_to_keep = Inr written
      \<longrightarrow> written = content"
    by (auto simp: p2_inject_into_html_def sub split: sum.splits if_splits)
  have p2_ok: "\<forall>filtered. filter_fields fields_to_keep all_records = Inr filtered
        \<and> re_template rt (new_line_of rt filtered) \<noteq> None
      \<longrightarrow> p2_inject_into_html rt (Some content) all_records fields_to_keep = Inr content"
    by (auto simp: p2_inject_into_html_def sub)
  have p3: "p3_inject_into_html rt (Some content) all_records
      = (if re_template rt (new_line_of rt all_records) = None then Inl ReError
         else update_date rt all_records content)"
    by (simp add: p3_inject_into_html_def sub)
  have no_date: "all_dates_of all_records = Inr [] \<longrightarrow> update_date rt all_records content = Inr content"
    by (simp add: update_date_def)
  from p2 p2_ok p3 no_date filter_fields_total [of all_records fields_to_keep]
    update_date_cases [of rt all_records content] sub_date_no_marker [of content]
  show ?thesis by blast
qed

theorem inject_into_html_without_marker_witness:
  "search_block block_marker sample_doc_no_block = None
   \<and> list_all is_dict []
   \<and> filter_fields INDEX_FIELDS [] = Inr []
   \<and> re_template rt0 (new_line_of rt0 []) \<noteq> None
   \<and> p2_inject_into_html rt0 (Some sample_doc_no_block) [] INDEX_FIELDS
       = Inr sample_doc_no_block
   \<and> all_dates_of [] = Inr []
   \<and> p3_inject_into_html rt0 (Some sample_doc_no_block) [] = Inr sample_doc_no_block
   \<and> \<not> sublist date_marker ''<html></html>''
   \<and> sub_date ''2026. 2. 20.'' ''<html></html>'' = ''<html></html>''"
proof -
  have tpl: "re_template rt0 (new_line_of rt0 []) \<noteq> None"
    by (simp add: re_template_def new_line_of_def rt0_def sample_dumps_def
        sample_dated_record_def)
  have nb: "search_block block_marker ''<html></html>'' = None"
    by (simp add: search_block_def block_marker_def)
  have ns: "\<not> sublist date_marker ''<html></html>''"
    by (simp add: date_marker_def sublist_Cons_right prefix_Cons)
  from inject_into_html_without_marker [OF sample_no_block, of rt0 "[]" INDEX_FIELDS]
    inject_into_html_without_marker [OF nb, of rt0 "[]" INDEX_FIELDS]
    sample_no_block tpl ns
  show ?thesis by simp
qed

section \<open>Reconciler\<close>

lemma userchat_record_chat_id:
  "userchat_record rt user_map row = Inr r \<Longrightarrow> py_getitem r ''chatId'' = Inr (chat_id row)"
  by (auto simp: userchat_record_def split: sum.splits)

lemma parse_userchat_ids:
  "parse_userchat rt rows user_map ids = Inr new_records \<Longrightarrow>
   map (\<lambda>r. py_getitem r ''chatId'') new_records
     = map (\<lambda>row. Inr (chat_id row))
         (filter (\<lambda>row. truthy (chat_id row) \<and> chat_id row \<notin> ids) rows)"
proof (induction rows arbitrary: new_records)
  case Nil
  then show ?case by simp
next
  case (Cons row rows)
  show ?case
  proof (cases "truthy (chat_id row) \<and> chat_id row \<notin> ids")
    case False
    with Cons show ?thesis by (auto split: if_splits)
  next
    case True
    with Cons.prems obtain r rs where
      r: "userchat_record rt user_map row = Inr r"
      and rs: "parse_userchat rt rows user_map ids = Inr rs"
      and n: "new_records = r # rs"
      by (auto split: sum.splits)
    with Cons.IH [OF rs] True userchat_record_chat_id [OF r] show ?thesis by simp
  qed
qed

lemma parse_userchat_nothing_new:
  "\<forall>row \<in> set rows. truthy (chat_id row) \<longrightarrow> chat_id row \<in> ids \<Longrightarrow>
   parse_userchat rt rows user_map ids = Inr []"
  by (induction rows) auto

lemma p1_chat_ids_result:
  "p1_chat_ids rs = Inr ids \<Longrightarrow>
   list_all has_chat_id rs \<and> ids = {v. \<exists>r \<in> set rs. py_getitem r ''chatId'' = Inr v}"
proof (induction rs arbitrary: ids)
  case Nil
  then show ?case by auto
next
  case (Cons r rs)
  from Cons.prems obtain v ids' where
    v: "py_getitem r ''chatId'' = Inr v" "hashable v"
    and rest: "p1_chat_ids rs = Inr ids'" and ids: "ids = insert v ids'"
    by (auto split: sum.splits if_splits)
  from v have "has_chat_id r"
    by (cases r) (auto simp: has_chat_id_def split: option.splits)
  with Cons.IH [OF rest] v ids show ?case by auto
qed

lemma p1_chat_ids_total:
  "list_all has_chat_id rs \<Longrightarrow>
   p1_chat_ids rs = Inr {v. \<exists>r \<in> set rs. py_getitem r ''chatId'' = Inr v}"
proof (induction rs)
  case Nil
  show ?case by simp
next
  case (Cons r rs)
  then obtain d v where "r = PDict d" "map_of d ''chatId'' = Some v" "hashable v"
    by (auto simp: has_chat_id_def split: pyval.splits option.splits)
  with Cons show ?case by auto
qed

lemma keep_fields_lookup:
  "map_of (keep_fields fs d) k = (if k \<in> set fs then Some (alist_get d k PNone) else None)"
  by (induction fs) (auto simp: keep_fields_def)

lemma keep_fields_same:
  "distinct (map fst d) \<Longrightarrow> keep_fields (map fst d) d = d"
proof -
  assume dist: "distinct (map fst d)"
  have "\<forall>kv \<in> set d. alist_get d (fst kv) PNone = snd kv"
    using dist by (auto simp: alist_get_def)
  then show ?thesis
    by (auto simp: keep_fields_def intro!: map_idI)
qed

lemma filter_fields_result:
  "filter_fields fs rs = Inr written \<Longrightarrow>
   list_all2 (\<lambda>r w. \<exists>d. r = PDict d \<and> w = PDict (keep_fields fs d)) rs written"
proof (induction rs arbitrary: written)
  case Nil
  then show ?case by simp
next
  case (Cons r rs)
  then show ?case by (auto split: pyval.splits sum.splits)
qed

lemma enrich_record_chat_id:
  assumes "enrich_record corp_map seg_map r = Inr (r', hit)"
  shows "py_getitem r' ''chatId'' = py_getitem r ''chatId''" and "has_chat_id r" and "has_chat_id r'"
proof -
  from assms obtain d cid where r: "r = PDict d" "map_of d ''chatId'' = Some cid" "hashable cid"
    by (auto simp: enrich_record_def split: pyval.splits option.splits sum.splits if_splits)
  then show "has_chat_id r" by (simp add: has_chat_id_def)
  show g: "py_getitem r' ''chatId'' = py_getitem r ''chatId''"
  proof (cases "matches corp_map seg_map r")
    case False
    with enrich_record_result(2) [OF assms] show ?thesis by simp
  next
    case True
    from enrich_record_result(3) [OF assms True] r obtain d' where
      "r' = PDict d'" "map_of d' ''chatId'' = map_of d ''chatId''"
      by (auto simp: stamped_with_def enrichment_fields_def split: pyval.splits)
    with r show ?thesis by simp
  qed
  from g r show "has_chat_id r'"
    by (cases r') (auto simp: has_chat_id_def split: option.splits)
qed

lemma enrich_records_chat_ids:
  "enrich_records rs corp_map seg_map = Inr (enriched, matched) \<Longrightarrow>
   map (\<lambda>r. py_getitem r ''chatId'') enriched = map (\<lambda>r. py_getitem r ''chatId'') rs
   \<and> list_all has_chat_id enriched"
proof (induction rs arbitrary: enriched matched)
  case Nil
  then show ?case by simp
next
  case (Cons r rs)
  from Cons.prems obtain r' hit es m where
    one: "enrich_record corp_map seg_map r = Inr (r', hit)"
    and rest: "enrich_records rs corp_map seg_map = Inr (es, m)"
    and res: "enriched = r' # es"
    by (auto split: sum.splits prod.splits)
  from Cons.IH [OF rest] enrich_record_chat_id [OF one] res show ?case by simp
qed

lemma p3_chat_ids_result:
  "p3_chat_ids rs = Inr ids \<Longrightarrow>
   list_all (\<lambda>r. \<exists>v. py_get r ''chatId'' (PStr []) = Inr v \<and> hashable v) rs
   \<and> ids = {v. \<exists>r \<in> set rs. py_get r ''chatId'' (PStr []) = Inr v}"
proof (induction rs arbitrary: ids)
  case Nil
  then show ?case by auto
next
  case (Cons r rs)
  from Cons.prems obtain v ids' where
    v: "py_get r ''chatId'' (PStr []) = Inr v" "hashable v"
    and rest: "p3_chat_ids rs = Inr ids'" and ids: "ids = insert v ids'"
    by (auto split: sum.splits if_splits)
  with Cons.IH [OF rest] show ?case by auto
qed

lemma p3_chat_ids_total:
  "list_all (\<lambda>r. \<exists>v. py_get r ''chatId'' (PStr []) = Inr v \<and> hashable v) rs \<Longrightarrow>
   p3_chat_ids rs = Inr {v. \<exists>r \<in> set rs. py_get r ''chatId'' (PStr []) = Inr v}"
proof (induction rs)
  case Nil
  show ?case by simp
next
  case (Cons r rs)
  then show ?case by auto
qed

lemma convert_record_chat_id:
  "convert_record row seg_map = Inr c \<Longrightarrow>
   py_get c ''chatId'' (PStr []) = Inr (db_slack_ts row)
   \<and> py_getitem c ''chatId'' = Inr (db_slack_ts row)"
  by (auto simp: convert_record_def alist_get_def Let_def split: sum.splits)

lemma convert_records_chat_ids:
  "convert_records rows seg_map = Inr cs \<Longrightarrow>
   map (\<lambda>c. py_get c ''chatId'' (PStr [])) cs = map (\<lambda>row. Inr (db_slack_ts row)) rows
   \<and> map (\<lambda>c. py_getitem c ''chatId'') cs = map (\<lambda>row. Inr (db_slack_ts row)) rows"
proof (induction rows arbitrary: cs)
  case Nil
  then show ?case by simp
next
  case (Cons row rows)
  from Cons.prems obtain c cs' where
    c: "convert_record row seg_map = Inr c"
    and rest: "convert_records rows seg_map = Inr cs'" and cs: "cs = c # cs'"
    by (auto split: sum.splits)
  from Cons.IH [OF rest] convert_record_chat_id [OF c] cs show ?case by simp
qed

lemma p3_new_rows_result:
  "p3_new_rows db_records ids = Inr new_rows \<Longrightarrow>
   list_all (\<lambda>r. hashable (db_slack_ts r)) db_records
   \<and> new_rows = filter (\<lambda>r. db_slack_ts r \<notin> ids) db_records"
proof (induction db_records arbitrary: new_rows)
  case Nil
  then show ?case by simp
next
  case (Cons r rs)
  from Cons.prems obtain ns where
    h: "hashable (db_slack_ts r)" and rest: "p3_new_rows rs ids = Inr ns"
    and n: "new_rows = (if db_slack_ts r \<notin> ids then r # ns else ns)"
    by (auto split: sum.splits if_splits)
  from Cons.IH [OF rest] h n show ?case by simp
qed

lemma p3_new_rows_total:
  "list_all (\<lambda>r. hashable (db_slack_ts r)) db_records \<Longrightarrow>
   p3_new_rows db_records ids = Inr (filter (\<lambda>r. db_slack_ts r \<notin> ids) db_records)"
  by (induction db_records) simp_all

lemma p3_reconcile_merged:
  assumes "p3_reconcile rt bq db_records existing_records cache = (Inr (Some all_records), cache')"
  shows "\<exists>ids seg_map converted.
           db_records \<noteq> [] \<and> p3_chat_ids existing_records = Inr ids
         \<and> list_all (\<lambda>r. hashable (db_slack_ts r)) db_records
         \<and> convert_records (filter (\<lambda>r. db_slack_ts r \<notin> ids) db_records) seg_map = Inr converted
         \<and> all_records = existing_records @ converted"
proof -
  from assms have ne: "db_records \<noteq> []" by (auto simp: p3_reconcile_def)
  from assms ne obtain ids where ids: "p3_chat_ids existing_records = Inr ids"
    by (cases "p3_chat_ids existing_records") (auto simp: p3_reconcile_def)
  from assms ne ids obtain new_rows where nr: "p3_new_rows db_records ids = Inr new_rows"
    by (cases "p3_new_rows db_records ids") (auto simp: p3_reconcile_def)
  from assms ne ids nr have nn: "new_rows \<noteq> []"
    by (auto simp: p3_reconcile_def)
  from assms ne ids nr nn obtain corp_ids where ci: "p3_corp_ids new_rows = Inr corp_ids"
    by (cases "p3_corp_ids new_rows") (auto simp: p3_reconcile_def)
  obtain res c1 where f: "p3_fetch_segments_from_bq rt bq corp_ids cache = (res, c1)"
    by (cases "p3_fetch_segments_from_bq rt bq corp_ids cache")
  from assms ne ids nr nn ci f obtain seg_map where sm: "res = Inr seg_map"
    by (cases res) (auto simp: p3_reconcile_def)
  from assms ne ids nr nn ci f sm obtain converted where
    cv: "convert_records new_rows seg_map = Inr converted"
    and all: "all_records = existing_records @ converted"
    by (cases "convert_records new_rows seg_map") (auto simp: p3_reconcile_def)
  from p3_new_rows_result [OF nr] ne ids cv all show ?thesis by auto
qed

lemma p3_reconcile_nothing_new:
  assumes "db_records \<noteq> []" and "p3_chat_ids existing_records = Inr ids"
    and "list_all (\<lambda>r. hashable (db_slack_ts r)) db_records"
    and "\<forall>r \<in> set db_records. db_slack_ts r \<in> ids"
  shows "p3_reconcile rt bq db_records existing_records cache = (Inr None, cache)"
proof -
  have "filter (\<lambda>r. db_slack_ts r \<notin> ids) db_records = []"
    using assms(4) by (simp add: filter_empty_conv)
  with p3_new_rows_total [OF assms(3), of ids] assms(1,2) show ?thesis
    by (simp add: p3_reconcile_def)
qed

lemma p3_reconcile_up_to_date:
  assumes "p3_reconcile rt bq db_records existing_records cache = (Inr None, cache')"
  shows "\<exists>ids. db_records \<noteq> [] \<and> p3_chat_ids existing_records = Inr ids
         \<and> list_all (\<lambda>r. hashable (db_slack_ts r)) db_records
         \<and> (\<forall>r \<in> set db_records. db_slack_ts r \<in> ids) \<and> cache' = cache"
proof -
  from assms have ne: "db_records \<noteq> []" by (auto simp: p3_reconcile_def)
  from assms ne obtain ids where ids: "p3_chat_ids existing_records = Inr ids"
    by (cases "p3_chat_ids existing_records") (auto simp: p3_reconcile_def)
  from assms ne ids obtain new_rows where nr: "p3_new_rows db_records ids = Inr new_rows"
    by (cases "p3_new_rows db_records ids") (auto simp: p3_reconcile_def)
  have "new_rows = [] \<and> cache' = cache"
  proof (cases "new_rows = []")
    case True
    with assms ne ids nr show ?thesis by (simp add: p3_reconcile_def)
  next
    case False
    with assms ne ids nr show ?thesis
      by (auto simp: p3_reconcile_def split: sum.splits prod.splits)
  qed
  moreover from this p3_new_rows_result [OF nr]
  have "filter (\<lambda>r. db_slack_ts r \<notin> ids) db_records = []" by simp
  then have "\<forall>r \<in> set db_records. db_slack_ts r \<in> ids" by (simp add: filter_empty_conv)
  ultimately show ?thesis using p3_new_rows_result [OF nr] ne ids by blast
qed

lemma p2_reconcile_merged:
  assumes "p2_reconcile rt bq wb new_records existing_index cache
             = (Inr (Some (all_index, matched)), cache')"
  shows "\<exists>seg_map enriched.
           new_records \<noteq> []
         \<and> enrich_records new_records (build_corp_number_map rt wb) seg_map = Inr (enriched, matched)
         \<and> all_index = existing_index @ enriched"
proof -
  from assms have ne: "new_records \<noteq> []" by (auto simp: p2_reconcile_def)
  from assms ne obtain corp_ids where
    ci: "p2_corp_ids (build_corp_number_map rt wb) new_records = Inr corp_ids"
    by (cases "p2_corp_ids (build_corp_number_map rt wb) new_records")
      (auto simp: p2_reconcile_def Let_def)
  obtain res c1 where f: "p2_fetch_segments_from_bq rt bq corp_ids cache = (res, c1)"
    by (cases "p2_fetch_segments_from_bq rt bq corp_ids cache")
  from assms ne ci f obtain seg_map where sm: "res = Inr seg_map"
    by (cases res) (auto simp: p2_reconcile_def Let_def)
  from assms ne ci f sm obtain enriched where
    "enrich_records new_records (build_corp_number_map rt wb) seg_map = Inr (enriched, matched)"
    and "all_index = existing_index @ enriched"
    by (cases "enrich_records new_records (build_corp_number_map rt wb) seg_map")
      (auto simp: p2_reconcile_def Let_def)
  with ne show ?thesis by blast
qed

lemma keep_fields_chat_id:
  assumes "has_chat_id (PDict d)" and "''chatId'' \<in> set fs"
  shows "p1_identity (PDict (keep_fields fs d)) = p1_identity (PDict d)"
    and "has_chat_id (PDict (keep_fields fs d))"
proof -
  from assms(1) obtain v where v: "map_of d ''chatId'' = Some v" "hashable v"
    by (auto simp: has_chat_id_def split: option.splits)
  then have "map_of (keep_fields fs d) ''chatId'' = Some v"
    using assms(2) by (simp add: keep_fields_lookup alist_get_def)
  with v show "p1_identity (PDict (keep_fields fs d)) = p1_identity (PDict d)"
    and "has_chat_id (PDict (keep_fields fs d))"
    by (simp_all add: has_chat_id_def)
qed

lemma filter_fields_chat_ids:
  assumes "filter_fields fs rs = Inr written" and "list_all has_chat_id rs"
    and "''chatId'' \<in> set fs"
  shows "map p1_identity written = map p1_identity rs \<and> list_all has_chat_id written"
  using assms(1,2)
proof (induction rs arbitrary: written)
  case Nil
  then show ?case by simp
next
  case (Cons r rs)
  from Cons.prems(1) obtain d ws where
    r: "r = PDict d" and rest: "filter_fields fs rs = Inr ws"
    and w: "written = PDict (keep_fields fs d) # ws"
    by (auto split: pyval.splits sum.splits)
  from Cons.prems(2) r have h: "has_chat_id (PDict d)" and hs: "list_all has_chat_id rs" by simp_all
  from Cons.IH [OF rest hs] keep_fields_chat_id [OF h assms(3)] r w show ?case by simp
qed

lemma p1_chat_ids_set:
  "p1_chat_ids rs = Inr ids \<Longrightarrow> (v \<in> ids \<longleftrightarrow> Inr v \<in> set (map p1_identity rs))"
  by (drule p1_chat_ids_result) (force simp: image_iff)

lemma p3_chat_ids_set:
  "p3_chat_ids rs = Inr ids \<Longrightarrow> (v \<in> ids \<longleftrightarrow> Inr v \<in> set (map p3_identity rs))"
  by (drule p3_chat_ids_result) (force simp: image_iff)

lemma p3_second_run:
  assumes "p3_reconcile rt bq db_records existing_records cache = (Inr result, cache1)"
  shows "p3_reconcile rt' bq' db_records (accepted_after existing_records result) cache'
           = (Inr None, cache')"
proof (cases result)
  case None
  from p3_reconcile_up_to_date [OF assms [unfolded None]] obtain ids where
    "db_records \<noteq> []" "p3_chat_ids existing_records = Inr ids"
    "list_all (\<lambda>r. hashable (db_slack_ts r)) db_records"
    "\<forall>r \<in> set db_records. db_slack_ts r \<in> ids"
    by blast
  from p3_reconcile_nothing_new [OF this] None show ?thesis
    by (simp add: accepted_after_def)
next
  case (Some all_records)
  from p3_reconcile_merged [OF assms [unfolded Some]] obtain ids seg_map converted where
    ne: "db_records \<noteq> []" and ids: "p3_chat_ids existing_records = Inr ids"
    and hs: "list_all (\<lambda>r. hashable (db_slack_ts r)) db_records"
    and cv: "convert_records (filter (\<lambda>r. db_slack_ts r \<notin> ids) db_records) seg_map = Inr converted"
    and all: "all_records = existing_records @ converted"
    by blast
  let ?new = "filter (\<lambda>r. db_slack_ts r \<notin> ids) db_records"
  from convert_records_chat_ids [OF cv]
  have cids: "map p3_identity converted = map (\<lambda>row. Inr (db_slack_ts row)) ?new" by simp
  have ok_old: "list_all (\<lambda>r. \<exists>v. p3_identity r = Inr v \<and> hashable v) existing_records"
    using p3_chat_ids_result [OF ids] by simp
  have ok_new: "list_all (\<lambda>r. \<exists>v. p3_identity r = Inr v \<and> hashable v) converted"
  proof -
    have "\<forall>x \<in> set (map p3_identity converted). \<exists>v. x = Inr v \<and> hashable v"
      unfolding cids using hs by (auto simp: list_all_iff)
    then show ?thesis by (auto simp: list_all_iff)
  qed
  from ok_old ok_new have "list_all (\<lambda>r. \<exists>v. p3_identity r = Inr v \<and> hashable v) all_records"
    unfolding all by simp
  from p3_chat_ids_total [OF this] obtain ids' where
    ids': "p3_chat_ids all_records = Inr ids'" by blast
  have "db_slack_ts r \<in> ids'" if r: "r \<in> set db_records" for r
  proof (cases "db_slack_ts r \<in> ids")
    case True
    then have "Inr (db_slack_ts r) \<in> set (map p3_identity existing_records)"
      using p3_chat_ids_set [OF ids] by simp
    then have "Inr (db_slack_ts r) \<in> set (map p3_identity all_records)"
      unfolding all by auto
    then show ?thesis using p3_chat_ids_set [OF ids'] by simp
  next
    case False
    with r have "Inr (db_slack_ts r) \<in> set (map (\<lambda>row. Inr (db_slack_ts row)) ?new)" by auto
    then have "Inr (db_slack_ts r) \<in> set (map p3_identity converted)"
      by (simp only: cids)
    then have "Inr (db_slack_ts r) \<in> set (map p3_identity all_records)"
      unfolding all by auto
    then show ?thesis using p3_chat_ids_set [OF ids'] by simp
  qed
  then have "\<forall>r \<in> set db_records. db_slack_ts r \<in> ids'" by blast
  from p3_reconcile_nothing_new [OF ne ids' hs this] Some show ?thesis
    by (simp add: accepted_after_def)
qed

lemma p1_second_run:
  assumes ids: "p1_chat_ids existing_index = Inr ids"
    and parse: "parse_userchat rt rows user_map ids = Inr new_records"
    and run: "p2_reconcile rt bq wb new_records existing_index cache
                = (Inr (Some (all_index, matched)), cache1)"
    and wr: "filter_fields INDEX_FIELDS all_index = Inr written"
  shows "\<exists>ids'. p1_chat_ids written = Inr ids'
           \<and> parse_userchat rt' rows user_map' ids' = Inr []"
proof -
  from p2_reconcile_merged [OF run] obtain seg_map enriched where
    en: "enrich_records new_records (build_corp_number_map rt wb) seg_map = Inr (enriched, matched)"
    and all: "all_index = existing_index @ enriched"
    by blast
  have cid: "''chatId'' \<in> set INDEX_FIELDS" by (simp add: INDEX_FIELDS_def)
  have h: "list_all has_chat_id all_index"
    unfolding all using p1_chat_ids_result [OF ids] enrich_records_chat_ids [OF en] by simp
  from filter_fields_chat_ids [OF wr h cid]
  have wids: "map p1_identity written = map p1_identity all_index"
    and wh: "list_all has_chat_id written" by simp_all
  from p1_chat_ids_total [OF wh] obtain ids' where ids': "p1_chat_ids written = Inr ids'"
    by blast
  have new_ids: "map p1_identity enriched
      = map (\<lambda>row. Inr (chat_id row))
          (filter (\<lambda>row. truthy (chat_id row) \<and> chat_id row \<notin> ids) rows)"
    using enrich_records_chat_ids [OF en] parse_userchat_ids [OF parse] by simp
  have "chat_id row \<in> ids'" if row: "row \<in> set rows" "truthy (chat_id row)" for row
  proof (cases "chat_id row \<in> ids")
    case True
    then have "Inr (chat_id row) \<in> set (map p1_identity existing_index)"
      using p1_chat_ids_set [OF ids] by simp
    then have "Inr (chat_id row) \<in> set (map p1_identity written)"
      unfolding wids all by auto
    then show ?thesis using p1_chat_ids_set [OF ids'] by simp
  next
    case False
    with row have "Inr (chat_id row) \<in> set (map (\<lambda>row. Inr (chat_id row))
        (filter (\<lambda>row. truthy (chat_id row) \<and> chat_id row \<notin> ids) rows))"
      by auto
    then have "Inr (chat_id row) \<in> set (map p1_identity enriched)"
      by (simp only: new_ids)
    then have "Inr (chat_id row) \<in> set (map p1_identity written)"
      unfolding wids all by auto
    then show ?thesis using p1_chat_ids_set [OF ids'] by simp
  qed
  then have "\<forall>row \<in> set rows. truthy (chat_id row) \<longrightarrow> chat_id row \<in> ids'" by blast
  from parse_userchat_nothing_new [OF this] ids' show ?thesis by blast
qed

lemma distinct_map_filter_Inr:
  "distinct (map f xs) \<Longrightarrow> distinct (map (\<lambda>x. Inr (f x)) (filter P xs))"
proof -
  assume "distinct (map f xs)"
  then have "distinct (map f (filter P xs))" by (rule distinct_map_filter)
  then have "distinct (map Inr (map f (filter P xs)))"
    by (simp add: distinct_map inj_on_def del: map_map)
  then show ?thesis by (simp add: comp_def)
qed

lemma p3_identities_distinct:
  assumes d_old: "distinct (map p3_identity existing_records)"
    and d_new: "distinct (map db_slack_ts db_records)"
    and run: "p3_reconcile rt bq db_records existing_records cache = (Inr result, cache1)"
  shows "distinct (map p3_identity (accepted_after existing_records result))"
proof (cases result)
  case None
  with d_old show ?thesis by (simp add: accepted_after_def)
next
  case (Some all_records)
  from p3_reconcile_merged [OF run [unfolded Some]] obtain ids seg_map converted where
    ids: "p3_chat_ids existing_records = Inr ids"
    and cv: "convert_records (filter (\<lambda>r. db_slack_ts r \<notin> ids) db_records) seg_map = Inr converted"
    and all: "all_records = existing_records @ converted"
    by blast
  let ?new = "filter (\<lambda>r. db_slack_ts r \<notin> ids) db_records"
  from convert_records_chat_ids [OF cv]
  have cids: "map p3_identity converted = map (\<lambda>row. Inr (db_slack_ts row)) ?new" by simp
  have dn: "distinct (map p3_identity converted)"
    unfolding cids using d_new by (rule distinct_map_filter_Inr)
  have disj: "set (map p3_identity existing_records) \<inter> set (map p3_identity converted) = {}"
  proof -
    have "x \<notin> set (map p3_identity existing_records)"
      if "x \<in> set (map (\<lambda>row. Inr (db_slack_ts row)) ?new)" for x
    proof -
      from that obtain r :: db_row where "x = Inr (db_slack_ts r)" "db_slack_ts r \<notin> ids" by auto
      then show ?thesis using p3_chat_ids_set [OF ids, of "db_slack_ts r"] by simp
    qed
    then show ?thesis unfolding cids by blast
  qed
  from d_old dn disj Some show ?thesis
    by (simp add: accepted_after_def all)
qed

lemma p1_identities_distinct:
  assumes d_old: "distinct (map p1_identity existing_index)"
    and d_new: "distinct (map chat_id (filter (\<lambda>row. truthy (chat_id row)) rows))"
    and ids: "p1_chat_ids existing_index = Inr ids"
    and parse: "parse_userchat rt rows user_map ids = Inr new_records"
    and run: "p2_reconcile rt bq wb new_records existing_index cache
                = (Inr (Some (all_index, matched)), cache1)"
    and wr: "filter_fields INDEX_FIELDS all_index = Inr written"
  shows "distinct (map p1_identity all_index) \<and> distinct (map p1_identity written)"
proof -
  from p2_reconcile_merged [OF run] obtain seg_map enriched where
    en: "enrich_records new_records (build_corp_number_map rt wb) seg_map = Inr (enriched, matched)"
    and all: "all_index = existing_index @ enriched"
    by blast
  have cid: "''chatId'' \<in> set INDEX_FIELDS" by (simp add: INDEX_FIELDS_def)
  have h: "list_all has_chat_id all_index"
    unfolding all using p1_chat_ids_result [OF ids] enrich_records_chat_ids [OF en] by simp
  from filter_fields_chat_ids [OF wr h cid]
  have wids: "map p1_identity written = map p1_identity all_index" by simp
  let ?new = "filter (\<lambda>row. truthy (chat_id row) \<and> chat_id row \<notin> ids) rows"
  have new_ids: "map p1_identity enriched = map (\<lambda>row. Inr (chat_id row)) ?new"
    using enrich_records_chat_ids [OF en] parse_userchat_ids [OF parse] by simp
  have "?new = filter (\<lambda>row. chat_id row \<notin> ids) (filter (\<lambda>row. truthy (chat_id row)) rows)"
    by (simp add: conj_commute)
  then have dn: "distinct (map p1_identity enriched)"
    unfolding new_ids using distinct_map_filter_Inr [OF d_new] by simp
  have disj: "set (map p1_identity existing_index) \<inter> set (map p1_identity enriched) = {}"
  proof -
    have "x \<notin> set (map p1_identity existing_index)"
      if "x \<in> set (map (\<lambda>row. Inr (chat_id row)) ?new)" for x
    proof -
      from that obtain row :: chat_row where "x = Inr (chat_id row)" "chat_id row \<notin> ids" by auto
      then show ?thesis using p1_chat_ids_set [OF ids, of "chat_id row"] by simp
    qed
    then show ?thesis unfolding new_ids by blast
  qed
  from d_old dn disj have "distinct (map p1_identity all_index)" by (simp add: all)
  with wids show ?thesis by simp
qed

lemma p3_frame:
  assumes "p3_reconcile rt bq db_records existing_records cache = (Inr (Some all_records), cache1)"
  shows "\<exists>ids. p3_chat_ids existing_records = Inr ids
     \<and> take (length existing_records) all_records = existing_records
     \<and> map p3_identity (drop (length existing_records) all_records)
         = map (\<lambda>row. Inr (db_slack_ts row)) (filter (\<lambda>row. db_slack_ts row \<notin> ids) db_records)"
proof -
  from p3_reconcile_merged [OF assms] obtain ids seg_map converted where
    ids: "p3_chat_ids existing_records = Inr ids"
    and cv: "convert_records (filter (\<lambda>r. db_slack_ts r \<notin> ids) db_records) seg_map = Inr converted"
    and all: "all_records = existing_records @ converted"
    by blast
  from convert_records_chat_ids [OF cv] ids all show ?thesis by simp
qed

lemma p2_frame:
  assumes "p2_reconcile rt bq wb new_records existing_index cache
             = (Inr (Some (all_index, matched)), cache1)"
  shows "take (length existing_index) all_index = existing_index
     \<and> length all_index = length existing_index + length new_records
     \<and> map p1_identity (drop (length existing_index) all_index) = map p1_identity new_records"
proof -
  from p2_reconcile_merged [OF assms] obtain seg_map enriched where
    en: "enrich_records new_records (build_corp_number_map rt wb) seg_map = Inr (enriched, matched)"
    and all: "all_index = existing_index @ enriched"
    by blast
  from enrich_records_chat_ids [OF en] have "map p1_identity enriched = map p1_identity new_records"
    by simp
  moreover from this have "length enriched = length new_records" by (rule map_eq_imp_length_eq)
  ultimately show ?thesis using all by simp
qed

lemma filter_fields_nth:
  assumes "filter_fields fs rs = Inr written"
  shows "length written = length rs
     \<and> (\<forall>i < length rs. \<exists>d. rs ! i = PDict d \<and> written ! i = PDict (keep_fields fs d))"
  using filter_fields_result [OF assms] by (auto simp: list_all2_conv_all_nth)

section \<open>Runs of the spreadsheet pipeline\<close>

text \<open>
  The steps of two consecutive runs of phase 1 and phase 2 on the sample files, one lemma
  for each function that a run calls.
\<close>

lemma split_at_first_fresh:
  "p \<notin> set xs \<Longrightarrow> split_at_first (p # ps) (xs @ p # ps @ rest) = Some (xs, rest)"
  by (induction xs) simp_all

lemma sample_json_no_bracket: "CHR '']'' \<notin> set sample_parsed_json"
  by (simp add: sample_parsed_json_def label_unclassified_def label_unmatched_def)

lemma pipeline_texts_differ:
  "sample_handoff \<noteq> ''[]''" "sample_block1 \<noteq> ''[]''" "sample_block2 \<noteq> ''[]''"
  "sample_block1 \<noteq> sample_handoff" "sample_block2 \<noteq> sample_handoff"
  "sample_block2 \<noteq> sample_block1"
  by (simp_all add: sample_handoff_def sample_block1_def sample_block2_def sample_parsed_json_def)

lemma pipeline_loads_values:
  "json_loads rt1 ''[]'' = Some (PList [])"
  "json_loads rt1 sample_handoff = Some (PList [sample_parsed])"
  "json_loads rt1 sample_block1 = Some (PList [sample_parsed])"
  "json_loads rt1 sample_block2 = Some (PList [sample_parsed, sample_parsed])"
  by (simp_all add: rt1_def pipeline_loads_def pipeline_texts_differ)

lemma search_records_empty: "search_all_records (pipeline_doc ''[]'') = Some ''[]''"
  by (simp add: search_all_records_def search_block_def pipeline_doc_def)

lemma search_records_block1:
  "search_all_records (pipeline_doc sample_block1) = Some sample_block1"
  using split_at_first_fresh [OF sample_json_no_bracket, of "'';''" "''</script>''"]
  by (simp add: search_all_records_def search_block_def pipeline_doc_def sample_block1_def)

lemma search_records_block2:
  "search_all_records (pipeline_doc sample_block2) = Some sample_block2"
  using split_at_first_fresh [of "CHR '']''" "sample_parsed_json @ '','' @ sample_parsed_json"
      "'';''" "''</script>''"] sample_json_no_bracket
  by (simp add: search_all_records_def search_block_def pipeline_doc_def sample_block2_def)

lemma sample_json_plain:
  "CHR 0x5C \<notin> set sample_parsed_json" "CHR ''U'' \<notin> set sample_parsed_json"
  by (simp_all add: sample_parsed_json_def label_unclassified_def label_unmatched_def)

lemma pipeline_doc_no_date_marker:
  "\<not> sublist date_marker (pipeline_doc sample_block1)"
  "\<not> sublist date_marker (pipeline_doc sample_block2)"
proof -
  have u: "CHR ''U'' \<in> set date_marker" by (simp add: date_marker_def)
  have "CHR ''U'' \<notin> set (pipeline_doc sample_block1)"
    and "CHR ''U'' \<notin> set (pipeline_doc sample_block2)"
    using sample_json_plain
    by (simp_all add: pipeline_doc_def sample_block1_def sample_block2_def)
  with u show "\<not> sublist date_marker (pipeline_doc sample_block1)"
    and "\<not> sublist date_marker (pipeline_doc sample_block2)"
    by (auto dest: set_mono_sublist)
qed

lemma pipeline_parse_first: "parse_userchat rt1 sample_sheet [] {} = Inr [sample_parsed]"
  by (simp add: sample_sheet_def sample_chat_row_def userchat_record_def seconds_of_def
      float_of_int_exact date_str_of_def company_of_def py_or_def sample_parsed_def)

lemma pipeline_parse_second: "parse_userchat rt1 sample_sheet [] {PStr ''c1''} = Inr []"
  by (simp add: sample_sheet_def sample_chat_row_def)

lemma pipeline_index_first:
  "p1_load_existing_chat_ids rt1 (Some (pipeline_doc ''[]'')) = Inr {}"
  by (simp add: p1_load_existing_chat_ids_def search_records_empty pipeline_loads_values)

lemma pipeline_index_second:
  "p1_load_existing_chat_ids rt1 (Some (pipeline_doc sample_block1)) = Inr {PStr ''c1''}"
  by (simp add: p1_load_existing_chat_ids_def search_records_block1 pipeline_loads_values)
    (simp add: sample_parsed_def)

lemma pipeline_handoff_checks:
  "date_keys [sample_parsed] = Inr [PStr ''2026-02-20'']"
  "json_serializable (PList [sample_parsed])"
  by (simp_all add: sample_parsed_def alist_get_def)

lemma pipeline_dumps_values:
  "json_dumps_indent rt1 (PList [sample_parsed]) = sample_handoff"
  "json_dumps rt1 (PList [sample_parsed]) = sample_block1"
  "json_dumps rt1 (PList [sample_parsed, sample_parsed]) = sample_block2"
  "strptime_ymd rt1 ''2026-02-20'' = Some (2026, 2, 20)"
  by (simp_all add: rt1_def pipeline_dumps_def sample_strptime_def)

lemma first_run_phase1: "p1_main rt1 pipeline_workbook files0 = Inr files1"
  by (simp add: p1_main_def files0_def files1_def pipeline_index_first pipeline_workbook_def
      build_user_map_def pipeline_parse_first pipeline_handoff_checks keys_comparable_def
      pipeline_dumps_values
      del: date_keys.simps json_serializable.simps)

lemma second_run_phase1: "p1_main rt1 pipeline_workbook files2 = Inr files2"
  by (simp add: p1_main_def files2_def pipeline_index_second pipeline_workbook_def
      build_user_map_def pipeline_parse_second)

lemma pipeline_enrich:
  "build_corp_number_map rt1 (Some pipeline_workbook) = []"
  "p2_corp_ids [] [sample_parsed] = Inr {}"
  "p2_fetch_segments_from_bq rt1 sample_bq {} None = (Inr [], None)"
  "enrich_records [sample_parsed] [] [] = Inr ([sample_parsed], 0)"
  by (simp_all add: build_corp_number_map_def pipeline_workbook_def sample_sheet_def
      sample_chat_row_def sample_parsed_def p2_fetch_segments_from_bq_def enrich_record_def)

lemma pipeline_kept:
  "filter_fields INDEX_FIELDS [sample_parsed] = Inr [sample_parsed]"
  "filter_fields INDEX_FIELDS [sample_parsed, sample_parsed]
     = Inr [sample_parsed, sample_parsed]"
  by (simp_all add: sample_parsed_def keep_fields_def INDEX_FIELDS_def alist_get_def)

lemma writer_block_empty:
  "search_block block_marker (pipeline_doc ''[]'') = Some (''<script>'', [], ''</script>'')"
  by (simp add: search_block_def block_marker_def pipeline_doc_def)

lemma writer_block1:
  "search_block block_marker (pipeline_doc sample_block1)
     = Some (''<script>'', sample_parsed_json, ''</script>'')"
  using split_at_first_fresh [OF sample_json_no_bracket, of "'';''" "''</script>''"]
  by (simp add: search_block_def block_marker_def pipeline_doc_def sample_block1_def)

lemma pipeline_template:
  "re_template rt1 (new_line_of rt1 [sample_parsed])
     = Some (\<lambda>matched. ''    const ALL_RECORDS = '' @ sample_block1 @ '';'')"
  "re_template rt1 (new_line_of rt1 [sample_parsed, sample_parsed])
     = Some (\<lambda>matched. ''    const ALL_RECORDS = '' @ sample_block2 @ '';'')"
  using sample_json_plain(1)
  by (simp_all add: re_template_def new_line_of_def pipeline_dumps_values sample_block1_def
      sample_block2_def)

lemma first_run_written:
  "p2_inject_into_html rt1 (Some (pipeline_doc ''[]'')) [sample_parsed] INDEX_FIELDS
     = Inr (pipeline_doc sample_block1)"
  by (simp add: p2_inject_into_html_def pipeline_kept sub_all_records_def pipeline_template
      writer_block_empty del: filter_fields.simps)
    (simp add: pipeline_doc_def)

lemma second_run_written:
  "p2_inject_into_html rt1 (Some (pipeline_doc sample_block1)) [sample_parsed, sample_parsed]
       INDEX_FIELDS
     = Inr (pipeline_doc sample_block2)"
  by (simp add: p2_inject_into_html_def pipeline_kept sub_all_records_def pipeline_template
      writer_block1 del: filter_fields.simps)
    (simp add: pipeline_doc_def)

lemma pipeline_dated:
  "update_date rt1 [sample_parsed] content = Inr (sub_date ''2026. 2. 20.'' content)"
  "update_date rt1 [sample_parsed, sample_parsed] content
     = Inr (sub_date ''2026. 2. 20.'' content)"
  by (simp_all add: update_date_def sample_parsed_def alist_get_def max_date_of_def
      pipeline_dumps_values date_display_def str_nat.simps)

lemma pipeline_existing:
  "p2_load_existing_records rt1 (Some (pipeline_doc ''[]''))
     = Inr (PList [], pipeline_doc ''[]'')"
  "p2_load_existing_records rt1 (Some (pipeline_doc sample_block1))
     = Inr (PList [sample_parsed], pipeline_doc sample_block1)"
  "p2_load_existing_records rt1 (Some (pipeline_doc sample_block2))
     = Inr (PList [sample_parsed, sample_parsed], pipeline_doc sample_block2)"
  by (simp_all add: p2_load_existing_records_def search_records_empty search_records_block1
      search_records_block2 pipeline_loads_values)

lemma first_run_phase2: "p2_main rt1 sample_bq (Some pipeline_workbook) files1 = Inr files2"
  by (simp add: p2_main_def files1_def files2_def pipeline_loads_values pipeline_enrich
      pipeline_existing first_run_written pipeline_dated
      sub_date_no_marker [OF pipeline_doc_no_date_marker(1)]
      del: p2_corp_ids.simps enrich_records.simps)

lemma second_run_phase2: "p2_main rt1 sample_bq (Some pipeline_workbook) files2 = Inr files3"
  by (simp add: p2_main_def files2_def files3_def pipeline_loads_values pipeline_enrich
      pipeline_existing second_run_written pipeline_dated
      sub_date_no_marker [OF pipeline_doc_no_date_marker(2)]
      del: p2_corp_ids.simps enrich_records.simps)

section \<open>Idempotence, identity uniqueness and the merge frame\<close>

lemma sample_run_p3:
  "p3_reconcile rt0 sample_bq [sample_db_row] sample_existing None
     = (Inr (Some (sample_existing @ [sample_converted])), None)"
  by (simp add: p3_reconcile_def sample_existing_def sample_db_row_def alist_get_def
      corp_digits_def py_or_def strip_non_digits_def p3_fetch_segments_from_bq_def
      load_segment_cache_def convert_record_def sample_converted_def)

lemma sample_parse:
  "parse_userchat rt0 sample_sheet [] {PStr ''A1''} = Inr [sample_parsed]"
  by (simp add: sample_sheet_def sample_chat_row_def userchat_record_def seconds_of_def
      float_of_int_exact date_str_of_def company_of_def py_or_def sample_parsed_def)

lemma sample_run_p2:
  "p2_reconcile rt0 sample_bq None [sample_parsed] sample_existing None
     = (Inr (Some (sample_existing @ [sample_parsed], 0)), None)"
  by (simp add: p2_reconcile_def build_corp_number_map_def sample_parsed_def
      p2_fetch_segments_from_bq_def enrich_record_def)

lemma sample_written:
  "filter_fields INDEX_FIELDS (sample_existing @ [sample_parsed])
     = Inr [sample_db_record_kept, sample_parsed]"
  by (simp add: sample_existing_def sample_parsed_def sample_db_record_kept_def
      keep_fields_def INDEX_FIELDS_def alist_get_def)

text \<open>
  Claim C1 (idempotence of reconciliation): a second run of the pipeline with the same
  batch against the destination that the first run left contributes no record. The store
  path (phase 3) does this: the second run on the sample store finds no new row. The
  spreadsheet path does not. On the sample files the first run of phase 1 writes the
  record of \<^verbatim>\<open>c1\<close> to the hand-off file and the first run of phase 2 appends it to the
  destination. The second run of phase 1 finds no new record and returns before it
  writes the hand-off file, which keeps the record of the first run; the second run of
  phase 2 reads that file and appends the record again, so the destination holds the
  identity \<^verbatim>\<open>c1\<close> twice.
\<close>

theorem second_run_duplicates:
  "p1_main rt1 pipeline_workbook files0 = Inr files1
   \<and> p2_main rt1 sample_bq (Some pipeline_workbook) files1 = Inr files2
   \<and> p2_load_existing_records rt1 (index_html files2)
       = Inr (PList [sample_parsed], pipeline_doc sample_block1)
   \<and> p1_main rt1 pipeline_workbook files2 = Inr files2
   \<and> new_records_json files2 = Some sample_handoff
   \<and> p2_main rt1 sample_bq (Some pipeline_workbook) files2 = Inr files3
   \<and> p2_load_existing_records rt1 (index_html files3)
       = Inr (PList [sample_parsed, sample_parsed], pipeline_doc sample_block2)
   \<and> \<not> distinct (map p1_identity [sample_parsed, sample_parsed])
   \<and> p3_reconcile rt0 sample_bq [sample_db_row] sample_existing None
       = (Inr (Some (sample_existing @ [sample_converted])), None)
   \<and> p3_reconcile rt0 sample_bq [sample_db_row] (sample_existing @ [sample_converted]) None
       = (Inr None, None)"
proof -
  have "p2_load_existing_records rt1 (index_html files2)
      = Inr (PList [sample_parsed], pipeline_doc sample_block1)"
    and "p2_load_existing_records rt1 (index_html files3)
      = Inr (PList [sample_parsed, sample_parsed], pipeline_doc sample_block2)"
    and "new_records_json files2 = Some sample_handoff"
    by (simp_all add: files2_def files3_def pipeline_existing)
  moreover have "p3_reconcile rt0 sample_bq [sample_db_row]
      (sample_existing @ [sample_converted]) None = (Inr None, None)"
    using p3_second_run [OF sample_run_p3] by (simp add: accepted_after_def)
  ultimately show ?thesis
    using first_run_phase1 first_run_phase2 second_run_phase1 second_run_phase2 sample_run_p3
    by simp
qed

text \<open>
  Claim C2 as stated fails: a batch that holds the identity \<^verbatim>\<open>B2\<close> twice passes the filter
  twice, because the index is the one built at the start of the run, and the Accepted Set
  ends with two records of that identity.
\<close>

theorem identity_uniqueness_counterexample:
  "distinct (map p3_identity sample_existing)
   \<and> p3_reconcile rt0 sample_bq [sample_db_row, sample_db_row] sample_existing None
       = (Inr (Some (sample_existing @ [sample_converted, sample_converted])), None)
   \<and> \<not> distinct (map p3_identity (sample_existing @ [sample_converted, sample_converted]))"
  by (simp add: p3_reconcile_def sample_existing_def sample_db_row_def alist_get_def
      corp_digits_def py_or_def strip_non_digits_def p3_fetch_segments_from_bq_def
      load_segment_cache_def convert_record_def sample_converted_def)

text \<open>
  Claim C2 as amended. Let the identities of the Accepted Set be pairwise distinct and
  let the identities of the incoming batch be pairwise distinct. Then the identities of
  the Accepted Set after the run are pairwise distinct: for phase 3 with the rows of the
  store as the batch, and for phase 1 with phase 2 with the rows of the sheet that have a
  chat id as the batch, both for the list handed to the writer and for the list that the
  writer of phase 2 serializes.
\<close>

theorem identity_uniqueness:
  "(\<forall>result cache1.
      distinct (map p3_identity existing_records)
    \<and> distinct (map db_slack_ts db_records)
    \<and> p3_reconcile rt bq db_records existing_records cache = (Inr result, cache1)
    \<longrightarrow> distinct (map p3_identity (accepted_after existing_records result)))
   \<and> (\<forall>ids new_records all_index matched cache1 written.
        distinct (map p1_identity existing_index)
      \<and> distinct (map chat_id (filter (\<lambda>row. truthy (chat_id row)) rows))
      \<and> p1_chat_ids existing_index = Inr ids
      \<and> parse_userchat rt rows user_map ids = Inr new_records
      \<and> p2_reconcile rt bq wb new_records existing_index cache
          = (Inr (Some (all_index, matched)), cache1)
      \<and> filter_fields INDEX_FIELDS all_index = Inr written
      \<longrightarrow> distinct (map p1_identity all_index) \<and> distinct (map p1_identity written))"
proof (intro conjI allI impI)
  fix result cache1
  assume "distinct (map p3_identity existing_records)
    \<and> distinct (map db_slack_ts db_records)
    \<and> p3_reconcile rt bq db_records existing_records cache = (Inr result, cache1)"
  then show "distinct (map p3_identity (accepted_after existing_records result))"
    using p3_identities_distinct by blast
next
  fix ids new_records all_index matched cache1 written
  assume a: "distinct (map p1_identity existing_index)
      \<and> distinct (map chat_id (filter (\<lambda>row. truthy (chat_id row)) rows))
      \<and> p1_chat_ids existing_index = Inr ids
      \<and> parse_userchat rt rows user_map ids = Inr new_records
      \<and> p2_reconcile rt bq wb new_records existing_index cache
          = (Inr (Some (all_index, matched)), cache1)
      \<and> filter_fields INDEX_FIELDS all_index = Inr written"
  then have "distinct (map p1_identity all_index) \<and> distinct (map p1_identity written)"
    using p1_identities_distinct [of existing_index rows ids rt user_map new_records bq wb
        cache all_index matched cache1 written]
    by blast
  then show "distinct (map p1_identity all_index)" and "distinct (map p1_identity written)"
    by simp_all
qed

theorem identity_uniqueness_witness:
  "distinct (map p3_identity sample_existing)
   \<and> distinct (map db_slack_ts [sample_db_row])
   \<and> p3_reconcile rt0 sample_bq [sample_db_row] sample_existing None
       = (Inr (Some (sample_existing @ [sample_converted])), None)
   \<and> distinct (map p3_identity (sample_existing @ [sample_converted]))
   \<and> distinct (map p1_identity sample_existing)
   \<and> distinct (map chat_id (filter (\<lambda>row. truthy (chat_id row)) sample_sheet))
   \<and> p1_chat_ids sample_existing = Inr {PStr ''A1''}
   \<and> parse_userchat rt0 sample_sheet [] {PStr ''A1''} = Inr [sample_parsed]
   \<and> p2_reconcile rt0 sample_bq None [sample_parsed] sample_existing None
       = (Inr (Some (sample_existing @ [sample_parsed], 0)), None)
   \<and> filter_fields INDEX_FIELDS (sample_existing @ [sample_parsed])
       = Inr [sample_db_record_kept, sample_parsed]
   \<and> distinct (map p1_identity (sample_existing @ [sample_parsed]))
   \<and> distinct (map p1_identity [sample_db_record_kept, sample_parsed])"
proof -
  have h: "distinct (map p3_identity sample_existing)"
    "distinct (map db_slack_ts [sample_db_row])"
    "distinct (map p1_identity sample_existing)"
    "distinct (map chat_id (filter (\<lambda>row. truthy (chat_id row)) sample_sheet))"
    "p1_chat_ids sample_existing = Inr {PStr ''A1''}"
    by (simp_all add: sample_existing_def sample_sheet_def)
  from identity_uniqueness [where existing_records = sample_existing
      and db_records = "[sample_db_row]" and rt = rt0 and bq = sample_bq and cache = None
      and existing_index = sample_existing and rows = sample_sheet and user_map = "[]"
      and wb = None]
    h sample_run_p3 sample_parse sample_run_p2 sample_written
  have "distinct (map p3_identity (accepted_after sample_existing
                    (Some (sample_existing @ [sample_converted]))))"
    and "distinct (map p1_identity (sample_existing @ [sample_parsed]))
       \<and> distinct (map p1_identity [sample_db_record_kept, sample_parsed])"
    by blast+
  with h sample_run_p3 sample_parse sample_run_p2 sample_written show ?thesis
    by (simp add: accepted_after_def)
qed

text \<open>
  Claim C3 (merge frame guarantee): a merge never modifies a field of a previously
  accepted record. The store path (phase 3) keeps the guarantee: the list it serializes
  holds the accepted record as it was, in front of the new one. The spreadsheet path
  (phase 2) does not: its writer rebuilds every record, the previously accepted ones
  included, from the thirteen index fields, so a record that phase 3 wrote earlier is
  written back without the fields of the store (\<^verbatim>\<open>title\<close>, \<^verbatim>\<open>source\<close>).
\<close>

theorem phase2_writer_drops_fields:
  "p2_reconcile rt0 sample_bq None [sample_dated_record] [sample_db_record] None
     = (Inr (Some ([sample_db_record, sample_dated_record], 0)), None)
   \<and> filter_fields INDEX_FIELDS [sample_db_record, sample_dated_record]
     = Inr [sample_db_record_kept, sample_dated_record_kept]
   \<and> sample_db_record_kept \<noteq> sample_db_record
   \<and> py_get sample_db_record ''source'' PNone = Inr (PStr ''db'')
   \<and> py_get sample_db_record_kept ''source'' PNone = Inr PNone
   \<and> py_get sample_db_record ''title'' PNone = Inr (PStr ''card limit'')
   \<and> py_get sample_db_record_kept ''title'' PNone = Inr PNone
   \<and> p3_reconcile rt0 sample_bq [sample_db_row] [sample_db_record] None
     = (Inr (Some [sample_db_record, sample_converted]), None)"
  by (simp add: p2_reconcile_def build_corp_number_map_def sample_dated_record_def
      p2_fetch_segments_from_bq_def enrich_record_def sample_db_record_def
      sample_db_record_kept_def sample_dated_record_kept_def keep_fields_def
      INDEX_FIELDS_def alist_get_def p3_reconcile_def sample_db_row_def corp_digits_def
      py_or_def strip_non_digits_def p3_fetch_segments_from_bq_def load_segment_cache_def
      convert_record_def sample_converted_def)

end
